theory Spec2Isabelle
  imports Complex_Main "HOL-Library.Word"
begin

unbundle bit_operations_syntax

section \<open>Pulsar synthesis engine (crab\_nebula.cpp): shallow embedding\<close>

text \<open>
  Conventions of the embedding.
  \<^item> A C \<open>float\<close> is a \<open>real\<close>: every arithmetic operation is exact, and \<open>sinf\<close>,
    \<open>cosf\<close>, \<open>expf\<close>, \<open>exp2f\<close> and \<open>M_PI\<close> are the mathematical \<open>sin\<close>, \<open>cos\<close>,
    \<open>exp\<close>, \<open>2 powr x\<close> and \<open>pi\<close>. Rounding and overflow of the arithmetic are outside
    the model.
  \<^item> A division by a zero sample rate or frame count gives an infinity in C and 0 here:
    the statements about the phase, the glide and the morph indices ask for a positive
    sample rate and for blocks of at least one frame.
  \<^item> The exponent arithmetic of \<open>fastExp2f\<close> turns finite numbers into an infinity or a
    NaN. Its result, the frequency and the phase increment computed from it are values of
    the type \<open>fval\<close>, and the phase accumulator, which adds the increment, is \<open>Some x\<close>
    for a finite number \<open>x\<close> and \<open>None\<close> for NaN.
  \<^item> \<open>uint32_t\<close> is \<open>32 word\<close>, \<open>uint8_t\<close> is \<open>8 word\<close>; an \<open>int\<close> whose values stay far
    from the 32-bit limits is an \<open>int\<close>.
  \<^item> A C array is a list; \<open>float x[3]\<close> is a list of length 3.
  \<^item> The cast \<open>(int)x\<close> of a float truncates towards zero when the result fits a 32-bit
    \<open>int\<close>; otherwise the behaviour of the C program is undefined, and the model leaves
    the value of the cast unspecified.
\<close>

type_synonym u8 = "8 word"
type_synonym u32 = "32 word"

subsection \<open>Table sizes (lines 43--46)\<close>

definition kTableSize :: int where "kTableSize = 2048"
definition kNumPulsarets :: int where "kNumPulsarets = 10"
definition kNumWindows :: int where "kNumWindows = 5"
definition kSampleBufferSize :: int where "kSampleBufferSize = 48000"

subsection \<open>The cast from float to int\<close>

text \<open>
  \<open>fits_int x\<close>: the truncation of \<open>x\<close> lies in \<open>[-2\<^sup>3\<^sup>1, 2\<^sup>3\<^sup>1 - 1]\<close>. Outside that
  range the cast has no defined result in C; \<open>int_of_float\<close> is then some integer of
  which nothing is known, so that no statement can rest on it.
\<close>

definition fits_int :: "real \<Rightarrow> bool" where
  "fits_int x = (- 2147483649 < x \<and> x < 2147483648)"

definition int_of_float :: "real \<Rightarrow> int" where
  "int_of_float x =
     (if fits_int x then (if 0 \<le> x then \<lfloor>x\<rfloor> else \<lceil>x\<rceil>) else undefined)"

subsection \<open>coeffFromMs (lines 336--342)\<close>

definition coeffFromMs :: "real \<Rightarrow> real \<Rightarrow> real" where
  "coeffFromMs ms sr =
     (if ms \<le> 0 then 0
      else (let samples = ms * sr * 0.001 in
            if samples < 1 then 0 else exp (- 1 / samples)))"

subsection \<open>Inline helpers for audio processing (lines 858--917)\<close>

definition readTableLerp :: "real list \<Rightarrow> int \<Rightarrow> real \<Rightarrow> real" where
  "readTableLerp table tableSize phase =
     (let pos = phase * of_int tableSize;
          idx = int_of_float pos;
          frac = pos - of_int idx;
          idx1 = idx AND (tableSize - 1);
          idx2 = (idx1 + 1) AND (tableSize - 1)
      in table ! nat idx1 + frac * (table ! nat idx2 - table ! nat idx1))"

definition readTableMorph :: "real list list \<Rightarrow> real \<Rightarrow> real \<Rightarrow> real" where
  "readTableMorph tables index phase =
     (let idx0 = int_of_float index;
          frac = index - of_int idx0;
          (idx0, frac) = (if idx0 < 0 then (0, 0) else (idx0, frac));
          (idx0, frac) = (if idx0 \<ge> kNumPulsarets - 1 then (kNumPulsarets - 2, 1) else (idx0, frac));
          s0 = readTableLerp (tables ! nat idx0) kTableSize phase;
          s1 = readTableLerp (tables ! nat (idx0 + 1)) kTableSize phase
      in s0 + frac * (s1 - s0))"

definition readWindowMorph :: "real list list \<Rightarrow> real \<Rightarrow> real \<Rightarrow> real" where
  "readWindowMorph tables index phase =
     (let idx0 = int_of_float index;
          frac = index - of_int idx0;
          (idx0, frac) = (if idx0 < 0 then (0, 0) else (idx0, frac));
          (idx0, frac) = (if idx0 \<ge> kNumWindows - 1 then (kNumWindows - 2, 1) else (idx0, frac));
          s0 = readTableLerp (tables ! nat idx0) kTableSize phase;
          s1 = readTableLerp (tables ! nat (idx0 + 1)) kTableSize phase
      in s0 + frac * (s1 - s0))"

definition fastTanh :: "real \<Rightarrow> real" where
  "fastTanh x = (let x2 = x * x in x * (27 + x2) / (27 + 9 * x2))"

text \<open>
  A float that may be infinite or NaN.
\<close>

datatype fval = Finite real | PlusInf | MinusInf | NaN

text \<open>
  \<open>fastExp2f\<close> adds \<open>(int32_t)fi << 23\<close> to the bit pattern of the polynomial value \<open>p\<close>.
  \<open>p\<close> lies in \<open>[1, 2)\<close>: its sign bit is 0, its exponent field is 127 and its mantissa
  field holds \<open>p - 1\<close>. The left shift of a negative \<open>fi\<close> is read on the
  two's-complement representation, as the compiler defines it. The addition leaves the
  mantissa alone and gives the integer \<open>(127 + fi) * 2 ^ 23 + mantissa\<close>:
  \<^item> for \<open>fi\<close> from \<open>-126\<close> to 127 the exponent field is \<open>127 + fi\<close>, from 1 to 254, and
    the result is the normal number \<open>p * 2 ^ fi\<close>;
  \<^item> for \<open>fi = -127\<close> the exponent field is 0 and the result is the subnormal number
    \<open>(p - 1) * 2 ^ (-126)\<close>;
  \<^item> for \<open>fi = 128\<close> the exponent field is 255: the result is \<open>+infinity\<close> when the
    mantissa is 0 (\<open>p = 1\<close>) and a NaN otherwise;
  \<^item> for \<open>fi\<close> from \<open>-256\<close> to \<open>-128\<close> the integer is negative: the sign bit is set and
    the exponent field is \<open>383 + fi\<close>, so that the result is \<open>-infinity\<close> or a NaN for
    \<open>fi = -128\<close> and the negative number \<open>- p * 2 ^ (256 + fi)\<close> below;
  \<^item> for \<open>fi > 128\<close> and for \<open>fi < -256\<close> the signed addition overflows (and for large
    \<open>fi\<close> the cast does as well): the behaviour is undefined in C, and the model leaves
    the result unspecified.
\<close>

definition fastExp2f :: "real \<Rightarrow> fval" where
  "fastExp2f x =
     (let fi = \<lfloor>x\<rfloor>;
          f = x - of_int fi;
          p = f * (f * (f * 0.079441 + 0.227411) + 0.693147) + 1
      in if 0 \<le> fi \<and> fi \<le> 127 then Finite (p * 2 ^ nat fi)
         else if - 126 \<le> fi \<and> fi < 0 then Finite (p / 2 ^ nat (- fi))
         else if fi = - 127 then Finite ((p - 1) / 2 ^ 126)
         else if fi = 128 then (if p = 1 then PlusInf else NaN)
         else if fi = - 128 then (if p = 1 then MinusInf else NaN)
         else if - 256 \<le> fi \<and> fi \<le> - 129 then Finite (- (p * 2 ^ nat (256 + fi)))
         else undefined)"

text \<open>
  The product of a finite float \<open>a\<close> and a float that may be infinite or NaN
  (IEEE 754: \<open>0 * infinity\<close> is NaN).
\<close>

definition fval_mult :: "real \<Rightarrow> fval \<Rightarrow> fval" where
  "fval_mult a e =
     (case e of
        Finite r \<Rightarrow> Finite (a * r)
      | PlusInf \<Rightarrow> (if 0 < a then PlusInf else if a < 0 then MinusInf else NaN)
      | MinusInf \<Rightarrow> (if 0 < a then MinusInf else if a < 0 then PlusInf else NaN)
      | NaN \<Rightarrow> NaN)"

subsection \<open>Memory structures (lines 53--102, 289--325)\<close>

record pulsarDRAM =
  pulsaretTables :: "real list list"
  windowTables :: "real list list"
  sampleBuffer :: "real list"

text \<open>The legacy fields \<open>cvPitchOffset\<close> ... \<open>cvMaskMod\<close>, which no function reads, are left out.\<close>

text \<open>
  \<open>masterPhase\<close> is \<open>None\<close> when the accumulator holds a NaN. It cannot become infinite:
  it starts at 0 and every increment is clamped.
\<close>

record pulsarDTC =
  masterPhase :: "real option"
  fundamentalHz :: real
  targetFundamentalHz :: real
  glideCoeff :: real
  formantDuty :: "real list"
  maskSmooth :: "real list"
  maskTarget :: "real list"
  maskSmoothCoeff :: real
  envValue :: real
  envTarget :: real
  attackCoeff :: real
  releaseCoeff :: real
  leakDC_xL :: real
  leakDC_yL :: real
  leakDC_xR :: real
  leakDC_yR :: real
  leakDC_coeff :: real
  currentNote :: u8
  velocity :: u8
  gate :: bool
  prevPulseActive :: bool
  prngState :: u32
  burstCounter :: u32

text \<open>The parameter indices that the modelled functions read (enum at lines 111--173).\<close>

datatype param =
    kParamPulsaret | kParamWindow | kParamDutyCycle | kParamDutyMode
  | kParamFormantCount | kParamFormant1Hz | kParamFormant2Hz | kParamFormant3Hz
  | kParamMaskMode | kParamMaskAmount | kParamBurstOn | kParamBurstOff
  | kParamAttack | kParamRelease | kParamAmplitude | kParamGlide
  | kParamPan1 | kParamPan2 | kParamPan3
  | kParamUseSample | kParamFolder | kParamFile | kParamSampleRate
  | kParamMidiCh | kParamGateMode | kParamBasePitch

text \<open>
  \<open>pv\<close> is the host-owned array \<open>v\<close> of current parameter values; \<open>dtc\<close> and \<open>dram\<close>
  are the memory regions the algorithm struct points to. The parameter definitions
  (\<open>params\<close>) and \<open>cardMounted\<close> serve the host interface only and are left out; of
  \<open>wavRequest\<close> the model keeps \<open>numFrames\<close>, the number of frames asked of the loader
  (its destination is always \<open>sampleBuffer\<close>).
\<close>

record pulsarAlgorithm =
  pv :: "param \<Rightarrow> int"
  dtc :: pulsarDTC
  dram :: pulsarDRAM
  pulsaretIndex :: real
  windowIndex :: real
  dutyCycle :: real
  dutyMode :: int
  formantCount :: int
  formantHz :: "real list"
  maskMode :: int
  maskAmount :: real
  burstOn :: int
  burstOff :: int
  attackMs :: real
  releaseMs :: real
  amplitude :: real
  glideMs :: real
  pan :: "real list"
  useSample :: int
  sampleRateRatio :: real
  gateMode :: int
  basePitchHz :: real
  wavRequest_numFrames :: int
  awaitingCallback :: bool
  sampleLoadedFrames :: int

subsection \<open>Table generation (lines 363--451)\<close>

definition pulsaret_cell :: "nat \<Rightarrow> nat \<Rightarrow> real" where
  "pulsaret_cell t i =
     (let p = real i / of_int kTableSize;
          twoPiP = 2 * pi * p
      in if t = 0 then sin twoPiP
         else if t = 1 then sin (2 * twoPiP)
         else if t = 2 then sin (3 * twoPiP)
         else if t = 3 then (let x = (p - 0.5) * 8 * pi in if \<bar>x\<bar> < 0.0001 then 1 else sin x / x)
         else if t = 4 then (let t4 = 4 * p in
                             if p < 0.25 then t4 else if p < 0.75 then 2 - t4 else t4 - 4)
         else if t = 5 then 2 * p - 1
         else if t = 6 then (if p < 0.5 then 1 else - 1)
         else if t = 7 then sin (twoPiP * 3) * exp (- 3 * p)
         else (let x = (p - 0.5) * 20 in exp (- x * x)))"

fun noise_seed :: "nat \<Rightarrow> u32" where
  "noise_seed 0 = 12345"
| "noise_seed (Suc i) = noise_seed i * 1664525 + 1013904223"

definition generatePulsaretTables :: "real list list" where
  "generatePulsaretTables =
     map (\<lambda>t. map (\<lambda>i. if t = 9 then real_of_int (sint (noise_seed (Suc i))) / 2147483648
                         else pulsaret_cell t i) [0..<nat kTableSize]) [0..<nat kNumPulsarets]"

definition window_cell :: "nat \<Rightarrow> nat \<Rightarrow> real" where
  "window_cell t i =
     (let p = real i / of_int (kTableSize - 1)
      in if t = 0 then 1
         else if t = 1 then (let x = (p - 0.5) / 0.3 in exp (- 0.5 * x * x))
         else if t = 2 then 0.5 * (1 - cos (2 * pi * p))
         else if t = 3 then exp (- 4 * p)
         else 1 - p)"

definition generateWindowTables :: "real list list" where
  "generateWindowTables =
     map (\<lambda>t. map (\<lambda>i. window_cell t i) [0..<nat kTableSize]) [0..<nat kNumWindows]"

subsection \<open>construct (lines 485--572)\<close>

text \<open>
  \<open>sr\<close> is \<open>NT_globals.sampleRate\<close>; \<open>v0\<close> is the parameter array the host hands over.
\<close>

definition construct :: "real \<Rightarrow> (param \<Rightarrow> int) \<Rightarrow> pulsarAlgorithm" where
  "construct sr v0 =
     \<lparr> pv = v0,
       dtc = \<lparr> masterPhase = Some 0, fundamentalHz = 0, targetFundamentalHz = 0, glideCoeff = 0,
               formantDuty = [0.5, 0.5, 0.5], maskSmooth = [1, 1, 1], maskTarget = [1, 1, 1],
               maskSmoothCoeff = coeffFromMs 3 sr,
               envValue = 0, envTarget = 0, attackCoeff = 0.99, releaseCoeff = 0.999,
               leakDC_xL = 0, leakDC_yL = 0, leakDC_xR = 0, leakDC_yR = 0,
               leakDC_coeff = 1 - (2 * pi * 25 / sr),
               currentNote = 0, velocity = 0, gate = False, prevPulseActive = False,
               prngState = 48271, burstCounter = 0 \<rparr>,
       dram = \<lparr> pulsaretTables = generatePulsaretTables,
                windowTables = generateWindowTables,
                sampleBuffer = replicate (nat kSampleBufferSize) 0 \<rparr>,
       pulsaretIndex = 0, windowIndex = 2, dutyCycle = 0.5, dutyMode = 0,
       formantCount = 1, formantHz = [440, 880, 1320],
       maskMode = 0, maskAmount = 0.5, burstOn = 4, burstOff = 4,
       attackMs = 10, releaseMs = 200, amplitude = 0.8, glideMs = 0,
       pan = [0, - 0.5, 0.5],
       useSample = 0, sampleRateRatio = 1, gateMode = 0, basePitchHz = 440,
       wavRequest_numFrames = kSampleBufferSize,
       awaitingCallback = False, sampleLoadedFrames = 0 \<rparr>"

subsection \<open>wavCallback (lines 457--461)\<close>

definition wavCallback :: "pulsarAlgorithm \<Rightarrow> pulsarAlgorithm" where
  "wavCallback alg = alg\<lparr>awaitingCallback := False\<rparr>"

text \<open>
  What the host's loader does before it calls \<open>wavCallback\<close>: it writes the frames it read,
  at most the number asked for, to the start of the sample buffer.
\<close>

definition loader_write :: "real list \<Rightarrow> pulsarAlgorithm \<Rightarrow> pulsarAlgorithm" where
  "loader_write frames alg =
     (let k = min (length frames) (nat (wavRequest_numFrames alg));
          buf = sampleBuffer (dram alg)
      in alg\<lparr>dram := (dram alg)\<lparr>sampleBuffer := take k frames @ drop k buf\<rparr>\<rparr>)"

subsection \<open>parameterChanged (lines 627--788)\<close>

text \<open>
  The calls that grey parameters out and update parameter definitions touch the host's
  display only. \<open>numFrames\<close> is what \<open>NT_getSampleFileInfo\<close> reports for the selected
  file and \<open>accepted\<close> is the result of \<open>NT_readSampleFrames\<close>.
\<close>

definition parameterChanged :: "real \<Rightarrow> int \<Rightarrow> bool \<Rightarrow> param \<Rightarrow> pulsarAlgorithm \<Rightarrow> pulsarAlgorithm" where
  "parameterChanged sr numFrames accepted p alg =
     (let v = pv alg; d = dtc alg in
      case p of
        kParamPulsaret \<Rightarrow> alg\<lparr>pulsaretIndex := of_int (v kParamPulsaret) / 10\<rparr>
      | kParamWindow \<Rightarrow> alg\<lparr>windowIndex := of_int (v kParamWindow) / 10\<rparr>
      | kParamDutyCycle \<Rightarrow> alg\<lparr>dutyCycle := of_int (v kParamDutyCycle) / 100\<rparr>
      | kParamDutyMode \<Rightarrow> alg\<lparr>dutyMode := v kParamDutyMode\<rparr>
      | kParamFormantCount \<Rightarrow> alg\<lparr>formantCount := v kParamFormantCount\<rparr>
      | kParamFormant1Hz \<Rightarrow> alg\<lparr>formantHz := (formantHz alg)[0 := of_int (v kParamFormant1Hz)]\<rparr>
      | kParamFormant2Hz \<Rightarrow> alg\<lparr>formantHz := (formantHz alg)[1 := of_int (v kParamFormant2Hz)]\<rparr>
      | kParamFormant3Hz \<Rightarrow> alg\<lparr>formantHz := (formantHz alg)[2 := of_int (v kParamFormant3Hz)]\<rparr>
      | kParamMaskMode \<Rightarrow> alg\<lparr>maskMode := v kParamMaskMode\<rparr>
      | kParamMaskAmount \<Rightarrow> alg\<lparr>maskAmount := of_int (v kParamMaskAmount) / 100\<rparr>
      | kParamBurstOn \<Rightarrow> alg\<lparr>burstOn := v kParamBurstOn\<rparr>
      | kParamBurstOff \<Rightarrow> alg\<lparr>burstOff := v kParamBurstOff\<rparr>
      | kParamAttack \<Rightarrow>
          (let ms = of_int (v kParamAttack) / 10 in
           alg\<lparr>attackMs := ms, dtc := d\<lparr>attackCoeff := coeffFromMs ms sr\<rparr>\<rparr>)
      | kParamRelease \<Rightarrow>
          (let ms = of_int (v kParamRelease) / 10 in
           alg\<lparr>releaseMs := ms, dtc := d\<lparr>releaseCoeff := coeffFromMs ms sr\<rparr>\<rparr>)
      | kParamAmplitude \<Rightarrow> alg\<lparr>amplitude := of_int (v kParamAmplitude) / 100\<rparr>
      | kParamGlide \<Rightarrow>
          (let ms = of_int (v kParamGlide) / 10 in
           alg\<lparr>glideMs := ms, dtc := d\<lparr>glideCoeff := coeffFromMs ms sr\<rparr>\<rparr>)
      | kParamPan1 \<Rightarrow> alg\<lparr>pan := (pan alg)[0 := of_int (v kParamPan1) / 100]\<rparr>
      | kParamPan2 \<Rightarrow> alg\<lparr>pan := (pan alg)[1 := of_int (v kParamPan2) / 100]\<rparr>
      | kParamPan3 \<Rightarrow> alg\<lparr>pan := (pan alg)[2 := of_int (v kParamPan3) / 100]\<rparr>
      | kParamUseSample \<Rightarrow> alg\<lparr>useSample := v kParamUseSample\<rparr>
      | kParamFolder \<Rightarrow> alg
      | kParamFile \<Rightarrow>
          (if \<not> awaitingCallback alg \<and> useSample alg \<noteq> 0
           then (let n = numFrames;
                     n = (if n > kSampleBufferSize then kSampleBufferSize else n)
                 in alg\<lparr>sampleLoadedFrames := n, wavRequest_numFrames := n,
                        awaitingCallback := (if accepted then True else awaitingCallback alg)\<rparr>)
           else alg)
      | kParamSampleRate \<Rightarrow> alg\<lparr>sampleRateRatio := of_int (v kParamSampleRate) / 100\<rparr>
      | kParamMidiCh \<Rightarrow> alg
      | kParamGateMode \<Rightarrow>
          (let gm = v kParamGateMode in
           if gm = 1
           then alg\<lparr>gateMode := gm,
                    dtc := d\<lparr>gate := True, envTarget := 1, velocity := 127,
                             targetFundamentalHz := basePitchHz alg,
                             fundamentalHz := (if fundamentalHz d \<le> 0 \<or> glideMs alg \<le> 0
                                               then basePitchHz alg else fundamentalHz d)\<rparr>\<rparr>
           else alg\<lparr>gateMode := gm, dtc := d\<lparr>gate := False, envTarget := 0\<rparr>\<rparr>)
      | kParamBasePitch \<Rightarrow>
          (let hz = 440 * 2 powr (of_int (v kParamBasePitch - 69) / 12) in
           if gateMode alg = 1
           then alg\<lparr>basePitchHz := hz,
                    dtc := d\<lparr>targetFundamentalHz := hz,
                             fundamentalHz := (if glideMs alg \<le> 0 \<or> fundamentalHz d \<le> 0
                                               then hz else fundamentalHz d)\<rparr>\<rparr>
           else alg\<lparr>basePitchHz := hz\<rparr>))"

subsection \<open>midiMessage (lines 800--847)\<close>

definition midiMessage :: "u8 \<Rightarrow> u8 \<Rightarrow> u8 \<Rightarrow> pulsarAlgorithm \<Rightarrow> pulsarAlgorithm" where
  "midiMessage byte0 byte1 byte2 alg =
     (let d = dtc alg in
      if gateMode alg = 1 then alg
      else (let channel = uint (byte0 AND 0x0f);
                status = byte0 AND 0xf0
            in if channel \<noteq> pv alg kParamMidiCh - 1 then alg
               else if status = 0x80 then
                 (if byte1 = currentNote d
                  then alg\<lparr>dtc := d\<lparr>gate := False, envTarget := 0\<rparr>\<rparr> else alg)
               else if status = 0x90 then
                 (if byte2 = 0 then
                    (if byte1 = currentNote d
                     then alg\<lparr>dtc := d\<lparr>gate := False, envTarget := 0\<rparr>\<rparr> else alg)
                  else
                    (let hz = 440 * 2 powr (of_int (uint byte1 - 69) / 12) in
                     alg\<lparr>dtc := d\<lparr>currentNote := byte1, velocity := byte2, gate := True,
                                     envTarget := 1, targetFundamentalHz := hz,
                                     fundamentalHz := (if glideMs alg \<le> 0 \<or> fundamentalHz d \<le> 0
                                                       then hz else fundamentalHz d)\<rparr>\<rparr>))
               else alg))"

subsection \<open>step: values computed once per block (lines 944--1140)\<close>

text \<open>
  A control-voltage input is \<open>None\<close> when its bus selector is 0 (the pointer stays
  \<open>NULL\<close>) and otherwise the \<open>numFrames\<close> frames of the selected bus.
\<close>

record cv_inputs =
  cvPitch :: "real list option"
  cvFormant :: "real list option"
  cvDuty :: "real list option"
  cvMask :: "real list option"
  cvPulsaret :: "real list option"
  cvWindow :: "real list option"
  cvGlide :: "real list option"
  cvSampleRate :: "real list option"
  cvAmplitude :: "real list option"

definition cv_avg :: "real list option \<Rightarrow> nat \<Rightarrow> real" where
  "cv_avg cv numFrames =
     (case cv of None \<Rightarrow> 0
      | Some xs \<Rightarrow> sum_list (take numFrames xs) * (1 / real numFrames))"

text \<open>The local variables of \<open>step\<close> that stay fixed during the sample loop.\<close>

record step_locals =
  l_pulsaretIdx :: real
  l_windowIdx :: real
  l_formantCvMul :: real
  l_hasMaskCV :: bool
  l_maskCvAmount :: real
  l_sampleRateRatio :: real
  l_ampCvMul :: real
  l_panL :: "real list"
  l_panR :: "real list"
  l_formantDuty :: "real list"
  l_invFormantCount :: real
  l_invSr :: real
  l_invDuty :: "real list"
  l_hasPitchCV :: bool
  l_formantRatioPrecomp :: "real list"
  l_maskSmoothCoeff :: real

text \<open>Lines 948--952 and 1069--1075: the writes to the DTC before the sample loop.\<close>

definition step_enter :: "real \<Rightarrow> cv_inputs \<Rightarrow> nat \<Rightarrow> pulsarAlgorithm \<Rightarrow> pulsarAlgorithm" where
  "step_enter sr cv numFrames alg =
     (let d = dtc alg;
          d = (if gateMode alg = 1
               then (let d = (if \<not> gate d then d\<lparr>gate := True, envTarget := 1\<rparr> else d)
                     in if velocity d = 0 then d\<lparr>velocity := 127\<rparr> else d)
               else d);
          d = (case cvGlide cv of None \<Rightarrow> d
               | Some _ \<Rightarrow>
                   (let glideMs = cv_avg (cvGlide cv) numFrames * 200;
                        glideMs = (if glideMs < 0 then 0 else glideMs);
                        glideMs = (if glideMs > 2000 then 2000 else glideMs)
                    in d\<lparr>glideCoeff := coeffFromMs glideMs sr\<rparr>))
      in alg\<lparr>dtc := d\<rparr>)"

text \<open>Lines 1091--1099: the stereo gains of one formant.\<close>

definition pan_gains :: "real \<Rightarrow> real \<times> real" where
  "pan_gains p = (let angle = (p + 1) * 0.25 * pi in (cos angle, sin angle))"

text \<open>Lines 1101--1119: the duty cycle of formant \<open>f\<close>.\<close>

definition formant_duty :: "pulsarAlgorithm \<Rightarrow> real \<Rightarrow> real \<Rightarrow> nat \<Rightarrow> real" where
  "formant_duty alg formantCvMul dutyCvOffset f =
     (let d = dtc alg;
          duty = (if dutyMode alg = 1 \<and> fundamentalHz d > 0
                  then (let fHz = formantHz alg ! f * formantCvMul;
                            fHz = (if fHz < 20 then 20 else fHz);
                            q = fundamentalHz d / fHz
                        in if q > 1 then 1 else q)
                  else dutyCycle alg + dutyCvOffset);
          duty = (if duty < 0.01 then 0.01 else duty);
          duty = (if duty > 1 then 1 else duty)
      in duty)"

definition step_prepare :: "real \<Rightarrow> cv_inputs \<Rightarrow> nat \<Rightarrow> pulsarAlgorithm \<Rightarrow> step_locals" where
  "step_prepare sr cv numFrames alg =
     (let d = dtc alg;
          fs = [0..<nat (formantCount alg)];
          formantCvMul = 1 + cv_avg (cvFormant cv) numFrames * 0.1;
          dutyCvOffset = cv_avg (cvDuty cv) numFrames * 0.04;
          maskCvAmount = cv_avg (cvMask cv) numFrames * 0.1;
          maskCvAmount = (if maskCvAmount < 0 then 0 else maskCvAmount);
          maskCvAmount = (if maskCvAmount > 1 then 1 else maskCvAmount);
          pulsaretIdx = pulsaretIndex alg + cv_avg (cvPulsaret cv) numFrames * 0.9;
          pulsaretIdx = (if pulsaretIdx < 0 then 0 else pulsaretIdx);
          pulsaretIdx = (if pulsaretIdx > 9 then 9 else pulsaretIdx);
          windowIdx = windowIndex alg + cv_avg (cvWindow cv) numFrames * 0.4;
          windowIdx = (if windowIdx < 0 then 0 else windowIdx);
          windowIdx = (if windowIdx > 4 then 4 else windowIdx);
          ratio = sampleRateRatio alg + cv_avg (cvSampleRate cv) numFrames * 0.4;
          ratio = (if ratio < 0.25 then 0.25 else ratio);
          ratio = (if ratio > 4 then 4 else ratio);
          ampCvMul = (case cvAmplitude cv of None \<Rightarrow> 1
                      | Some _ \<Rightarrow>
                          (let a = cv_avg (cvAmplitude cv) numFrames * 0.1;
                               a = (if a < 0 then 0 else a)
                           in if a > 1 then 1 else a));
          duties = map (formant_duty alg formantCvMul dutyCvOffset) fs;
          invFund = 1 / (if fundamentalHz d > 0.1 then fundamentalHz d else 0.1)
      in \<lparr> l_pulsaretIdx = pulsaretIdx,
           l_windowIdx = windowIdx,
           l_formantCvMul = formantCvMul,
           l_hasMaskCV = (cvMask cv \<noteq> None),
           l_maskCvAmount = maskCvAmount,
           l_sampleRateRatio = ratio,
           l_ampCvMul = ampCvMul,
           l_panL = map (\<lambda>f. fst (pan_gains (pan alg ! f))) fs,
           l_panR = map (\<lambda>f. snd (pan_gains (pan alg ! f))) fs,
           l_formantDuty = duties,
           l_invFormantCount = 1 / of_int (formantCount alg),
           l_invSr = 1 / sr,
           l_invDuty = map (\<lambda>x. 1 / x) duties,
           l_hasPitchCV = (cvPitch cv \<noteq> None),
           l_formantRatioPrecomp =
             (if cvPitch cv \<noteq> None then []
              else map (\<lambda>f. formantHz alg ! f * formantCvMul * invFund) fs),
           l_maskSmoothCoeff = maskSmoothCoeff d \<rparr>)"

subsection \<open>step: one pass of the sample loop (lines 1143--1287)\<close>

text \<open>Lines 1145--1147: glide.\<close>

definition glide_step :: "pulsarDTC \<Rightarrow> pulsarDTC" where
  "glide_step d =
     (let glideC = glideCoeff d in
      d\<lparr>fundamentalHz :=
           targetFundamentalHz d + glideC * (fundamentalHz d - targetFundamentalHz d)\<rparr>)"

text \<open>Lines 1150--1152: the frequency of this sample.\<close>

definition sample_freq :: "real option \<Rightarrow> pulsarDTC \<Rightarrow> fval" where
  "sample_freq cvp d =
     (case cvp of None \<Rightarrow> Finite (fundamentalHz d)
      | Some c \<Rightarrow> fval_mult (fundamentalHz d) (fastExp2f c))"

text \<open>
  Lines 1155--1157: the phase increment and its two clamps. Both comparisons are false
  for a NaN, which passes unchanged (\<open>None\<close>); \<open>+infinity\<close> is clamped to 0.5 and
  \<open>-infinity\<close> to 0.
\<close>

definition phase_increment :: "fval \<Rightarrow> real \<Rightarrow> real option" where
  "phase_increment freqHz invSr =
     (case fval_mult invSr freqHz of
        Finite x \<Rightarrow>
          (let phaseInc = x;
               phaseInc = (if phaseInc < 0 then 0 else phaseInc);
               phaseInc = (if phaseInc > 0.5 then 0.5 else phaseInc)
           in Some phaseInc)
      | PlusInf \<Rightarrow> Some 0.5
      | MinusInf \<Rightarrow> Some 0
      | NaN \<Rightarrow> None)"

text \<open>
  Lines 1159--1167: accumulate, wrap and raise \<open>newPulse\<close>. A sum with a NaN is a NaN,
  and the comparison \<open>masterPhase >= 1.0f\<close> is false for it.
\<close>

definition advance_phase :: "real option \<Rightarrow> pulsarDTC \<Rightarrow> pulsarDTC \<times> bool" where
  "advance_phase phaseInc d =
     (case (masterPhase d, phaseInc) of
        (Some ph0, Some inc) \<Rightarrow>
          (let ph = ph0 + inc in
           if ph \<ge> 1 then (d\<lparr>masterPhase := Some (ph - 1)\<rparr>, True)
           else (d\<lparr>masterPhase := Some ph\<rparr>, False))
      | _ \<Rightarrow> (d\<lparr>masterPhase := None\<rparr>, False))"

text \<open>Lines 1172--1191: the value of \<open>maskGain\<close> and the generator state it leaves.\<close>

definition mask_decision :: "pulsarAlgorithm \<Rightarrow> step_locals \<Rightarrow> pulsarDTC \<Rightarrow> pulsarDTC \<times> real" where
  "mask_decision alg L d =
     (if maskMode alg = 1 then
        (let effectiveAmount = (if l_hasMaskCV L then l_maskCvAmount L else maskAmount alg);
             s = prngState d * 1664525 + 1013904223;
             rnd = real (unat (drop_bit 8 s)) / 16777216
         in (d\<lparr>prngState := s\<rparr>, if rnd < effectiveAmount then 0 else 1))
      else if maskMode alg = 2 then
        (let total = burstOn alg + burstOff alg in
         if total > 0 then
           (let c = (burstCounter d + 1) mod (word_of_int total)
            in (d\<lparr>burstCounter := c\<rparr>, if c < word_of_int (burstOn alg) then 1 else 0))
         else (d, 1))
      else (d, 1))"

text \<open>
  Lines 1170--1194. The second component is \<open>Some maskGain\<close> when the masking block ran
  in this sample and \<open>None\<close> when it did not.
\<close>

definition mask_update :: "pulsarAlgorithm \<Rightarrow> step_locals \<Rightarrow> bool \<Rightarrow> pulsarDTC \<Rightarrow> pulsarDTC \<times> real option" where
  "mask_update alg L newPulse d =
     (if maskMode alg > 0 \<and> newPulse then
        (let (d1, maskGain) = mask_decision alg L d
         in (d1\<lparr>maskTarget :=
                  fold (\<lambda>f xs. xs[f := maskGain]) [0..<nat (formantCount alg)] (maskTarget d1)\<rparr>,
             Some maskGain))
      else (d, None))"

text \<open>Lines 1197--1198: smoothing of the mask gains.\<close>

definition mask_smooth :: "pulsarAlgorithm \<Rightarrow> step_locals \<Rightarrow> pulsarDTC \<Rightarrow> pulsarDTC" where
  "mask_smooth alg L d =
     d\<lparr>maskSmooth :=
         fold (\<lambda>f xs. xs[f := maskTarget d ! f
                              + l_maskSmoothCoeff L * (xs ! f - maskTarget d ! f)])
              [0..<nat (formantCount alg)] (maskSmooth d)\<rparr>"

text \<open>Lines 1217--1221: the clamped index into the sample buffer.\<close>

definition sample_index :: "int \<Rightarrow> real \<Rightarrow> int" where
  "sample_index loaded samplePos =
     (let sIdx = int_of_float samplePos;
          sIdx = (if sIdx < 0 then 0 else sIdx);
          sIdx = (if sIdx \<ge> loaded - 1 then loaded - 2 else sIdx)
      in sIdx)"

definition sample_pulsaret :: "pulsarAlgorithm \<Rightarrow> step_locals \<Rightarrow> real \<Rightarrow> real" where
  "sample_pulsaret alg L pulsaretPhase =
     (let samplePos = pulsaretPhase * of_int (sampleLoadedFrames alg - 1) * l_sampleRateRatio L;
          sIdx = sample_index (sampleLoadedFrames alg) samplePos;
          sFrac = samplePos - of_int (int_of_float samplePos);
          buf = sampleBuffer (dram alg)
      in buf ! nat sIdx + sFrac * (buf ! nat (sIdx + 1) - buf ! nat sIdx))"

text \<open>Lines 1227--1234: the table phase, and the pulsaret read from the table bank.\<close>

definition table_phase :: "pulsarAlgorithm \<Rightarrow> step_locals \<Rightarrow> pulsarDTC \<Rightarrow> nat \<Rightarrow> real \<Rightarrow> real" where
  "table_phase alg L d f pulsaretPhase =
     (let formantRatio =
            (if l_hasPitchCV L
             then formantHz alg ! f * l_formantCvMul L
                    / (if fundamentalHz d > 0.1 then fundamentalHz d else 0.1)
             else l_formantRatioPrecomp L ! f);
          tablePhase = pulsaretPhase * formantRatio;
          tablePhase = tablePhase - of_int \<lfloor>tablePhase\<rfloor>
      in tablePhase)"

definition table_pulsaret :: "pulsarAlgorithm \<Rightarrow> step_locals \<Rightarrow> pulsarDTC \<Rightarrow> nat \<Rightarrow> real \<Rightarrow> real" where
  "table_pulsaret alg L d f pulsaretPhase =
     readTableMorph (pulsaretTables (dram alg)) (l_pulsaretIdx L)
       (table_phase alg L d f pulsaretPhase)"

text \<open>
  Lines 1205--1246: the contribution of formant \<open>f\<close> to the stereo sum. The test
  \<open>phase < duty\<close> is false when the phase is a NaN.
\<close>

definition formant_voice :: "pulsarAlgorithm \<Rightarrow> step_locals \<Rightarrow> pulsarDTC \<Rightarrow> nat \<Rightarrow> real \<times> real \<Rightarrow> real \<times> real" where
  "formant_voice alg L d f acc =
     (let duty = l_formantDuty L ! f in
      case masterPhase d of
        None \<Rightarrow> acc
      | Some phase \<Rightarrow>
          if phase < duty then
            (let pulsaretPhase = phase * (l_invDuty L ! f);
                 sample = (if useSample alg \<noteq> 0 \<and> sampleLoadedFrames alg \<ge> 2
                           then sample_pulsaret alg L pulsaretPhase
                           else table_pulsaret alg L d f pulsaretPhase);
                 window = readWindowMorph (windowTables (dram alg)) (l_windowIdx L) pulsaretPhase;
                 s = sample * window * (maskSmooth d ! f)
             in (fst acc + s * (l_panL L ! f), snd acc + s * (l_panR L ! f)))
          else acc)"

text \<open>Lines 1252--1254: the envelope.\<close>

definition env_step :: "pulsarDTC \<Rightarrow> pulsarDTC" where
  "env_step d =
     (let envCoeff = (if gate d then attackCoeff d else releaseCoeff d) in
      d\<lparr>envValue := envTarget d + envCoeff * (envValue d - envTarget d)\<rparr>)"

text \<open>
  Lines 1145--1194, the first half of a pass: glide, phase, trigger and mask decision.
  It returns the DTC and the values of the locals \<open>newPulse\<close> and \<open>maskGain\<close>
  (\<open>None\<close> when the masking block did not run).
\<close>

definition tick_control :: "pulsarAlgorithm \<Rightarrow> step_locals \<Rightarrow> real option \<Rightarrow> pulsarDTC \<Rightarrow> pulsarDTC \<times> bool \<times> real option" where
  "tick_control alg L cvp d0 =
     (let d = glide_step d0;
          freqHz = sample_freq cvp d;
          phaseInc = phase_increment freqHz (l_invSr L);
          (d, newPulse) = advance_phase phaseInc d;
          (d, decision) = mask_update alg L newPulse d
      in (d, newPulse, decision))"

text \<open>
  Lines 1196--1287, the second half: mask smoothing, synthesis, envelope, gain, DC
  blocker and soft clip. It returns the DTC and the two samples handed to the output
  busses (which are added or written according to the output mode).
\<close>

definition tick_audio :: "pulsarAlgorithm \<Rightarrow> step_locals \<Rightarrow> pulsarDTC \<Rightarrow> pulsarDTC \<times> real \<times> real" where
  "tick_audio alg L d0 =
     (let d = mask_smooth alg L d0;
          acc = fold (formant_voice alg L d) [0..<nat (formantCount alg)] (0, 0);
          sumL = fst acc * l_invFormantCount L;
          sumR = snd acc * l_invFormantCount L;
          d = env_step d;
          vel = real (unat (velocity d)) * (1 / 127);
          gain = envValue d * amplitude alg * vel * l_ampCvMul L;
          sumL = sumL * gain;
          sumR = sumR * gain;
          dcCoeff = leakDC_coeff d;
          yL = sumL - leakDC_xL d + dcCoeff * leakDC_yL d;
          yR = sumR - leakDC_xR d + dcCoeff * leakDC_yR d;
          d = d\<lparr>leakDC_xL := sumL, leakDC_yL := yL, leakDC_xR := sumR, leakDC_yR := yR\<rparr>
      in (d, fastTanh yL, fastTanh yR))"

text \<open>What one pass of the loop leaves behind.\<close>

record sample_obs =
  o_newPulse :: bool
  o_maskGain :: "real option"
  o_dtc :: pulsarDTC
  o_yL :: real
  o_yR :: real

definition tick :: "pulsarAlgorithm \<Rightarrow> step_locals \<Rightarrow> real option \<Rightarrow> pulsarDTC \<Rightarrow> sample_obs" where
  "tick alg L cvp d0 =
     (let (d, newPulse, decision) = tick_control alg L cvp d0;
          (d, yL, yR) = tick_audio alg L d
      in \<lparr> o_newPulse = newPulse, o_maskGain = decision, o_dtc = d, o_yL = yL, o_yR = yR \<rparr>)"

text \<open>The loop over the frames of a block; \<open>cvps\<close> holds \<open>cvPitch[i]\<close> for each frame.\<close>

fun sample_loop :: "pulsarAlgorithm \<Rightarrow> step_locals \<Rightarrow> real option list \<Rightarrow> pulsarDTC \<Rightarrow> sample_obs list" where
  "sample_loop alg L [] d = []"
| "sample_loop alg L (cvp # cvps) d =
     (let ob = tick alg L cvp d in ob # sample_loop alg L cvps (o_dtc ob))"

definition step :: "real \<Rightarrow> cv_inputs \<Rightarrow> nat \<Rightarrow> pulsarAlgorithm \<Rightarrow> pulsarAlgorithm \<times> sample_obs list" where
  "step sr cv numFramesBy4 alg =
     (let numFrames = numFramesBy4 * 4;
          alg1 = step_enter sr cv numFrames alg;
          L = step_prepare sr cv numFrames alg1;
          cvps = map (\<lambda>i. map_option (\<lambda>xs. xs ! i) (cvPitch cv)) [0..<numFrames];
          obs = sample_loop alg1 L cvps (dtc alg1)
      in (alg1\<lparr>dtc := (if obs = [] then dtc alg1 else o_dtc (last obs))\<rparr>, obs))"

subsection \<open>The host driving the plug-in\<close>

datatype host_event =
    ParameterChanged param int int bool
  | MidiMessage u8 u8 u8
  | WavCallback "real list"
  | Step cv_inputs nat

text \<open>
  \<open>ParameterChanged p x n ok\<close>: the host stores \<open>x\<close> in \<open>v[p]\<close> and calls
  \<open>parameterChanged\<close>; \<open>n\<close> and \<open>ok\<close> are the answers of the sample-file queries.
  \<open>WavCallback frames\<close>: the loader has read \<open>frames\<close> and reports completion.
\<close>

fun host_step :: "real \<Rightarrow> host_event \<Rightarrow> pulsarAlgorithm \<Rightarrow> pulsarAlgorithm \<times> sample_obs list" where
  "host_step sr (ParameterChanged p x n ok) alg =
     (parameterChanged sr n ok p (alg\<lparr>pv := (pv alg)(p := x)\<rparr>), [])"
| "host_step sr (MidiMessage b0 b1 b2) alg = (midiMessage b0 b1 b2 alg, [])"
| "host_step sr (WavCallback frames) alg = (wavCallback (loader_write frames alg), [])"
| "host_step sr (Step cv n) alg = step sr cv n alg"

fun run :: "real \<Rightarrow> host_event list \<Rightarrow> pulsarAlgorithm \<Rightarrow> pulsarAlgorithm \<times> sample_obs list" where
  "run sr [] alg = (alg, [])"
| "run sr (e # es) alg =
     (let (alg1, obs1) = host_step sr e alg;
          (alg2, obs2) = run sr es alg1
      in (alg2, obs1 @ obs2))"

subsection \<open>Reading a trace\<close>

text \<open>The mask decisions made during a trace, in order, and its number of triggers.\<close>

definition mask_decisions :: "sample_obs list \<Rightarrow> real list" where
  "mask_decisions obs = List.map_filter o_maskGain obs"

definition trigger_count :: "sample_obs list \<Rightarrow> nat" where
  "trigger_count obs = length (filter o_newPulse obs)"

text \<open>Whether a pass raised \<open>newPulse\<close>, and the mask targets after the pass.\<close>

definition trigger_targets :: "sample_obs \<Rightarrow> bool \<times> real list" where
  "trigger_targets ob = (o_newPulse ob, maskTarget (o_dtc ob))"

text \<open>
  The fields of the DTC that the first half of a pass reads or writes; \<open>control_of\<close>
  blanks every other field. \<open>control_loop\<close> is the sample loop with the second half of
  each pass left out.
\<close>

definition control_of :: "pulsarDTC \<Rightarrow> pulsarDTC" where
  "control_of d =
     d\<lparr> formantDuty := [], maskSmooth := [], maskSmoothCoeff := 0,
        envValue := 0, envTarget := 0, attackCoeff := 0, releaseCoeff := 0,
        leakDC_xL := 0, leakDC_yL := 0, leakDC_xR := 0, leakDC_yR := 0, leakDC_coeff := 0,
        currentNote := 0, velocity := 0, gate := False, prevPulseActive := False \<rparr>"

fun control_loop :: "pulsarAlgorithm \<Rightarrow> step_locals \<Rightarrow> real option list \<Rightarrow> pulsarDTC \<Rightarrow> (bool \<times> real option \<times> pulsarDTC) list" where
  "control_loop alg L [] d = []"
| "control_loop alg L (cvp # cvps) d =
     (let (d1, newPulse, decision) = tick_control alg L cvp d
      in (newPulse, decision, d1) # control_loop alg L cvps d1)"

text \<open>
  The clamped phase increment that a pass computes from the state it starts in, and
  whether the pass raises \<open>newPulse\<close>.
\<close>

definition tick_inc :: "step_locals \<Rightarrow> real option \<Rightarrow> pulsarDTC \<Rightarrow> real option" where
  "tick_inc L c d = phase_increment (sample_freq c (glide_step d)) (l_invSr L)"

definition pulse_now :: "step_locals \<Rightarrow> real option \<Rightarrow> pulsarDTC \<Rightarrow> bool" where
  "pulse_now L c d = snd (advance_phase (tick_inc L c d) (glide_step d))"

text \<open>
  The pitch-CV samples that the loop of a block reads, frame by frame (\<open>None\<close> when the
  Pitch CV is not connected), and the state in which pass \<open>i\<close> of a trace starts.
\<close>

definition pitch_samples :: "cv_inputs \<Rightarrow> nat \<Rightarrow> real option list" where
  "pitch_samples cv numFrames = map (\<lambda>i. map_option (\<lambda>xs. xs ! i) (cvPitch cv)) [0..<numFrames]"

definition state_before :: "pulsarDTC \<Rightarrow> sample_obs list \<Rightarrow> nat \<Rightarrow> pulsarDTC" where
  "state_before d0 obs i = (if i = 0 then d0 else o_dtc (obs ! (i - 1)))"

subsection \<open>The mask patterns as the specification words them\<close>

text \<open>
  Burst with 4 on and 4 off, as the specification has it: the decision at the trigger with
  index \<open>k\<close> (counting from 0) of the pattern \<open>[1,1,1,1,0,0,0,0,...]\<close>.
\<close>

definition burst_pattern_spec :: "nat \<Rightarrow> real" where
  "burst_pattern_spec k = (if k mod 8 < 4 then 1 else 0)"

text \<open>
  Stochastic: advance the generator, derive a value in \<open>[0,1)\<close>, compare it with the
  amount; \<open>n\<close> decisions from the seed \<open>s\<close>.
\<close>

fun stochastic_spec :: "real \<Rightarrow> u32 \<Rightarrow> nat \<Rightarrow> real list" where
  "stochastic_spec amount s 0 = []"
| "stochastic_spec amount s (Suc n) =
     (let s1 = s * 1664525 + 1013904223;
          rnd = real (unat (drop_bit 8 s1)) / 16777216
      in (if rnd < amount then 0 else 1) # stochastic_spec amount s1 n)"

subsection \<open>Invariants and example inputs\<close>

text \<open>The phase accumulator holds a number of \<open>[0, 1)\<close>.\<close>

definition phase_ok :: "pulsarDTC \<Rightarrow> bool" where
  "phase_ok d = (case masterPhase d of None \<Rightarrow> False | Some ph \<Rightarrow> 0 \<le> ph \<and> ph < 1)"

text \<open>
  A pitch-CV sample for which \<open>fastExp2f\<close> returns a finite number, and a host event
  whose block, if it is one, has at least one frame and reads such samples only.
\<close>

definition pitch_ok :: "real option \<Rightarrow> bool" where
  "pitch_ok cvp = (case cvp of None \<Rightarrow> True | Some c \<Rightarrow> - 127 \<le> c \<and> c < 128)"

definition block_ok :: "cv_inputs \<Rightarrow> nat \<Rightarrow> bool" where
  "block_ok cv numFramesBy4 =
     (0 < numFramesBy4 \<and> list_all pitch_ok (pitch_samples cv (numFramesBy4 * 4)))"

definition finite_pitch :: "host_event \<Rightarrow> bool" where
  "finite_pitch e = (case e of Step cv n \<Rightarrow> block_ok cv n | _ \<Rightarrow> True)"

text \<open>
  What the specification says of one pass, read on the state \<open>before\<close> the pass, the
  pitch-CV sample \<open>cvp\<close> and what the pass leaves in \<open>ob\<close>: the increment is the
  frequency of the sample over the sample rate, clamped to \<open>[0, 0.5]\<close>; the pass raises
  \<open>newPulse\<close> exactly when phase plus increment reaches 1, and then subtracts 1; the
  phase it leaves is in \<open>[0, 1)\<close>.
\<close>

definition phase_pass_spec :: "real \<Rightarrow> pulsarDTC \<Rightarrow> real option \<Rightarrow> sample_obs \<Rightarrow> bool" where
  "phase_pass_spec sr before cvp ob =
     (case (masterPhase before, sample_freq cvp (glide_step before), masterPhase (o_dtc ob)) of
        (Some ph, Finite freqHz, Some ph') \<Rightarrow>
          (let inc = min (1 / 2) (max 0 (freqHz / sr))
           in o_newPulse ob = (1 \<le> ph + inc)
              \<and> ph' = ph + inc - (if o_newPulse ob then 1 else 0)
              \<and> 0 \<le> ph' \<and> ph' < 1)
      | _ \<Rightarrow> False)"

definition env_ok :: "pulsarDTC \<Rightarrow> bool" where
  "env_ok d =
     (0 \<le> attackCoeff d \<and> attackCoeff d \<le> 1 \<and> 0 \<le> releaseCoeff d \<and> releaseCoeff d \<le> 1
      \<and> (envTarget d = 0 \<or> envTarget d = 1) \<and> 0 \<le> envValue d \<and> envValue d \<le> 1)"

definition sample_ok :: "pulsarAlgorithm \<Rightarrow> bool" where
  "sample_ok alg =
     (sampleLoadedFrames alg \<le> kSampleBufferSize \<and> wavRequest_numFrames alg \<le> kSampleBufferSize
      \<and> length (sampleBuffer (dram alg)) = nat kSampleBufferSize)"

text \<open>The number of leading frames of the sample buffer that the synthesis may read.\<close>

definition frames_in_use :: "pulsarAlgorithm \<Rightarrow> nat" where
  "frames_in_use alg =
     (if useSample alg \<noteq> 0 \<and> 2 \<le> sampleLoadedFrames alg then nat (sampleLoadedFrames alg) else 0)"

text \<open>The DTC that a trace leaves behind, given the DTC it started from.\<close>

definition final_dtc :: "pulsarDTC \<Rightarrow> sample_obs list \<Rightarrow> pulsarDTC" where
  "final_dtc d obs = (if obs = [] then d else o_dtc (last obs))"

text \<open>The generator state after \<open>n\<close> advances.\<close>

fun lcg_iter :: "nat \<Rightarrow> u32 \<Rightarrow> u32" where
  "lcg_iter 0 s = s"
| "lcg_iter (Suc n) s = lcg_iter n (s * 1664525 + 1013904223)"

text \<open>
  Host events that leave the burst settings alone, and host events that leave the
  stochastic settings alone (with no Mask CV connected, so that the amount is the parameter).
\<close>

definition keeps_burst_settings :: "host_event \<Rightarrow> bool" where
  "keeps_burst_settings e =
     (case e of ParameterChanged p x n ok \<Rightarrow> p \<notin> {kParamMaskMode, kParamBurstOn, kParamBurstOff}
      | _ \<Rightarrow> True)"

definition keeps_stochastic_settings :: "host_event \<Rightarrow> bool" where
  "keeps_stochastic_settings e =
     (case e of ParameterChanged p x n ok \<Rightarrow> p \<notin> {kParamMaskMode, kParamMaskAmount}
      | Step cv n \<Rightarrow> cvMask cv = None
      | _ \<Rightarrow> True)"

text \<open>The mask settings that the run-level statements fix.\<close>

definition burst44 :: "pulsarAlgorithm \<Rightarrow> bool" where
  "burst44 alg = (maskMode alg = 2 \<and> burstOn alg = 4 \<and> burstOff alg = 4
                  \<and> unat (burstCounter (dtc alg)) < 8)"

definition stochastic_mode :: "real \<Rightarrow> pulsarAlgorithm \<Rightarrow> bool" where
  "stochastic_mode amount alg = (maskMode alg = 1 \<and> maskAmount alg = amount)"

text \<open>No control voltage connected, and a parameter array with MIDI channel 1.\<close>

definition no_cv :: cv_inputs where
  "no_cv = \<lparr> cvPitch = None, cvFormant = None, cvDuty = None, cvMask = None,
             cvPulsaret = None, cvWindow = None, cvGlide = None, cvSampleRate = None,
             cvAmplitude = None \<rparr>"

definition host_defaults :: "param \<Rightarrow> int" where
  "host_defaults = (\<lambda>p. 0)(kParamMidiCh := 1)"

section \<open>The two halves of a pass\<close>

lemmas control_defs = tick_control_def glide_step_def sample_freq_def advance_phase_def
  fval_mult_def mask_update_def mask_decision_def Let_def case_prod_beta

lemma step_prepare_invSr: "l_invSr (step_prepare sr cv n alg) = 1 / sr"
  by (simp add: step_prepare_def Let_def)

lemma tick_audio_control: "control_of (fst (tick_audio alg L d)) = control_of d"
  by (rule pulsarDTC.equality)
     (simp_all add: tick_audio_def mask_smooth_def env_step_def control_of_def Let_def)

lemma tick_control_eq:
  "tick_control alg L c d =
     (fst (mask_update alg L (pulse_now L c d) (fst (advance_phase (tick_inc L c d) (glide_step d)))),
      pulse_now L c d,
      snd (mask_update alg L (pulse_now L c d) (fst (advance_phase (tick_inc L c d) (glide_step d)))))"
  by (simp add: tick_control_def tick_inc_def pulse_now_def Let_def case_prod_beta)

lemma glide_step_control: "glide_step (control_of d) = control_of (glide_step d)"
  by (simp add: glide_step_def control_of_def Let_def)

lemma tick_inc_control: "tick_inc L c (control_of d) = tick_inc L c d"
  by (cases c) (simp_all add: tick_inc_def glide_step_def sample_freq_def control_of_def Let_def)

lemma advance_phase_control:
  "advance_phase i (control_of d) = (control_of (fst (advance_phase i d)), snd (advance_phase i d))"
proof (cases "masterPhase d")
  case None
  then show ?thesis by (simp add: advance_phase_def control_of_def)
next
  case (Some ph)
  then show ?thesis
    by (cases i) (simp_all add: advance_phase_def control_of_def Let_def)
qed

lemma pulse_now_control: "pulse_now L c (control_of d) = pulse_now L c d"
  by (simp add: pulse_now_def tick_inc_control glide_step_control advance_phase_control)

lemma mask_update_control:
  "mask_update alg L np (control_of d)
     = (control_of (fst (mask_update alg L np d)), snd (mask_update alg L np d))"
  by (simp add: mask_update_def mask_decision_def control_of_def Let_def case_prod_beta)

lemma tick_control_of_fst:
  "fst (tick_control alg L c (control_of d)) = control_of (fst (tick_control alg L c d))"
  by (simp add: tick_control_eq tick_inc_control pulse_now_control glide_step_control
      advance_phase_control mask_update_control)

lemma tick_control_of_snd:
  "snd (tick_control alg L c (control_of d)) = snd (tick_control alg L c d)"
  by (simp add: tick_control_eq tick_inc_control pulse_now_control glide_step_control
      advance_phase_control mask_update_control)

lemma tick_parts:
  "o_newPulse (tick alg L c d) = fst (snd (tick_control alg L c d))"
  "o_maskGain (tick alg L c d) = snd (snd (tick_control alg L c d))"
  "o_dtc (tick alg L c d) = fst (tick_audio alg L (fst (tick_control alg L c d)))"
  by (simp_all add: tick_def case_prod_beta)

lemma sample_loop_control:
  "map (\<lambda>ob. (o_newPulse ob, o_maskGain ob, control_of (o_dtc ob))) (sample_loop alg L cvps d)
     = control_loop alg L cvps (control_of d)"
proof (induction cvps arbitrary: d)
  case Nil
  show ?case by simp
next
  case (Cons c cvps)
  have st: "control_of (o_dtc (tick alg L c d)) = fst (tick_control alg L c (control_of d))"
    by (simp add: tick_parts tick_audio_control tick_control_of_fst)
  show ?case
    by (simp add: Let_def case_prod_beta Cons.IH tick_control_of_snd tick_parts
        tick_audio_control tick_control_of_fst)
qed

lemma phase_increment_range: "phase_increment f i = Some x \<Longrightarrow> 0 \<le> x \<and> x \<le> 1 / 2"
  by (auto simp: phase_increment_def Let_def split: fval.splits if_splits)

lemma advance_phase_fields:
  "maskTarget (fst (advance_phase i d)) = maskTarget d"
  "prngState (fst (advance_phase i d)) = prngState d"
  "burstCounter (fst (advance_phase i d)) = burstCounter d"
  "fundamentalHz (fst (advance_phase i d)) = fundamentalHz d"
  "targetFundamentalHz (fst (advance_phase i d)) = targetFundamentalHz d"
  "glideCoeff (fst (advance_phase i d)) = glideCoeff d"
  "envValue (fst (advance_phase i d)) = envValue d"
  "envTarget (fst (advance_phase i d)) = envTarget d"
  "attackCoeff (fst (advance_phase i d)) = attackCoeff d"
  "releaseCoeff (fst (advance_phase i d)) = releaseCoeff d"
  "gate (fst (advance_phase i d)) = gate d"
  by (cases "masterPhase d"; cases i; simp add: advance_phase_def Let_def)+

lemma mask_update_fields:
  "masterPhase (fst (mask_update alg L np d)) = masterPhase d"
  "fundamentalHz (fst (mask_update alg L np d)) = fundamentalHz d"
  "targetFundamentalHz (fst (mask_update alg L np d)) = targetFundamentalHz d"
  "glideCoeff (fst (mask_update alg L np d)) = glideCoeff d"
  "envValue (fst (mask_update alg L np d)) = envValue d"
  "envTarget (fst (mask_update alg L np d)) = envTarget d"
  "attackCoeff (fst (mask_update alg L np d)) = attackCoeff d"
  "releaseCoeff (fst (mask_update alg L np d)) = releaseCoeff d"
  "gate (fst (mask_update alg L np d)) = gate d"
  by (simp_all add: mask_update_def mask_decision_def Let_def case_prod_beta)

lemma tick_control_env:
  "envValue (fst (tick_control alg L c d)) = envValue d"
  "envTarget (fst (tick_control alg L c d)) = envTarget d"
  "attackCoeff (fst (tick_control alg L c d)) = attackCoeff d"
  "releaseCoeff (fst (tick_control alg L c d)) = releaseCoeff d"
  "gate (fst (tick_control alg L c d)) = gate d"
  by (simp_all add: tick_control_eq mask_update_fields advance_phase_fields glide_step_def Let_def)

lemma tick_control_glide:
  "fundamentalHz (fst (tick_control alg L c d)) =
     targetFundamentalHz d + glideCoeff d * (fundamentalHz d - targetFundamentalHz d)"
  "targetFundamentalHz (fst (tick_control alg L c d)) = targetFundamentalHz d"
  "glideCoeff (fst (tick_control alg L c d)) = glideCoeff d"
  by (simp_all add: tick_control_eq mask_update_fields advance_phase_fields glide_step_def Let_def)

lemma tick_audio_fields:
  "masterPhase (fst (tick_audio alg L d)) = masterPhase d"
  "fundamentalHz (fst (tick_audio alg L d)) = fundamentalHz d"
  "targetFundamentalHz (fst (tick_audio alg L d)) = targetFundamentalHz d"
  "glideCoeff (fst (tick_audio alg L d)) = glideCoeff d"
  "maskTarget (fst (tick_audio alg L d)) = maskTarget d"
  "prngState (fst (tick_audio alg L d)) = prngState d"
  "burstCounter (fst (tick_audio alg L d)) = burstCounter d"
  "envTarget (fst (tick_audio alg L d)) = envTarget d"
  "attackCoeff (fst (tick_audio alg L d)) = attackCoeff d"
  "releaseCoeff (fst (tick_audio alg L d)) = releaseCoeff d"
  "gate (fst (tick_audio alg L d)) = gate d"
  "envValue (fst (tick_audio alg L d)) =
     envTarget d + (if gate d then attackCoeff d else releaseCoeff d) * (envValue d - envTarget d)"
  by (simp_all add: tick_audio_def mask_smooth_def env_step_def Let_def)

lemma advance_phase_Some:
  "masterPhase d = Some ph \<Longrightarrow>
     advance_phase (Some inc) d =
       (if 1 \<le> ph + inc then (d\<lparr>masterPhase := Some (ph + inc - 1)\<rparr>, True)
        else (d\<lparr>masterPhase := Some (ph + inc)\<rparr>, False))"
  by (simp add: advance_phase_def Let_def)

lemma tick_control_phase:
  "fst (snd (tick_control alg L c d)) = pulse_now L c d"
  "masterPhase (fst (tick_control alg L c d))
     = masterPhase (fst (advance_phase (tick_inc L c d) (glide_step d)))"
  by (simp_all add: tick_control_eq mask_update_fields)

lemma pulse_now_Some:
  "masterPhase d = Some ph \<Longrightarrow> tick_inc L c d = Some inc \<Longrightarrow> pulse_now L c d = (1 \<le> ph + inc)"
  by (simp add: pulse_now_def advance_phase_def glide_step_def Let_def)


section \<open>Mask engine: what a pass does to the mask state\<close>

lemma fold_update_all:
  "fold (\<lambda>f xs. xs[f := g]) [0..<n] xs = replicate (min n (length xs)) g @ drop n xs"
proof (induction n)
  case 0
  show ?case by simp
next
  case (Suc n)
  show ?case
  proof (cases "n < length xs")
    case True
    then have "drop n xs = xs ! n # drop (Suc n) xs"
      by (simp add: Cons_nth_drop_Suc)
    with True show ?thesis
      by (simp add: Suc.IH list_update_append min_def replicate_append_same)
  next
    case False
    then show ?thesis by (simp add: Suc.IH min_def list_update_beyond)
  qed
qed

lemma tick_control_mask:
  "snd (snd (tick_control alg L c d)) =
     (if maskMode alg > 0 \<and> pulse_now L c d
      then Some (snd (mask_decision alg L d)) else None)"
  "maskTarget (fst (tick_control alg L c d)) =
     (if maskMode alg > 0 \<and> pulse_now L c d
      then replicate (min (nat (formantCount alg)) (length (maskTarget d))) (snd (mask_decision alg L d))
             @ drop (nat (formantCount alg)) (maskTarget d)
      else maskTarget d)"
  "prngState (fst (tick_control alg L c d)) =
     (if maskMode alg > 0 \<and> pulse_now L c d
      then prngState (fst (mask_decision alg L d)) else prngState d)"
  "burstCounter (fst (tick_control alg L c d)) =
     (if maskMode alg > 0 \<and> pulse_now L c d
      then burstCounter (fst (mask_decision alg L d)) else burstCounter d)"
  by (simp_all add: tick_control_eq mask_update_def mask_decision_def advance_phase_fields
       glide_step_def Let_def case_prod_beta fold_update_all)

lemma mask_decision_burst44:
  assumes "maskMode alg = 2" "burstOn alg = 4" "burstOff alg = 4"
  shows "snd (mask_decision alg L d) = (if (burstCounter d + 1) mod 8 < 4 then 1 else 0)"
    and "burstCounter (fst (mask_decision alg L d)) = (burstCounter d + 1) mod 8"
  using assms by (simp_all add: mask_decision_def Let_def)

lemma mask_decision_stochastic:
  assumes "maskMode alg = 1"
  shows "snd (mask_decision alg L d) =
           (if real (unat (drop_bit 8 (prngState d * 1664525 + 1013904223))) / 16777216
                 < (if l_hasMaskCV L then l_maskCvAmount L else maskAmount alg) then 0 else 1)"
    and "prngState (fst (mask_decision alg L d)) = prngState d * 1664525 + 1013904223"
  using assms by (simp_all add: mask_decision_def Let_def)

lemma burst_counter_step:
  fixes w :: u32
  assumes "unat w < 8"
  shows "unat ((w + 1) mod 8) = (unat w + 1) mod 8"
proof -
  have "unat (w + 1) = unat w + 1"
    using assms by (simp add: unat_word_ariths)
  then show ?thesis by (simp add: unat_mod)
qed

lemma burst_counter_less:
  fixes w :: u32
  shows "(w < 4) = (unat w < 4)"
  by (simp add: word_less_nat_alt)

lemma mask_decisions_simps:
  "mask_decisions [] = []"
  "mask_decisions (ob # obs) =
     (case o_maskGain ob of None \<Rightarrow> mask_decisions obs | Some g \<Rightarrow> g # mask_decisions obs)"
  by (simp_all add: mask_decisions_def map_filter_simps split: option.splits)

lemma trigger_count_simps:
  "trigger_count [] = 0"
  "trigger_count (ob # obs) = (if o_newPulse ob then Suc (trigger_count obs) else trigger_count obs)"
  by (simp_all add: trigger_count_def)

lemma map_upt_Suc_shift: "map f [0..<Suc m] = f 0 # map (\<lambda>k. f (Suc k)) [0..<m]"
  by (simp add: map_upt_Suc del: upt_Suc)

lemma sample_loop_burst44:
  assumes "maskMode alg = 2" "burstOn alg = 4" "burstOff alg = 4"
  shows "unat (burstCounter d) < 8 \<Longrightarrow>
         mask_decisions (sample_loop alg L cvps d) =
           map (\<lambda>k. if (unat (burstCounter d) + k + 1) mod 8 < 4 then 1 else 0)
               [0..<trigger_count (sample_loop alg L cvps d)]"
proof (induction cvps arbitrary: d)
  case Nil
  show ?case by (simp add: mask_decisions_simps trigger_count_simps)
next
  case (Cons c cvps)
  let ?d1 = "o_dtc (tick alg L c d)"
  let ?np = "pulse_now L c d"
  have bc: "burstCounter ?d1 = (if ?np then (burstCounter d + 1) mod 8 else burstCounter d)"
    using assms by (simp add: tick_parts tick_audio_fields tick_control_mask mask_decision_burst44)
  have lt: "unat (burstCounter ?d1) < 8"
    using Cons.prems by (simp add: bc burst_counter_step)
  note IH = Cons.IH [OF lt]
  show ?case
  proof (cases ?np)
    case True
    have u: "unat (burstCounter ?d1) = (unat (burstCounter d) + 1) mod 8"
      using True Cons.prems by (simp add: bc burst_counter_step)
    have m: "Suc (Suc n mod 8 + k) mod 8 = Suc (Suc (n + k)) mod 8" for n k :: nat
      using mod_add_left_eq [of "Suc n" 8 "Suc k"] by simp
    have dec: "o_maskGain (tick alg L c d) = Some (if (unat (burstCounter d) + 1) mod 8 < 4 then 1 else 0)"
      using True assms Cons.prems
      by (simp add: tick_parts tick_control_mask mask_decision_burst44 burst_counter_less
          burst_counter_step)
    have np: "o_newPulse (tick alg L c d)"
      using True by (simp add: tick_parts tick_control_phase)
    show ?thesis
      by (simp add: Let_def mask_decisions_simps trigger_count_simps dec np IH u m
          map_upt_Suc_shift del: upt_Suc)
  next
    case False
    have dec: "o_maskGain (tick alg L c d) = None"
      using False by (simp add: tick_parts tick_control_mask)
    have np: "\<not> o_newPulse (tick alg L c d)"
      using False by (simp add: tick_parts tick_control_phase)
    have u: "burstCounter ?d1 = burstCounter d"
      using False by (simp add: bc)
    show ?thesis
      by (simp add: Let_def mask_decisions_simps trigger_count_simps dec np IH u)
  qed
qed

lemma sample_loop_stochastic:
  assumes "maskMode alg = 1"
  shows "mask_decisions (sample_loop alg L cvps d) =
           stochastic_spec (if l_hasMaskCV L then l_maskCvAmount L else maskAmount alg)
             (prngState d) (trigger_count (sample_loop alg L cvps d))"
proof (induction cvps arbitrary: d)
  case Nil
  show ?case by (simp add: mask_decisions_simps trigger_count_simps)
next
  case (Cons c cvps)
  show ?case
    using assms
    by (simp add: Let_def mask_decisions_simps trigger_count_simps tick_parts tick_control_mask
        tick_control_phase mask_decision_stochastic Cons.IH tick_audio_fields)
qed


section \<open>Invariants along a run\<close>

lemma sample_loop_invariant:
  assumes step: "\<And>c d. J d \<Longrightarrow> J (o_dtc (tick alg L c d))"
  shows "J d \<Longrightarrow> (\<forall>ob \<in> set (sample_loop alg L cvps d). J (o_dtc ob))"
proof (induction cvps arbitrary: d)
  case Nil
  show ?case by simp
next
  case (Cons c cvps)
  have "J (o_dtc (tick alg L c d))" using Cons.prems by (rule step)
  with Cons.IH show ?case by (simp add: Let_def)
qed

lemma step_dtc:
  "dtc (fst (step sr cv n alg)) =
     (if snd (step sr cv n alg) = [] then dtc (step_enter sr cv (n * 4) alg)
      else o_dtc (last (snd (step sr cv n alg))))"
  by (simp add: step_def Let_def)

lemma step_obs:
  "snd (step sr cv n alg) =
     sample_loop (step_enter sr cv (n * 4) alg)
       (step_prepare sr cv (n * 4) (step_enter sr cv (n * 4) alg))
       (map (\<lambda>i. map_option (\<lambda>xs. xs ! i) (cvPitch cv)) [0..<n * 4])
       (dtc (step_enter sr cv (n * 4) alg))"
  by (simp add: step_def Let_def)

lemma step_invariant:
  assumes tick: "\<And>alg L c d. J d \<Longrightarrow> J (o_dtc (tick alg L c d))"
    and enter: "J (dtc (step_enter sr cv (n * 4) alg))"
  shows "J (dtc (fst (step sr cv n alg))) \<and> (\<forall>ob \<in> set (snd (step sr cv n alg)). J (o_dtc ob))"
proof -
  have all: "\<forall>ob \<in> set (snd (step sr cv n alg)). J (o_dtc ob)"
    unfolding step_obs using enter by (intro sample_loop_invariant [where J = J] tick)
  then have "J (dtc (fst (step sr cv n alg)))"
    using enter by (simp add: step_dtc)
  with all show ?thesis by blast
qed

lemma run_invariant:
  assumes ev: "\<And>e alg. I alg \<Longrightarrow>
                 I (fst (host_step sr e alg)) \<and> (\<forall>ob \<in> set (snd (host_step sr e alg)). P ob)"
  shows "I alg \<Longrightarrow> I (fst (run sr es alg)) \<and> (\<forall>ob \<in> set (snd (run sr es alg)). P ob)"
proof (induction es arbitrary: alg)
  case Nil
  then show ?case by simp
next
  case (Cons e es)
  from ev [OF Cons.prems] Cons.IH [of "fst (host_step sr e alg)"]
  show ?case by (auto simp: case_prod_beta Let_def)
qed

lemma sample_loop_invariant_on:
  assumes step: "\<And>c d. Q c \<Longrightarrow> J d \<Longrightarrow> J (o_dtc (tick alg L c d))"
  shows "list_all Q cvps \<Longrightarrow> J d \<Longrightarrow> (\<forall>ob \<in> set (sample_loop alg L cvps d). J (o_dtc ob))"
proof (induction cvps arbitrary: d)
  case Nil
  show ?case by simp
next
  case (Cons c cvps)
  from Cons.prems have q: "Q c" and qs: "list_all Q cvps" by simp_all
  have "J (o_dtc (tick alg L c d))" using q Cons.prems(2) by (rule step)
  with Cons.IH [OF qs] show ?case by (simp add: Let_def)
qed

lemma run_invariant_on:
  assumes ev: "\<And>e alg. Q e \<Longrightarrow> I alg \<Longrightarrow>
                 I (fst (host_step sr e alg)) \<and> (\<forall>ob \<in> set (snd (host_step sr e alg)). P ob)"
  shows "list_all Q es \<Longrightarrow> I alg \<Longrightarrow>
           I (fst (run sr es alg)) \<and> (\<forall>ob \<in> set (snd (run sr es alg)). P ob)"
proof (induction es arbitrary: alg)
  case Nil
  then show ?case by simp
next
  case (Cons e es)
  from Cons.prems have q: "Q e" and qs: "list_all Q es" by simp_all
  from ev [OF q Cons.prems(2)] Cons.IH [OF qs, of "fst (host_step sr e alg)"]
  show ?case by (auto simp: case_prod_beta Let_def)
qed

lemma one_pole_unit_interval:
  fixes c v t :: real
  assumes "0 \<le> c" "c \<le> 1" "0 \<le> v" "v \<le> 1" "t = 0 \<or> t = 1"
  shows "0 \<le> t + c * (v - t) \<and> t + c * (v - t) \<le> 1"
proof -
  have cv: "0 \<le> c * v" using assms by simp
  have cv1: "c * v \<le> 1" using assms by (simp add: mult_le_one)
  have "c * (1 - v) \<ge> 0" using assms by simp
  moreover have "c * (1 - v) \<le> 1" using assms by (simp add: mult_le_one)
  ultimately show ?thesis using assms(5) cv cv1 by (auto simp: algebra_simps)
qed

lemma tick_env_ok:
  assumes ok: "env_ok d"
  shows "env_ok (o_dtc (tick alg L c d))"
proof -
  have A: "0 \<le> envTarget d + attackCoeff d * (envValue d - envTarget d) \<and>
        envTarget d + attackCoeff d * (envValue d - envTarget d) \<le> 1"
    using ok by (intro one_pole_unit_interval) (simp_all add: env_ok_def)
  have R: "0 \<le> envTarget d + releaseCoeff d * (envValue d - envTarget d) \<and>
        envTarget d + releaseCoeff d * (envValue d - envTarget d) \<le> 1"
    using ok by (intro one_pole_unit_interval) (simp_all add: env_ok_def)
  show ?thesis
    using ok A R by (simp add: env_ok_def tick_parts tick_audio_fields tick_control_env)
qed

lemma coeffFromMs_range: "0 \<le> coeffFromMs ms sr \<and> coeffFromMs ms sr < 1"
  by (simp add: coeffFromMs_def Let_def)

lemma step_enter_fields:
  "masterPhase (dtc (step_enter sr cv n alg)) = masterPhase (dtc alg)"
  "envValue (dtc (step_enter sr cv n alg)) = envValue (dtc alg)"
  "attackCoeff (dtc (step_enter sr cv n alg)) = attackCoeff (dtc alg)"
  "releaseCoeff (dtc (step_enter sr cv n alg)) = releaseCoeff (dtc alg)"
  "envTarget (dtc (step_enter sr cv n alg)) =
     (if gateMode alg = 1 \<and> \<not> gate (dtc alg) then 1 else envTarget (dtc alg))"
  "prngState (dtc (step_enter sr cv n alg)) = prngState (dtc alg)"
  "burstCounter (dtc (step_enter sr cv n alg)) = burstCounter (dtc alg)"
  "maskTarget (dtc (step_enter sr cv n alg)) = maskTarget (dtc alg)"
  "maskMode (step_enter sr cv n alg) = maskMode alg"
  "maskAmount (step_enter sr cv n alg) = maskAmount alg"
  "burstOn (step_enter sr cv n alg) = burstOn alg"
  "burstOff (step_enter sr cv n alg) = burstOff alg"
  "formantCount (step_enter sr cv n alg) = formantCount alg"
  "sampleLoadedFrames (step_enter sr cv n alg) = sampleLoadedFrames alg"
  "dram (step_enter sr cv n alg) = dram alg"
  by (simp_all add: step_enter_def Let_def split: option.splits)

lemma host_step_env_ok:
  "env_ok (dtc alg) \<Longrightarrow>
     env_ok (dtc (fst (host_step sr e alg))) \<and>
     (\<forall>ob \<in> set (snd (host_step sr e alg)). env_ok (o_dtc ob))"
proof (cases e)
  case (ParameterChanged p x n ok)
  assume "env_ok (dtc alg)"
  then show ?thesis unfolding ParameterChanged
    using coeffFromMs_range [of "real_of_int x / 10" sr]
    by (cases p) (simp_all add: parameterChanged_def Let_def env_ok_def)
next
  case (MidiMessage b0 b1 b2)
  assume "env_ok (dtc alg)"
  then show ?thesis unfolding MidiMessage
    by (simp add: midiMessage_def Let_def env_ok_def)
next
  case (WavCallback frames)
  assume "env_ok (dtc alg)"
  then show ?thesis unfolding WavCallback by (simp add: wavCallback_def loader_write_def Let_def)
next
  case (Step cv n)
  assume "env_ok (dtc alg)"
  then have "env_ok (dtc (step_enter sr cv (n * 4) alg))"
    by (simp add: env_ok_def step_enter_fields)
  then show ?thesis unfolding Step host_step.simps
    by (intro step_invariant tick_env_ok)
qed


section \<open>Mask engine: patterns along a run\<close>

lemma final_dtc_simps:
  "final_dtc d [] = d"
  "final_dtc d (sample_loop alg L (c # cs) d)
     = final_dtc (o_dtc (tick alg L c d)) (sample_loop alg L cs (o_dtc (tick alg L c d)))"
  by (simp_all add: final_dtc_def Let_def)

lemma step_final: "dtc (fst (step sr cv n alg)) = final_dtc (dtc (step_enter sr cv (n * 4) alg)) (snd (step sr cv n alg))"
  by (simp add: step_dtc final_dtc_def)

lemma mask_decisions_append: "mask_decisions (xs @ ys) = mask_decisions xs @ mask_decisions ys"
  by (simp add: mask_decisions_def map_filter_def)

lemma trigger_count_append: "trigger_count (xs @ ys) = trigger_count xs + trigger_count ys"
  by (simp add: trigger_count_def)

lemma map_upt_add: "map g [0..<a + b] = map g [0..<a] @ map (\<lambda>k. g (a + k)) [0..<b]"
proof (induction b)
  case 0
  show ?case by simp
next
  case (Suc b)
  then show ?case by (simp add: add.commute)
qed

lemma burst_pattern_mod: "burst_pattern_spec (k mod 8) = burst_pattern_spec k"
  by (simp add: burst_pattern_spec_def)

lemma burst_pattern_shift: "burst_pattern_spec ((c + a) mod 8 + k + 1) = burst_pattern_spec (c + (a + k) + 1)"
proof -
  have "((c + a) mod 8 + (k + 1)) mod 8 = ((c + a) + (k + 1)) mod 8"
    by (rule mod_add_left_eq)
  then have "((c + a) mod 8 + k + 1) mod 8 = (c + (a + k) + 1) mod 8"
    by (simp add: add.assoc)
  then show ?thesis by (simp only: burst_pattern_spec_def)
qed

lemma sample_loop_burst_counter:
  assumes "maskMode alg = 2" "burstOn alg = 4" "burstOff alg = 4"
  shows "unat (burstCounter d) < 8 \<Longrightarrow>
         unat (burstCounter (final_dtc d (sample_loop alg L cvps d)))
           = (unat (burstCounter d) + trigger_count (sample_loop alg L cvps d)) mod 8"
proof (induction cvps arbitrary: d)
  case Nil
  then show ?case by (simp add: final_dtc_simps trigger_count_simps)
next
  case (Cons c cvps)
  let ?d1 = "o_dtc (tick alg L c d)"
  let ?np = "pulse_now L c d"
  have bc: "burstCounter ?d1 = (if ?np then (burstCounter d + 1) mod 8 else burstCounter d)"
    using assms by (simp add: tick_parts tick_audio_fields tick_control_mask mask_decision_burst44)
  have lt: "unat (burstCounter ?d1) < 8"
    using Cons.prems by (simp add: bc burst_counter_step)
  have np: "o_newPulse (tick alg L c d) = ?np"
    by (simp add: tick_parts tick_control_phase)
  have u: "unat (burstCounter ?d1) = (if ?np then (unat (burstCounter d) + 1) mod 8 else unat (burstCounter d))"
    using Cons.prems by (simp add: bc burst_counter_step)
  have m: "(Suc n mod 8 + k) mod 8 = Suc (n + k) mod 8" for n k :: nat
    using mod_add_left_eq [of "Suc n" 8 k] by simp
  show ?case
    unfolding final_dtc_simps Cons.IH [OF lt]
    by (simp add: Let_def trigger_count_simps np u m)
qed

lemma sample_loop_burst_pattern:
  assumes "maskMode alg = 2" "burstOn alg = 4" "burstOff alg = 4" "unat (burstCounter d) < 8"
  shows "mask_decisions (sample_loop alg L cvps d) =
           map (\<lambda>k. burst_pattern_spec (unat (burstCounter d) + k + 1))
               [0..<trigger_count (sample_loop alg L cvps d)]"
  using sample_loop_burst44 [OF assms] by (simp add: burst_pattern_spec_def)

lemma host_step_burst:
  assumes b: "burst44 alg" and k: "keeps_burst_settings e"
  shows "burst44 (fst (host_step sr e alg))
       \<and> unat (burstCounter (dtc (fst (host_step sr e alg))))
           = (unat (burstCounter (dtc alg)) + trigger_count (snd (host_step sr e alg))) mod 8
       \<and> mask_decisions (snd (host_step sr e alg))
           = map (\<lambda>k. burst_pattern_spec (unat (burstCounter (dtc alg)) + k + 1))
               [0..<trigger_count (snd (host_step sr e alg))]"
proof (cases e)
  case (ParameterChanged p x n ok)
  from k have "p \<noteq> kParamMaskMode" "p \<noteq> kParamBurstOn" "p \<noteq> kParamBurstOff"
    by (simp_all add: keeps_burst_settings_def ParameterChanged)
  with b show ?thesis unfolding ParameterChanged
    by (cases p)
      (simp_all add: parameterChanged_def Let_def burst44_def mask_decisions_simps trigger_count_simps)
next
  case (MidiMessage b0 b1 b2)
  with b show ?thesis
    by (simp add: midiMessage_def Let_def burst44_def mask_decisions_simps trigger_count_simps)
next
  case (WavCallback frames)
  with b show ?thesis
    by (simp add: wavCallback_def loader_write_def Let_def burst44_def mask_decisions_simps
        trigger_count_simps)
next
  case (Step cv n)
  let ?a = "step_enter sr cv (n * 4) alg"
  let ?L = "step_prepare sr cv (n * 4) ?a"
  let ?cs = "map (\<lambda>i. map_option (\<lambda>xs. xs ! i) (cvPitch cv)) [0..<n * 4]"
  have m: "maskMode ?a = 2" "burstOn ?a = 4" "burstOff ?a = 4"
    and c: "burstCounter (dtc ?a) = burstCounter (dtc alg)"
    using b by (simp_all add: burst44_def step_enter_fields)
  have lt: "unat (burstCounter (dtc ?a)) < 8" using b by (simp add: c burst44_def)
  have fields: "maskMode (fst (step sr cv n alg)) = 2" "burstOn (fst (step sr cv n alg)) = 4"
    "burstOff (fst (step sr cv n alg)) = 4"
    using m by (simp_all add: step_def Let_def)
  have cnt: "unat (burstCounter (dtc (fst (step sr cv n alg))))
           = (unat (burstCounter (dtc alg)) + trigger_count (snd (step sr cv n alg))) mod 8"
    unfolding step_final step_obs
    using sample_loop_burst_counter [OF m lt, of ?L ?cs] by (simp add: c)
  have pat: "mask_decisions (snd (step sr cv n alg))
           = map (\<lambda>k. burst_pattern_spec (unat (burstCounter (dtc alg)) + k + 1))
               [0..<trigger_count (snd (step sr cv n alg))]"
    unfolding step_obs
    using sample_loop_burst_pattern [OF m lt, of ?L ?cs] by (simp add: c)
  from fields cnt pat show ?thesis
    unfolding Step host_step.simps by (simp add: burst44_def)
qed

lemma run_burst:
  assumes "list_all keeps_burst_settings es"
  shows "burst44 alg \<Longrightarrow>
         burst44 (fst (run sr es alg))
       \<and> unat (burstCounter (dtc (fst (run sr es alg))))
           = (unat (burstCounter (dtc alg)) + trigger_count (snd (run sr es alg))) mod 8
       \<and> mask_decisions (snd (run sr es alg))
           = map (\<lambda>k. burst_pattern_spec (unat (burstCounter (dtc alg)) + k + 1))
               [0..<trigger_count (snd (run sr es alg))]"
  using assms
proof (induction es arbitrary: alg)
  case Nil
  then show ?case by (simp add: mask_decisions_simps trigger_count_simps burst44_def)
next
  case (Cons e es)
  let ?a1 = "fst (host_step sr e alg)"
  let ?o1 = "snd (host_step sr e alg)"
  let ?c = "unat (burstCounter (dtc alg))"
  from Cons.prems have ke: "keeps_burst_settings e" and kes: "list_all keeps_burst_settings es"
    by simp_all
  note h = host_step_burst [OF Cons.prems(1) ke, of sr]
  from h have b1: "burst44 ?a1" by blast
  from h have c1: "unat (burstCounter (dtc ?a1)) = (?c + trigger_count ?o1) mod 8" by blast
  from h have p1: "mask_decisions ?o1 = map (\<lambda>k. burst_pattern_spec (?c + k + 1)) [0..<trigger_count ?o1]"
    by blast
  note IH = Cons.IH [OF b1 kes]
  let ?o2 = "snd (run sr es ?a1)"
  from IH have c2: "unat (burstCounter (dtc (fst (run sr es ?a1))))
      = (unat (burstCounter (dtc ?a1)) + trigger_count ?o2) mod 8" by blast
  from IH have p2: "mask_decisions ?o2
      = map (\<lambda>k. burst_pattern_spec (unat (burstCounter (dtc ?a1)) + k + 1)) [0..<trigger_count ?o2]"
    by blast
  have p2': "mask_decisions ?o2
      = map (\<lambda>k. burst_pattern_spec (?c + (trigger_count ?o1 + k) + 1)) [0..<trigger_count ?o2]"
    unfolding p2 c1 by (simp only: burst_pattern_shift)
  have c2': "unat (burstCounter (dtc (fst (run sr es ?a1))))
      = (?c + (trigger_count ?o1 + trigger_count ?o2)) mod 8"
    unfolding c2 c1 by (simp add: mod_add_left_eq add.assoc)
  have r: "run sr (e # es) alg = (fst (run sr es ?a1), ?o1 @ ?o2)"
    by (simp add: case_prod_beta Let_def)
  from IH have b2: "burst44 (fst (run sr es ?a1))" by blast
  show ?case
    unfolding r fst_conv snd_conv mask_decisions_append trigger_count_append map_upt_add p1 p2'
    using b2 c2' by simp
qed

lemma stochastic_spec_add:
  "stochastic_spec amount s (a + b) = stochastic_spec amount s a @ stochastic_spec amount (lcg_iter a s) b"
  by (induction a arbitrary: s) (simp_all add: Let_def)

lemma lcg_iter_add: "lcg_iter (a + b) s = lcg_iter b (lcg_iter a s)"
  by (induction a arbitrary: s) simp_all

lemma sample_loop_prng:
  assumes "maskMode alg = 1"
  shows "prngState (final_dtc d (sample_loop alg L cvps d))
           = lcg_iter (trigger_count (sample_loop alg L cvps d)) (prngState d)"
proof (induction cvps arbitrary: d)
  case Nil
  show ?case by (simp add: final_dtc_simps trigger_count_simps)
next
  case (Cons c cvps)
  show ?case
    unfolding final_dtc_simps Cons.IH
    using assms
    by (simp add: Let_def trigger_count_simps tick_parts tick_audio_fields tick_control_mask
        tick_control_phase mask_decision_stochastic)
qed

lemma step_prepare_mask:
  "l_hasMaskCV (step_prepare sr cv n alg) = (cvMask cv \<noteq> None)"
  "l_maskCvAmount (step_prepare sr cv n alg) = min 1 (max 0 (cv_avg (cvMask cv) n * 0.1))"
  by (simp_all add: step_prepare_def Let_def min_def max_def)

lemma step_stochastic:
  assumes "maskMode alg = 1"
  shows "mask_decisions (snd (step sr cv n alg))
           = stochastic_spec
               (if cvMask cv \<noteq> None then min 1 (max 0 (cv_avg (cvMask cv) (n * 4) * 0.1))
                else maskAmount alg)
               (prngState (dtc alg)) (trigger_count (snd (step sr cv n alg)))"
    and "prngState (dtc (fst (step sr cv n alg)))
           = lcg_iter (trigger_count (snd (step sr cv n alg))) (prngState (dtc alg))"
proof -
  let ?a = "step_enter sr cv (n * 4) alg"
  have m: "maskMode ?a = 1" using assms by (simp add: step_enter_fields)
  show "mask_decisions (snd (step sr cv n alg))
           = stochastic_spec
               (if cvMask cv \<noteq> None then min 1 (max 0 (cv_avg (cvMask cv) (n * 4) * 0.1))
                else maskAmount alg)
               (prngState (dtc alg)) (trigger_count (snd (step sr cv n alg)))"
    unfolding step_obs sample_loop_stochastic [OF m]
    by (simp add: step_prepare_mask step_enter_fields)
  show "prngState (dtc (fst (step sr cv n alg)))
           = lcg_iter (trigger_count (snd (step sr cv n alg))) (prngState (dtc alg))"
    unfolding step_final step_obs sample_loop_prng [OF m]
    by (simp add: step_enter_fields)
qed

lemma host_step_stochastic:
  assumes b: "stochastic_mode amount alg" and k: "keeps_stochastic_settings e"
  shows "stochastic_mode amount (fst (host_step sr e alg))
       \<and> prngState (dtc (fst (host_step sr e alg)))
           = lcg_iter (trigger_count (snd (host_step sr e alg))) (prngState (dtc alg))
       \<and> mask_decisions (snd (host_step sr e alg))
           = stochastic_spec amount (prngState (dtc alg)) (trigger_count (snd (host_step sr e alg)))"
proof (cases e)
  case (ParameterChanged p x n ok)
  from k have "p \<noteq> kParamMaskMode" "p \<noteq> kParamMaskAmount"
    by (simp_all add: keeps_stochastic_settings_def ParameterChanged)
  with b show ?thesis unfolding ParameterChanged
    by (cases p)
      (simp_all add: parameterChanged_def Let_def stochastic_mode_def mask_decisions_simps
        trigger_count_simps)
next
  case (MidiMessage b0 b1 b2)
  with b show ?thesis
    by (simp add: midiMessage_def Let_def stochastic_mode_def mask_decisions_simps trigger_count_simps)
next
  case (WavCallback frames)
  with b show ?thesis
    by (simp add: wavCallback_def loader_write_def Let_def stochastic_mode_def mask_decisions_simps
        trigger_count_simps)
next
  case (Step cv n)
  from k have nocv: "cvMask cv = None" by (simp add: keeps_stochastic_settings_def Step)
  from b have m: "maskMode alg = 1" and a: "maskAmount alg = amount"
    by (simp_all add: stochastic_mode_def)
  have keep: "stochastic_mode amount (fst (step sr cv n alg))"
    using b by (simp add: stochastic_mode_def step_def Let_def step_enter_fields)
  from keep step_stochastic [OF m, of sr cv n] show ?thesis
    unfolding Step host_step.simps by (simp add: nocv a)
qed

lemma run_stochastic:
  assumes "list_all keeps_stochastic_settings es"
  shows "stochastic_mode amount alg \<Longrightarrow>
         stochastic_mode amount (fst (run sr es alg))
       \<and> prngState (dtc (fst (run sr es alg)))
           = lcg_iter (trigger_count (snd (run sr es alg))) (prngState (dtc alg))
       \<and> mask_decisions (snd (run sr es alg))
           = stochastic_spec amount (prngState (dtc alg)) (trigger_count (snd (run sr es alg)))"
  using assms
proof (induction es arbitrary: alg)
  case Nil
  then show ?case by (simp add: mask_decisions_simps trigger_count_simps)
next
  case (Cons e es)
  let ?a1 = "fst (host_step sr e alg)"
  let ?o1 = "snd (host_step sr e alg)"
  let ?o2 = "snd (run sr es ?a1)"
  from Cons.prems have ke: "keeps_stochastic_settings e"
    and kes: "list_all keeps_stochastic_settings es"
    by simp_all
  note h = host_step_stochastic [OF Cons.prems(1) ke, of sr]
  from h have b1: "stochastic_mode amount ?a1" by blast
  from h have s1: "prngState (dtc ?a1) = lcg_iter (trigger_count ?o1) (prngState (dtc alg))" by blast
  from h have p1: "mask_decisions ?o1
      = stochastic_spec amount (prngState (dtc alg)) (trigger_count ?o1)" by blast
  note IH = Cons.IH [OF b1 kes]
  from IH have b2: "stochastic_mode amount (fst (run sr es ?a1))" by blast
  from IH have s2: "prngState (dtc (fst (run sr es ?a1)))
      = lcg_iter (trigger_count ?o2) (prngState (dtc ?a1))" by blast
  from IH have p2: "mask_decisions ?o2
      = stochastic_spec amount (prngState (dtc ?a1)) (trigger_count ?o2)" by blast
  have r: "run sr (e # es) alg = (fst (run sr es ?a1), ?o1 @ ?o2)"
    by (simp add: case_prod_beta Let_def)
  show ?case
    unfolding r fst_conv snd_conv mask_decisions_append trigger_count_append
      stochastic_spec_add lcg_iter_add p1 p2 s2 s1
    using b2 by simp
qed

lemma lcg_uniform_range:
  fixes s :: u32
  shows "0 \<le> real (unat (drop_bit 8 s)) / 16777216 \<and> real (unat (drop_bit 8 s)) / 16777216 < 1"
proof -
  have "unat s < 2 ^ 32" using unsigned_less [of s] by simp
  then have "unat s div 2 ^ 8 < 2 ^ 24" by (simp add: less_mult_imp_div_less)
  moreover have "unat (drop_bit 8 s) = unat s div 2 ^ 8"
    by (simp add: drop_bit_eq_div unat_div)
  ultimately have "unat (drop_bit 8 s) < 16777216" by simp
  then have "real (unat (drop_bit 8 s)) < real 16777216"
    by (simp only: of_nat_less_iff)
  moreover have "0 \<le> real (unat (drop_bit 8 s))"
    by (rule of_nat_0_le_iff)
  ultimately show ?thesis by simp
qed

section \<open>Soft clipping\<close>

lemma fastTanh_eq: "fastTanh x = x * (27 + x\<^sup>2) / (27 + 9 * x\<^sup>2)"
  by (simp add: fastTanh_def Let_def power2_eq_square)

lemma fastTanh_odd: "fastTanh (- x) = - fastTanh x"
  by (simp add: fastTanh_def Let_def)

lemma fastTanh_denominator: "0 < 27 + 9 * (x::real)\<^sup>2"
proof -
  have "0 \<le> x\<^sup>2" by simp
  then show ?thesis by linarith
qed

text \<open>The difference of two values factors with a sum of squares: the function is monotone.\<close>

lemma fastTanh_diff:
  "fastTanh y - fastTanh x =
     (y - x) * (27 * (x - y)\<^sup>2 + 9 * (x * y - 9)\<^sup>2) / ((27 + 9 * x\<^sup>2) * (27 + 9 * y\<^sup>2))"
  unfolding fastTanh_eq using fastTanh_denominator [of x] fastTanh_denominator [of y]
  by (simp add: field_simps power2_eq_square power3_eq_cube)

lemma fastTanh_mono:
  assumes "x \<le> y"
  shows "fastTanh x \<le> fastTanh y"
proof -
  have "0 \<le> (y - x) * (27 * (x - y)\<^sup>2 + 9 * (x * y - 9)\<^sup>2) / ((27 + 9 * x\<^sup>2) * (27 + 9 * y\<^sup>2))"
    using assms by (intro divide_nonneg_nonneg mult_nonneg_nonneg add_nonneg_nonneg) simp_all
  then show ?thesis using fastTanh_diff [of y x] by simp
qed

lemma fastTanh_at_79: "fastTanh (79 / 10) < 12 / 10"
  by (simp add: fastTanh_def Let_def)

text \<open>
  C2, as stated: \<open>fastTanh 0 = 0\<close> and \<open>|fastTanh x| < 1.2\<close> for every \<open>x\<close>. The bound
  fails: \<open>fastTanh\<close> grows like \<open>x / 9\<close>, and at \<open>x = 100\<close> its value exceeds 11.
\<close>

theorem C2_fastTanh_unbounded_counterexample: "\<not> \<bar>fastTanh 100\<bar> < 1.2"
  by (simp add: fastTanh_def Let_def)

text \<open>
  C2, amended: \<open>fastTanh 0 = 0\<close>, and \<open>|fastTanh x| < 1.2\<close> for every \<open>x\<close> with
  \<open>|x| \<le> 7.9\<close>.
\<close>

theorem C2_fastTanh_bounded_on_range:
  "fastTanh 0 = 0 \<and> (\<forall>x. \<bar>x\<bar> \<le> 7.9 \<longrightarrow> \<bar>fastTanh x\<bar> < 1.2)"
proof (intro conjI allI impI)
  show "fastTanh 0 = 0" by (simp add: fastTanh_def)
next
  fix x :: real
  assume b: "\<bar>x\<bar> \<le> 7.9"
  have up: "fastTanh x \<le> fastTanh (79 / 10)"
    using b by (intro fastTanh_mono) simp
  have "fastTanh (- (79 / 10)) \<le> fastTanh x"
    using b by (intro fastTanh_mono) simp
  then have lo: "- fastTanh (79 / 10) \<le> fastTanh x"
    by (simp only: fastTanh_odd)
  from up lo fastTanh_at_79 show "\<bar>fastTanh x\<bar> < 1.2" by simp
qed

theorem C2_fastTanh_bounded_on_range_witness:
  "\<bar>3 :: real\<bar> \<le> 7.9 \<and> \<bar>fastTanh 3\<bar> < 1.2"
proof -
  have h: "\<bar>3 :: real\<bar> \<le> 7.9" by simp
  from C2_fastTanh_bounded_on_range have "\<bar>3 :: real\<bar> \<le> 7.9 \<longrightarrow> \<bar>fastTanh 3\<bar> < 1.2"
    by blast
  with h show ?thesis by blast
qed

section \<open>Master oscillator and glide\<close>

lemma exponent_cases:
  fixes k :: int
  assumes "- 127 \<le> k" and "k \<le> 127"
  shows "\<exists>r. (if 0 \<le> k \<and> k \<le> 127 then Finite A
              else if - 126 \<le> k \<and> k < 0 then Finite B
              else if k = - 127 then Finite C else D) = Finite r"
  using assms by auto

lemma fastExp2f_finite:
  assumes "- 127 \<le> c" and "c < 128"
  shows "\<exists>r. fastExp2f c = Finite r"
proof -
  have lo: "- 127 \<le> \<lfloor>c\<rfloor>" using assms(1) by (simp add: le_floor_iff)
  have hi: "\<lfloor>c\<rfloor> \<le> 127" using assms(2) by (simp add: floor_le_iff)
  show ?thesis unfolding fastExp2f_def Let_def by (rule exponent_cases [OF lo hi])
qed

lemma sample_freq_finite: "pitch_ok c \<Longrightarrow> \<exists>fr. sample_freq c d = Finite fr"
proof (cases c)
  case None
  then show ?thesis by (simp add: sample_freq_def)
next
  case (Some x)
  assume "pitch_ok c"
  with Some have "- 127 \<le> x" "x < 128" by (simp_all add: pitch_ok_def)
  then obtain r where "fastExp2f x = Finite r" using fastExp2f_finite by blast
  with Some show ?thesis by (simp add: sample_freq_def fval_mult_def)
qed

lemma tick_inc_finite:
  assumes "sample_freq c (glide_step d) = Finite fr" and "l_invSr L = 1 / sr"
  shows "tick_inc L c d = Some (min (1 / 2) (max 0 (fr / sr)))"
  using assms
  by (simp add: tick_inc_def phase_increment_def fval_mult_def Let_def min_def max_def)

lemma tick_inc_nan:
  assumes "sample_freq c (glide_step d) = NaN"
  shows "tick_inc L c d = None"
  using assms by (simp add: tick_inc_def phase_increment_def fval_mult_def)

lemma glide_step_phase: "masterPhase (glide_step d) = masterPhase d"
  by (simp add: glide_step_def Let_def)

lemma tick_phase_nan:
  assumes "tick_inc L c d = None"
  shows "masterPhase (o_dtc (tick alg L c d)) = None" and "\<not> o_newPulse (tick alg L c d)"
  using assms
  by (simp_all add: tick_parts tick_audio_fields tick_control_phase pulse_now_def advance_phase_def
      split: option.splits)

lemma tick_phase_pass:
  assumes ok: "phase_ok d" and p: "pitch_ok c" and L: "l_invSr L = 1 / sr"
  shows "phase_pass_spec sr d c (tick alg L c d)" and "phase_ok (o_dtc (tick alg L c d))"
proof -
  from ok obtain ph where ph: "masterPhase d = Some ph" and r: "0 \<le> ph" "ph < 1"
    by (auto simp: phase_ok_def split: option.splits)
  from p obtain fr where fr: "sample_freq c (glide_step d) = Finite fr"
    using sample_freq_finite by blast
  define inc where "inc = min (1 / 2) (max 0 (fr / sr))"
  have i: "tick_inc L c d = Some inc"
    unfolding inc_def using fr L by (rule tick_inc_finite)
  have b: "0 \<le> inc" "inc \<le> 1 / 2" by (simp_all add: inc_def min_def max_def)
  have np: "o_newPulse (tick alg L c d) = (1 \<le> ph + inc)"
    by (simp add: tick_parts tick_control_phase pulse_now_Some [OF ph i])
  have ph': "masterPhase (o_dtc (tick alg L c d))
               = Some (ph + inc - (if 1 \<le> ph + inc then 1 else 0))"
    by (simp add: tick_parts tick_audio_fields tick_control_phase i
        advance_phase_Some [of "glide_step d" ph inc] glide_step_phase ph)
  show "phase_pass_spec sr d c (tick alg L c d)"
    using r b by (simp add: phase_pass_spec_def ph fr ph' np inc_def [symmetric] Let_def)
  show "phase_ok (o_dtc (tick alg L c d))"
    using r b by (simp add: phase_ok_def ph')
qed

lemma sample_loop_length: "length (sample_loop alg L cvps d) = length cvps"
  by (induction cvps arbitrary: d) (simp_all add: Let_def)

lemma state_before_Cons:
  "state_before d (ob # obs) (Suc j) = state_before (o_dtc ob) obs j"
  by (cases j) (simp_all add: state_before_def)

lemma sample_loop_nth:
  "i < length cvps \<Longrightarrow>
     sample_loop alg L cvps d ! i
       = tick alg L (cvps ! i) (state_before d (sample_loop alg L cvps d) i)"
proof (induction cvps arbitrary: d i)
  case Nil
  then show ?case by simp
next
  case (Cons c cvps)
  show ?case
  proof (cases i)
    case 0
    then show ?thesis by (simp add: Let_def state_before_def)
  next
    case (Suc j)
    with Cons.prems have "j < length cvps" by simp
    from Cons.IH [OF this, of "o_dtc (tick alg L c d)"] Suc show ?thesis
      by (simp add: Let_def state_before_Cons)
  qed
qed

lemma state_before_invariant:
  assumes "J d" and "\<forall>ob \<in> set obs. J (o_dtc ob)" and "i < length obs"
  shows "J (state_before d obs i)"
proof (cases i)
  case 0
  with assms(1) show ?thesis by (simp add: state_before_def)
next
  case (Suc j)
  with assms(3) have "obs ! j \<in> set obs" by simp
  with assms(2) Suc show ?thesis by (simp add: state_before_def)
qed

lemma step_obs_pitch:
  "snd (step sr cv n alg) =
     sample_loop (step_enter sr cv (n * 4) alg)
       (step_prepare sr cv (n * 4) (step_enter sr cv (n * 4) alg))
       (pitch_samples cv (n * 4))
       (dtc (step_enter sr cv (n * 4) alg))"
  by (simp add: step_obs pitch_samples_def)

lemma pitch_samples_length: "length (pitch_samples cv n) = n"
  by (simp add: pitch_samples_def)

lemma step_length: "length (snd (step sr cv n alg)) = n * 4"
  by (simp add: step_obs_pitch sample_loop_length pitch_samples_length)

lemma step_last:
  "0 < n \<Longrightarrow> dtc (fst (step sr cv n alg)) = o_dtc (snd (step sr cv n alg) ! (n * 4 - 1))"
proof -
  assume n: "0 < n"
  then have ne: "snd (step sr cv n alg) \<noteq> []"
    using step_length [of sr cv n alg] by auto
  then show ?thesis
    by (simp add: step_dtc last_conv_nth step_length)
qed

lemma step_nth:
  "i < n * 4 \<Longrightarrow>
     snd (step sr cv n alg) ! i
       = tick (step_enter sr cv (n * 4) alg)
           (step_prepare sr cv (n * 4) (step_enter sr cv (n * 4) alg))
           (pitch_samples cv (n * 4) ! i)
           (state_before (dtc (step_enter sr cv (n * 4) alg)) (snd (step sr cv n alg)) i)"
  unfolding step_obs_pitch by (rule sample_loop_nth) (simp add: pitch_samples_length)

lemma step_phase:
  assumes ok: "phase_ok (dtc alg)" and b: "block_ok cv n"
  shows "\<forall>ob \<in> set (snd (step sr cv n alg)). phase_ok (o_dtc ob)"
    and "phase_ok (dtc (fst (step sr cv n alg)))"
    and "\<forall>i < n * 4. phase_pass_spec sr
            (state_before (dtc (step_enter sr cv (n * 4) alg)) (snd (step sr cv n alg)) i)
            (pitch_samples cv (n * 4) ! i) (snd (step sr cv n alg) ! i)"
proof -
  let ?a = "step_enter sr cv (n * 4) alg"
  let ?L = "step_prepare sr cv (n * 4) ?a"
  let ?obs = "snd (step sr cv n alg)"
  have L: "l_invSr ?L = 1 / sr" by (rule step_prepare_invSr)
  have start: "phase_ok (dtc ?a)" using ok by (simp add: phase_ok_def step_enter_fields)
  from b have n: "0 < n" and ps: "list_all pitch_ok (pitch_samples cv (n * 4))"
    by (simp_all add: block_ok_def)
  have tk: "\<And>c d. pitch_ok c \<Longrightarrow> phase_ok d \<Longrightarrow> phase_ok (o_dtc (tick ?a ?L c d))"
    by (rule tick_phase_pass(2) [OF _ _ L])
  show all: "\<forall>ob \<in> set ?obs. phase_ok (o_dtc ob)"
    unfolding step_obs_pitch using tk ps start
    by (rule sample_loop_invariant_on [where Q = pitch_ok and J = phase_ok])
  show "phase_ok (dtc (fst (step sr cv n alg)))"
    using all start by (simp add: step_dtc)
  show "\<forall>i < n * 4. phase_pass_spec sr (state_before (dtc ?a) ?obs i)
            (pitch_samples cv (n * 4) ! i) (?obs ! i)"
  proof (intro allI impI)
    fix i assume i: "i < n * 4"
    then have il: "i < length ?obs" by (simp add: step_length)
    have sb: "phase_ok (state_before (dtc ?a) ?obs i)"
      using start all il by (rule state_before_invariant [where J = phase_ok])
    have pc: "pitch_ok (pitch_samples cv (n * 4) ! i)"
      using ps i by (simp add: list_all_length pitch_samples_length)
    show "phase_pass_spec sr (state_before (dtc ?a) ?obs i) (pitch_samples cv (n * 4) ! i) (?obs ! i)"
      unfolding step_nth [OF i] using sb pc L by (rule tick_phase_pass(1))
  qed
qed

lemma host_step_phase_ok:
  assumes "finite_pitch e" and "phase_ok (dtc alg)"
  shows "phase_ok (dtc (fst (host_step sr e alg))) \<and>
     (\<forall>ob \<in> set (snd (host_step sr e alg)). phase_ok (o_dtc ob))"
proof (cases e)
  case (ParameterChanged p x n ok)
  from assms(2) show ?thesis unfolding ParameterChanged
    by (cases p) (simp_all add: parameterChanged_def Let_def phase_ok_def)
next
  case (MidiMessage b0 b1 b2)
  from assms(2) show ?thesis unfolding MidiMessage
    by (simp add: midiMessage_def Let_def phase_ok_def)
next
  case (WavCallback frames)
  from assms(2) show ?thesis unfolding WavCallback
    by (simp add: wavCallback_def loader_write_def Let_def)
next
  case (Step cv n)
  with assms(1) have b: "block_ok cv n" by (simp add: finite_pitch_def)
  from step_phase(1,2) [OF assms(2) b, of sr] show ?thesis
    unfolding Step host_step.simps by blast
qed

lemma step_pitch_nan:
  assumes n: "0 < n" and c: "pitch_samples cv (n * 4) ! (n * 4 - 1) = Some 128.5"
  shows "masterPhase (dtc (fst (step sr cv n alg))) = None"
proof -
  from n have i: "n * 4 - 1 < n * 4" by simp
  have f: "sample_freq (Some 128.5) d = NaN" for d
    by (simp add: sample_freq_def fval_mult_def fastExp2f_def Let_def)
  show ?thesis
    unfolding step_last [OF n] step_nth [OF i] c
    by (rule tick_phase_nan(1)) (rule tick_inc_nan, rule f)
qed

text \<open>
  C5, as stated: the master phase is in \<open>[0, 1)\<close> after every sample that \<open>step\<close>
  processes. Run: construct at 48 kHz, note-on for MIDI note 69, one block of 4 frames with
  the Pitch CV at 128.5 V. \<open>fastExp2f\<close> computes the exponent field \<open>127 + 128 = 255\<close> with
  a mantissa that is not 0, a NaN; the frequency and the phase increment are NaN, both
  clamps let a NaN pass, and the accumulator is NaN after the block.
\<close>

theorem C5_pitch_cv_beyond_exponent_range_counterexample:
  "phase_ok (dtc (construct 48000 host_defaults))
   \<and> masterPhase (dtc (fst (run 48000
        [MidiMessage 0x90 69 100,
         Step (no_cv\<lparr>cvPitch := Some [128.5, 128.5, 128.5, 128.5]\<rparr>) 1]
        (construct 48000 host_defaults)))) = None
   \<and> \<not> phase_ok (dtc (fst (run 48000
        [MidiMessage 0x90 69 100,
         Step (no_cv\<lparr>cvPitch := Some [128.5, 128.5, 128.5, 128.5]\<rparr>) 1]
        (construct 48000 host_defaults))))"
proof -
  let ?cv = "no_cv\<lparr>cvPitch := Some [128.5, 128.5, 128.5, 128.5]\<rparr>"
  have c: "pitch_samples ?cv (1 * 4) ! (1 * 4 - 1) = Some 128.5"
    by (simp add: pitch_samples_def)
  have n: "(0::nat) < 1" by simp
  have "masterPhase (dtc (fst (step 48000 ?cv 1
           (midiMessage 0x90 69 100 (construct 48000 host_defaults))))) = None"
    using n c by (rule step_pitch_nan)
  then have r: "masterPhase (dtc (fst (run 48000 [MidiMessage 0x90 69 100, Step ?cv 1]
        (construct 48000 host_defaults)))) = None"
    by (simp add: case_prod_beta Let_def)
  have s: "phase_ok (dtc (construct 48000 host_defaults))"
    by (simp add: phase_ok_def construct_def)
  from r s show ?thesis by (simp add: phase_ok_def)
qed

text \<open>
  C5, amended: with a positive sample rate, and as long as every block has at least one
  frame and every pitch-CV sample that its loop reads lies in \<open>[-127, 128)\<close> (the range in
  which \<open>fastExp2f\<close> returns a finite number), a phase that starts in \<open>[0, 1)\<close> is in
  \<open>[0, 1)\<close> after every sample of every block, whatever the host does in between. A block
  of \<open>n * 4\<close> frames makes \<open>n * 4\<close> passes; pass \<open>i\<close> starts in the state that pass
  \<open>i - 1\<close> left (the first one in the state at block entry, whose phase is that of the
  state before the block); its increment is the frequency of the sample divided by the
  sample rate, clamped to \<open>[0, 0.5]\<close>; it raises \<open>newPulse\<close> exactly when phase plus
  increment reaches 1, and then subtracts 1 (\<open>phase_pass_spec\<close>); and the block leaves
  the state of its last pass.
\<close>

theorem C5_master_phase_in_unit_interval_for_finite_pitch:
  assumes "phase_ok (dtc alg)" and "0 < sr" and "list_all finite_pitch es" and "block_ok cv n"
  shows "(\<forall>ob \<in> set (snd (run sr es alg)). phase_ok (o_dtc ob))
       \<and> phase_ok (dtc (fst (run sr es alg)))
       \<and> length (snd (step sr cv n alg)) = n * 4
       \<and> masterPhase (dtc (step_enter sr cv (n * 4) alg)) = masterPhase (dtc alg)
       \<and> (\<forall>i < n * 4.
            phase_pass_spec sr
              (state_before (dtc (step_enter sr cv (n * 4) alg)) (snd (step sr cv n alg)) i)
              (pitch_samples cv (n * 4) ! i)
              (snd (step sr cv n alg) ! i))
       \<and> dtc (fst (step sr cv n alg)) = o_dtc (last (snd (step sr cv n alg)))"
proof -
  have r: "phase_ok (dtc (fst (run sr es alg))) \<and> (\<forall>ob \<in> set (snd (run sr es alg)). phase_ok (o_dtc ob))"
    using host_step_phase_ok assms(3,1)
    by (rule run_invariant_on [where Q = finite_pitch and I = "\<lambda>a. phase_ok (dtc a)"
          and P = "\<lambda>ob. phase_ok (o_dtc ob)"])
  from assms(4) have n: "0 < n" by (simp add: block_ok_def)
  then have ne: "snd (step sr cv n alg) \<noteq> []"
    using step_length [of sr cv n alg] by auto
  then have l: "dtc (fst (step sr cv n alg)) = o_dtc (last (snd (step sr cv n alg)))"
    by (simp add: step_dtc)
  from r step_length [of sr cv n alg] step_phase(3) [OF assms(1,4), of sr] l
  show ?thesis by (simp add: step_enter_fields)
qed

theorem C5_master_phase_in_unit_interval_for_finite_pitch_witness:
  "phase_ok (dtc (fst (run 48000 [MidiMessage 0x90 69 100] (construct 48000 host_defaults))))
   \<and> (0::real) < 48000
   \<and> list_all finite_pitch
        [Step (no_cv\<lparr>cvPitch := Some [1, - 3, 1 / 2, 127]\<rparr>) 1, MidiMessage 0x80 69 0,
         Step no_cv 16]
   \<and> block_ok (no_cv\<lparr>cvPitch := Some [1, - 3, 1 / 2, 127]\<rparr>) 1
   \<and> (2::nat) < 1 * 4
   \<and> phase_ok (dtc (fst (run 48000
        [Step (no_cv\<lparr>cvPitch := Some [1, - 3, 1 / 2, 127]\<rparr>) 1, MidiMessage 0x80 69 0,
         Step no_cv 16]
        (fst (run 48000 [MidiMessage 0x90 69 100] (construct 48000 host_defaults))))))
   \<and> length (snd (step 48000 (no_cv\<lparr>cvPitch := Some [1, - 3, 1 / 2, 127]\<rparr>) 1
        (fst (run 48000 [MidiMessage 0x90 69 100] (construct 48000 host_defaults))))) = 1 * 4
   \<and> phase_pass_spec 48000
        (state_before
           (dtc (step_enter 48000 (no_cv\<lparr>cvPitch := Some [1, - 3, 1 / 2, 127]\<rparr>) (1 * 4)
                   (fst (run 48000 [MidiMessage 0x90 69 100] (construct 48000 host_defaults)))))
           (snd (step 48000 (no_cv\<lparr>cvPitch := Some [1, - 3, 1 / 2, 127]\<rparr>) 1
                   (fst (run 48000 [MidiMessage 0x90 69 100] (construct 48000 host_defaults))))) 2)
        (pitch_samples (no_cv\<lparr>cvPitch := Some [1, - 3, 1 / 2, 127]\<rparr>) (1 * 4) ! 2)
        (snd (step 48000 (no_cv\<lparr>cvPitch := Some [1, - 3, 1 / 2, 127]\<rparr>) 1
                (fst (run 48000 [MidiMessage 0x90 69 100] (construct 48000 host_defaults)))) ! 2)"
proof -
  let ?cv = "no_cv\<lparr>cvPitch := Some [1, - 3, 1 / 2, 127]\<rparr>"
  let ?alg = "fst (run 48000 [MidiMessage 0x90 69 100] (construct 48000 host_defaults))"
  have b: "block_ok ?cv 1"
    by (simp add: block_ok_def pitch_samples_def pitch_ok_def upt_rec)
  have b2: "block_ok no_cv 16"
    by (simp add: block_ok_def pitch_samples_def pitch_ok_def no_cv_def list_all_iff)
  have h: "phase_ok (dtc ?alg)" "(0::real) < 48000"
    "list_all finite_pitch [Step ?cv 1, MidiMessage 0x80 69 0, Step no_cv 16]"
    using b b2
    by (simp_all add: phase_ok_def midiMessage_def construct_def host_defaults_def Let_def
        finite_pitch_def)
  have i: "(2::nat) < 1 * 4" by simp
  from C5_master_phase_in_unit_interval_for_finite_pitch [OF h b] h b i show ?thesis by blast
qed

lemma tick_glide:
  "fundamentalHz (o_dtc (tick alg L c d))
     = targetFundamentalHz d + glideCoeff d * (fundamentalHz d - targetFundamentalHz d)"
  "targetFundamentalHz (o_dtc (tick alg L c d)) = targetFundamentalHz d"
  "glideCoeff (o_dtc (tick alg L c d)) = glideCoeff d"
  by (simp_all add: tick_parts tick_audio_fields tick_control_glide)

lemma sample_loop_glide:
  "i < length cvps \<Longrightarrow>
     fundamentalHz (o_dtc (sample_loop alg L cvps d ! i))
       = targetFundamentalHz d + glideCoeff d ^ Suc i * (fundamentalHz d - targetFundamentalHz d)
     \<and> targetFundamentalHz (o_dtc (sample_loop alg L cvps d ! i)) = targetFundamentalHz d
     \<and> glideCoeff (o_dtc (sample_loop alg L cvps d ! i)) = glideCoeff d"
proof (induction cvps arbitrary: d i)
  case Nil
  then show ?case by simp
next
  case (Cons c cvps)
  show ?case
  proof (cases i)
    case 0
    then show ?thesis by (simp add: Let_def tick_glide)
  next
    case (Suc j)
    with Cons.prems have "j < length cvps" by simp
    from Cons.IH [OF this, of "o_dtc (tick alg L c d)"] Suc show ?thesis
      by (simp add: Let_def tick_glide algebra_simps)
  qed
qed

lemma step_enter_glide:
  "fundamentalHz (dtc (step_enter sr cv n alg)) = fundamentalHz (dtc alg)"
  "targetFundamentalHz (dtc (step_enter sr cv n alg)) = targetFundamentalHz (dtc alg)"
  "glideCoeff (dtc (step_enter sr cv n alg)) =
     (case cvGlide cv of None \<Rightarrow> glideCoeff (dtc alg)
      | Some xs \<Rightarrow> coeffFromMs (min 2000 (max 0 (cv_avg (Some xs) n * 200))) sr)"
  by (simp_all add: step_enter_def Let_def min_def max_def split: option.splits)

lemma state_before_glide:
  assumes "i < length cvps"
  shows "targetFundamentalHz (state_before d (sample_loop alg L cvps d) i) = targetFundamentalHz d
       \<and> glideCoeff (state_before d (sample_loop alg L cvps d) i) = glideCoeff d"
proof (cases i)
  case 0
  then show ?thesis by (simp add: state_before_def)
next
  case (Suc j)
  with assms have "j < length cvps" by simp
  from sample_loop_glide [OF this, of alg L d] Suc show ?thesis
    by (simp add: state_before_def)
qed

text \<open>
  C8: the glide coefficient is \<open>exp (-1 / (ms * sr / 1000))\<close>, and 0 when \<open>ms \<le> 0\<close> or
  when \<open>ms * sr / 1000 < 1\<close>. A change of the Glide parameter to \<open>x\<close> stores the
  coefficient of \<open>x / 10\<close> ms; a block with the Glide CV connected stores, on entry, the
  coefficient of the clamped CV average times 200, and otherwise keeps the stored one. A
  block of \<open>n * 4\<close> frames makes \<open>n * 4\<close> passes, and every one of them replaces the
  fundamental that the pass before left by \<open>target + coeff * (fundamental - target)\<close>: after
  pass \<open>i\<close> (counting from 0) the fundamental is
  \<open>target + coeff ^ (i + 1) * (fundamental at entry - target)\<close>, and the block leaves
  \<open>target + coeff ^ (n * 4) * (fundamental at entry - target)\<close>.
\<close>

theorem C8_glide_coefficient_and_recursion:
  assumes "0 < n"
  shows "coeffFromMs ms sr = (if ms \<le> 0 \<or> ms * sr / 1000 < 1 then 0 else exp (- 1 / (ms * sr / 1000)))
       \<and> glideCoeff (dtc (fst (run sr [ParameterChanged kParamGlide x nf ok] alg)))
            = coeffFromMs (of_int x / 10) sr
       \<and> glideCoeff (dtc (step_enter sr cv (n * 4) alg))
            = (case cvGlide cv of None \<Rightarrow> glideCoeff (dtc alg)
               | Some xs \<Rightarrow> coeffFromMs (min 2000 (max 0 (cv_avg (Some xs) (n * 4) * 200))) sr)
       \<and> length (snd (step sr cv n alg)) = n * 4
       \<and> (\<forall>i < n * 4.
             fundamentalHz (o_dtc (snd (step sr cv n alg) ! i))
               = targetFundamentalHz (dtc alg)
                 + glideCoeff (dtc (step_enter sr cv (n * 4) alg))
                   * (fundamentalHz (state_before (dtc (step_enter sr cv (n * 4) alg))
                                       (snd (step sr cv n alg)) i)
                      - targetFundamentalHz (dtc alg))
           \<and> fundamentalHz (o_dtc (snd (step sr cv n alg) ! i))
               = targetFundamentalHz (dtc alg)
                 + glideCoeff (dtc (step_enter sr cv (n * 4) alg)) ^ (i + 1)
                   * (fundamentalHz (dtc alg) - targetFundamentalHz (dtc alg)))
       \<and> fundamentalHz (dtc (fst (step sr cv n alg)))
            = targetFundamentalHz (dtc alg)
              + glideCoeff (dtc (step_enter sr cv (n * 4) alg)) ^ (n * 4)
                * (fundamentalHz (dtc alg) - targetFundamentalHz (dtc alg))"
proof -
  let ?a = "step_enter sr cv (n * 4) alg"
  let ?L = "step_prepare sr cv (n * 4) ?a"
  let ?obs = "snd (step sr cv n alg)"
  let ?t = "targetFundamentalHz (dtc alg)"
  let ?g = "glideCoeff (dtc ?a)"
  have c: "coeffFromMs ms sr = (if ms \<le> 0 \<or> ms * sr / 1000 < 1 then 0 else exp (- 1 / (ms * sr / 1000)))"
    by (simp add: coeffFromMs_def Let_def)
  have p: "glideCoeff (dtc (fst (run sr [ParameterChanged kParamGlide x nf ok] alg)))
            = coeffFromMs (of_int x / 10) sr"
    by (simp add: parameterChanged_def Let_def)
  have closed: "fundamentalHz (o_dtc (?obs ! i))
                  = ?t + ?g ^ (i + 1) * (fundamentalHz (dtc alg) - ?t)" if "i < n * 4" for i
    using that sample_loop_glide [of i "pitch_samples cv (n * 4)" ?a ?L "dtc ?a"]
    by (simp add: step_obs_pitch pitch_samples_length step_enter_glide(1,2))
  have one: "fundamentalHz (o_dtc (?obs ! i))
               = ?t + ?g * (fundamentalHz (state_before (dtc ?a) ?obs i) - ?t)" if "i < n * 4" for i
  proof -
    from that state_before_glide [of i "pitch_samples cv (n * 4)" "dtc ?a" ?a ?L]
    have sb: "targetFundamentalHz (state_before (dtc ?a) ?obs i) = ?t"
      "glideCoeff (state_before (dtc ?a) ?obs i) = ?g"
      by (simp_all add: step_obs_pitch pitch_samples_length step_enter_glide(2))
    show ?thesis
      unfolding step_nth [OF that] by (simp add: tick_glide sb)
  qed
  from assms have i: "n * 4 - 1 < n * 4" by simp
  have fin: "fundamentalHz (dtc (fst (step sr cv n alg)))
            = ?t + ?g ^ (n * 4) * (fundamentalHz (dtc alg) - ?t)"
    unfolding step_last [OF assms] closed [OF i] using assms by simp
  from c p step_enter_glide(3) [of sr cv "n * 4" alg] step_length [of sr cv n alg] one closed fin
  show ?thesis by blast
qed

theorem C8_glide_coefficient_and_recursion_witness:
  "(0::nat) < 16 \<and> (5::nat) < 16 * 4
   \<and> length (snd (step 48000 no_cv 16
         (fst (run 48000 [ParameterChanged kParamGlide 1000 0 False, MidiMessage 0x90 69 100,
                          MidiMessage 0x90 81 100] (construct 48000 host_defaults))))) = 16 * 4
   \<and> fundamentalHz (o_dtc (snd (step 48000 no_cv 16
         (fst (run 48000 [ParameterChanged kParamGlide 1000 0 False, MidiMessage 0x90 69 100,
                          MidiMessage 0x90 81 100] (construct 48000 host_defaults)))) ! 5))
       = targetFundamentalHz (dtc
           (fst (run 48000 [ParameterChanged kParamGlide 1000 0 False, MidiMessage 0x90 69 100,
                            MidiMessage 0x90 81 100] (construct 48000 host_defaults))))
         + glideCoeff (dtc (step_enter 48000 no_cv (16 * 4)
             (fst (run 48000 [ParameterChanged kParamGlide 1000 0 False, MidiMessage 0x90 69 100,
                              MidiMessage 0x90 81 100] (construct 48000 host_defaults))))) ^ (5 + 1)
           * (fundamentalHz (dtc
                (fst (run 48000 [ParameterChanged kParamGlide 1000 0 False, MidiMessage 0x90 69 100,
                                 MidiMessage 0x90 81 100] (construct 48000 host_defaults))))
              - targetFundamentalHz (dtc
                  (fst (run 48000 [ParameterChanged kParamGlide 1000 0 False, MidiMessage 0x90 69 100,
                                   MidiMessage 0x90 81 100] (construct 48000 host_defaults)))))"
proof -
  have h: "(0::nat) < 16" by simp
  have i: "(5::nat) < 16 * 4" by simp
  from C8_glide_coefficient_and_recursion
         [OF h, where sr = 48000 and cv = no_cv
            and alg = "fst (run 48000 [ParameterChanged kParamGlide 1000 0 False,
                         MidiMessage 0x90 69 100, MidiMessage 0x90 81 100]
                         (construct 48000 host_defaults))"] h i
  show ?thesis by blast
qed

section \<open>Envelope\<close>

text \<open>
  C6: with attack and release coefficients strictly between 0 and 1, an envelope target
  of 0 or 1 and a level in \<open>[0, 1]\<close>, the level is in \<open>[0, 1]\<close> after every sample of
  every block, for any sequence of host events (note on, note off, gate mode, parameter
  changes, blocks).
\<close>

theorem C6_envelope_stays_in_unit_interval:
  assumes "0 < attackCoeff (dtc alg)" and "attackCoeff (dtc alg) < 1"
    and "0 < releaseCoeff (dtc alg)" and "releaseCoeff (dtc alg) < 1"
    and "envTarget (dtc alg) = 0 \<or> envTarget (dtc alg) = 1"
    and "0 \<le> envValue (dtc alg)" and "envValue (dtc alg) \<le> 1"
  shows "(\<forall>ob \<in> set (snd (run sr es alg)). 0 \<le> envValue (o_dtc ob) \<and> envValue (o_dtc ob) \<le> 1)
       \<and> 0 \<le> envValue (dtc (fst (run sr es alg))) \<and> envValue (dtc (fst (run sr es alg))) \<le> 1"
proof -
  have ok: "env_ok (dtc alg)" using assms by (simp add: env_ok_def)
  have "env_ok (dtc (fst (run sr es alg))) \<and> (\<forall>ob \<in> set (snd (run sr es alg)). env_ok (o_dtc ob))"
    using host_step_env_ok ok
    by (rule run_invariant [where I = "\<lambda>a. env_ok (dtc a)" and P = "\<lambda>ob. env_ok (o_dtc ob)"])
  then show ?thesis by (simp add: env_ok_def)
qed

theorem C6_envelope_stays_in_unit_interval_witness:
  "0 < attackCoeff (dtc (construct 48000 host_defaults))
   \<and> attackCoeff (dtc (construct 48000 host_defaults)) < 1
   \<and> 0 < releaseCoeff (dtc (construct 48000 host_defaults))
   \<and> releaseCoeff (dtc (construct 48000 host_defaults)) < 1
   \<and> envTarget (dtc (construct 48000 host_defaults)) = 0
   \<and> 0 \<le> envValue (dtc (construct 48000 host_defaults))
   \<and> envValue (dtc (construct 48000 host_defaults)) \<le> 1
   \<and> 0 \<le> envValue (dtc (fst (run 48000
              [MidiMessage 0x90 69 100, Step no_cv 16, MidiMessage 0x80 69 0, Step no_cv 16]
              (construct 48000 host_defaults))))
   \<and> envValue (dtc (fst (run 48000
              [MidiMessage 0x90 69 100, Step no_cv 16, MidiMessage 0x80 69 0, Step no_cv 16]
              (construct 48000 host_defaults)))) \<le> 1"
proof -
  have h: "0 < attackCoeff (dtc (construct 48000 host_defaults))"
    "attackCoeff (dtc (construct 48000 host_defaults)) < 1"
    "0 < releaseCoeff (dtc (construct 48000 host_defaults))"
    "releaseCoeff (dtc (construct 48000 host_defaults)) < 1"
    "envTarget (dtc (construct 48000 host_defaults)) = 0"
    "0 \<le> envValue (dtc (construct 48000 host_defaults))"
    "envValue (dtc (construct 48000 host_defaults)) \<le> 1"
    by (simp_all add: construct_def)
  have t: "envTarget (dtc (construct 48000 host_defaults)) = 0
           \<or> envTarget (dtc (construct 48000 host_defaults)) = 1"
    using h(5) by simp
  from C6_envelope_stays_in_unit_interval [OF h(1-4) t h(6,7)] h show ?thesis by blast
qed

section \<open>Panning\<close>

lemma step_prepare_pan:
  assumes "f < nat (formantCount alg)"
  shows "l_panL (step_prepare sr cv n alg) ! f = fst (pan_gains (pan alg ! f))"
    and "l_panR (step_prepare sr cv n alg) ! f = snd (pan_gains (pan alg ! f))"
  using assms by (simp_all add: step_prepare_def Let_def)

text \<open>
  C4: the gains of a formant are \<open>cos angle\<close> and \<open>sin angle\<close> with
  \<open>angle = (pan + 1) * pi / 4\<close>; pan \<open>-1\<close> gives \<open>(1, 0)\<close>, pan \<open>0\<close> gives twice
  \<open>sqrt 2 / 2\<close> (0.7071 to four places), pan \<open>1\<close> gives \<open>(0, 1)\<close>; for a pan in
  \<open>[-1, 1]\<close> the angle is in \<open>[0, pi / 2]\<close>; and these are the gains that the block
  precomputes for every active formant.
\<close>

theorem C4_constant_power_pan_law:
  "pan_gains p = (cos ((p + 1) * pi / 4), sin ((p + 1) * pi / 4))
   \<and> pan_gains (- 1) = (1, 0)
   \<and> pan_gains 0 = (sqrt 2 / 2, sqrt 2 / 2)
   \<and> \<bar>sqrt 2 / 2 - 0.7071\<bar> < 0.0001
   \<and> pan_gains 1 = (0, 1)
   \<and> (fst (pan_gains p))\<^sup>2 + (snd (pan_gains p))\<^sup>2 = 1
   \<and> (- 1 \<le> p \<and> p \<le> 1 \<longrightarrow> 0 \<le> (p + 1) * pi / 4 \<and> (p + 1) * pi / 4 \<le> pi / 2)
   \<and> (f < nat (formantCount alg) \<longrightarrow>
         l_panL (step_prepare sr cv n alg) ! f = cos ((pan alg ! f + 1) * pi / 4)
       \<and> l_panR (step_prepare sr cv n alg) ! f = sin ((pan alg ! f + 1) * pi / 4))"
proof -
  have law: "pan_gains q = (cos ((q + 1) * pi / 4), sin ((q + 1) * pi / 4))" for q
    by (simp add: pan_gains_def Let_def)
  have left: "pan_gains (- 1) = (1, 0)" by (simp add: pan_gains_def)
  have mid: "pan_gains 0 = (sqrt 2 / 2, sqrt 2 / 2)"
    by (simp add: pan_gains_def cos_45 sin_45)
  have right: "pan_gains 1 = (0, 1)" by (simp add: pan_gains_def)
  have lo: "(0.7070 * 2)\<^sup>2 < (2::real)" and hi: "(2::real) < (0.7072 * 2)\<^sup>2"
    by (simp_all add: power2_eq_square)
  have below: "0.7070 * 2 < sqrt 2"
    using lo by (intro real_less_rsqrt) simp
  have above: "sqrt 2 < 0.7072 * 2"
    using hi by (intro real_less_lsqrt) simp_all
  have "sqrt 2 / 2 - 0.7071 < 0.0001" and "- 0.0001 < sqrt 2 / 2 - 0.7071"
    using below above by linarith+
  then have approx: "\<bar>sqrt 2 / 2 - 0.7071\<bar> < 0.0001"
    by (simp only: abs_less_iff) simp
  have power: "(fst (pan_gains p))\<^sup>2 + (snd (pan_gains p))\<^sup>2 = 1"
    by (simp add: law)
  have range: "- 1 \<le> p \<and> p \<le> 1 \<longrightarrow> 0 \<le> (p + 1) * pi / 4 \<and> (p + 1) * pi / 4 \<le> pi / 2"
  proof
    assume b: "- 1 \<le> p \<and> p \<le> 1"
    have "(p + 1) * pi \<le> 2 * pi" using b by (intro mult_right_mono) simp_all
    moreover have "0 \<le> (p + 1) * pi" using b by simp
    ultimately show "0 \<le> (p + 1) * pi / 4 \<and> (p + 1) * pi / 4 \<le> pi / 2" by simp
  qed
  have blk: "f < nat (formantCount alg) \<longrightarrow>
         l_panL (step_prepare sr cv n alg) ! f = cos ((pan alg ! f + 1) * pi / 4)
       \<and> l_panR (step_prepare sr cv n alg) ! f = sin ((pan alg ! f + 1) * pi / 4)"
    by (simp add: step_prepare_pan law)
  from law [of p] left mid right approx power range blk show ?thesis by blast
qed

theorem C4_constant_power_pan_law_witness:
  "(0::nat) < nat (formantCount (construct 48000 host_defaults))
   \<and> - 1 \<le> (1 / 2 :: real) \<and> (1 / 2 :: real) \<le> 1
   \<and> l_panL (step_prepare 48000 no_cv 64 (construct 48000 host_defaults)) ! 0
        = cos ((pan (construct 48000 host_defaults) ! 0 + 1) * pi / 4)
   \<and> (1 / 2 + 1) * pi / 4 \<le> pi / 2"
proof -
  have h: "(0::nat) < nat (formantCount (construct 48000 host_defaults))"
    by (simp add: construct_def)
  have b: "- 1 \<le> (1 / 2 :: real) \<and> (1 / 2 :: real) \<le> 1" by simp
  from C4_constant_power_pan_law [of "1 / 2" 0 "construct 48000 host_defaults" 48000 no_cv 64] h b
  show ?thesis by blast
qed


section \<open>Table lookup\<close>

lemma int_of_float_of_int:
  "- 2147483648 \<le> k \<Longrightarrow> k \<le> 2147483647 \<Longrightarrow> int_of_float (of_int k) = k"
  by (simp add: int_of_float_def fits_int_def)

lemma int_of_float_le: "fits_int x \<Longrightarrow> x \<le> - 1 \<Longrightarrow> int_of_float x < 0"
  by (simp add: int_of_float_def ceiling_less_iff)

lemma int_of_float_ge: "fits_int x \<Longrightarrow> of_int m \<le> x \<Longrightarrow> 0 \<le> m \<Longrightarrow> m \<le> int_of_float x"
  by (simp add: int_of_float_def le_floor_iff)

lemma readTableMorph_integer:
  assumes "0 \<le> k" "k \<le> 9"
  shows "readTableMorph tables (of_int k) phase = readTableLerp (tables ! nat k) kTableSize phase"
proof -
  from assms have c: "int_of_float (of_int k) = k" by (intro int_of_float_of_int) simp_all
  show ?thesis
  proof (cases "9 \<le> k")
    case True
    with assms have nk: "nat k = 9" by simp
    from True assms(1) show ?thesis
      by (simp add: readTableMorph_def kNumPulsarets_def Let_def nk c)
  next
    case False
    with assms show ?thesis by (simp add: readTableMorph_def kNumPulsarets_def Let_def c)
  qed
qed

lemma readWindowMorph_integer:
  assumes "0 \<le> k" "k \<le> 4"
  shows "readWindowMorph tables (of_int k) phase = readTableLerp (tables ! nat k) kTableSize phase"
proof -
  from assms have c: "int_of_float (of_int k) = k" by (intro int_of_float_of_int) simp_all
  show ?thesis
  proof (cases "4 \<le> k")
    case True
    with assms have nk: "nat k = 4" by simp
    from True assms(1) show ?thesis
      by (simp add: readWindowMorph_def kNumWindows_def Let_def nk c)
  next
    case False
    with assms show ?thesis by (simp add: readWindowMorph_def kNumWindows_def Let_def c)
  qed
qed

lemma morph_low:
  assumes "fits_int index" "index \<le> - 1"
  shows "readTableMorph tables index phase = readTableLerp (tables ! 0) kTableSize phase"
    and "readWindowMorph tables index phase = readTableLerp (tables ! 0) kTableSize phase"
  using int_of_float_le [OF assms]
  by (simp_all add: readTableMorph_def readWindowMorph_def kNumPulsarets_def kNumWindows_def Let_def)

lemma morph_high:
  assumes "fits_int index"
  shows "9 \<le> index \<Longrightarrow> readTableMorph tables index phase = readTableLerp (tables ! 9) kTableSize phase"
    and "4 \<le> index \<Longrightarrow> readWindowMorph tables index phase = readTableLerp (tables ! 4) kTableSize phase"
  using int_of_float_ge [OF assms, of 9] int_of_float_ge [OF assms, of 4]
  by (simp_all add: readTableMorph_def readWindowMorph_def kNumPulsarets_def kNumWindows_def Let_def)

lemma step_prepare_morph:
  "l_pulsaretIdx (step_prepare sr cv n alg)
     = min 9 (max 0 (pulsaretIndex alg + cv_avg (cvPulsaret cv) n * 0.9))"
  "l_windowIdx (step_prepare sr cv n alg)
     = min 4 (max 0 (windowIndex alg + cv_avg (cvWindow cv) n * 0.4))"
  by (simp_all add: step_prepare_def Let_def min_def max_def)

lemma table_phase_range: "0 \<le> table_phase alg L d f pp \<and> table_phase alg L d f pp < 1"
  by (simp add: table_phase_def Let_def) linarith

lemma lerp_cast_fits: "0 \<le> phase \<Longrightarrow> phase < 1 \<Longrightarrow> fits_int (phase * of_int kTableSize)"
  by (simp add: fits_int_def kTableSize_def)

lemma formant_duty_range:
  "1 / 100 \<le> formant_duty alg m o' f \<and> formant_duty alg m o' f \<le> 1"
  by (simp add: formant_duty_def Let_def)

lemma step_prepare_duty:
  assumes "f < nat (formantCount alg)"
  shows "1 / 100 \<le> l_formantDuty (step_prepare sr cv n alg) ! f"
    and "l_formantDuty (step_prepare sr cv n alg) ! f \<le> 1"
    and "l_invDuty (step_prepare sr cv n alg) ! f = 1 / (l_formantDuty (step_prepare sr cv n alg) ! f)"
  using assms formant_duty_range
  by (simp_all add: step_prepare_def Let_def)

lemma pulsaret_phase_range:
  assumes f: "f < nat (formantCount alg)" and p: "0 \<le> ph" "ph < l_formantDuty (step_prepare sr cv n alg) ! f"
  shows "0 \<le> ph * (l_invDuty (step_prepare sr cv n alg) ! f)"
    and "ph * (l_invDuty (step_prepare sr cv n alg) ! f) < 1"
proof -
  let ?d = "l_formantDuty (step_prepare sr cv n alg) ! f"
  have d: "0 < ?d" using step_prepare_duty(1) [OF f, of sr cv n] by linarith
  show "0 \<le> ph * (l_invDuty (step_prepare sr cv n alg) ! f)"
    using p(1) d by (simp add: step_prepare_duty(3) [OF f])
  show "ph * (l_invDuty (step_prepare sr cv n alg) ! f) < 1"
    using p(2) d by (simp add: step_prepare_duty(3) [OF f])
qed

lemma formant_voice_lookups:
  assumes "masterPhase d = Some ph" and "ph < l_formantDuty L ! f"
    and "\<not> (useSample a \<noteq> 0 \<and> 2 \<le> sampleLoadedFrames a)"
  shows "formant_voice a L d f acc =
           (fst acc
              + readTableMorph (pulsaretTables (dram a)) (l_pulsaretIdx L)
                  (table_phase a L d f (ph * (l_invDuty L ! f)))
                * readWindowMorph (windowTables (dram a)) (l_windowIdx L) (ph * (l_invDuty L ! f))
                * (maskSmooth d ! f) * (l_panL L ! f),
            snd acc
              + readTableMorph (pulsaretTables (dram a)) (l_pulsaretIdx L)
                  (table_phase a L d f (ph * (l_invDuty L ! f)))
                * readWindowMorph (windowTables (dram a)) (l_windowIdx L) (ph * (l_invDuty L ! f))
                * (maskSmooth d ! f) * (l_panR L ! f))"
proof -
  from assms(3) have c: "(useSample a \<noteq> 0 \<and> 2 \<le> sampleLoadedFrames a) = False" by simp
  show ?thesis
    unfolding formant_voice_def Let_def
    by (simp add: c assms(1,2) table_pulsaret_def)
qed

text \<open>
  C3: at every integer index \<open>k\<close> of the bank (0 to 9 for pulsarets, 0 to 4 for windows)
  and every phase in \<open>[0, 1)\<close>, the morphed lookup is the single-table lookup of table
  \<open>k\<close>. The morph index of a block is the parameter plus the CV offset, and \<open>step\<close>
  clamps it into the bank before any lookup: with an index of 0 or less the lookups of the
  block read table 0 alone, with an index of \<open>N - 1\<close> or more they read table \<open>N - 1\<close>
  alone, and with an integer index \<open>k\<close> between them table \<open>k\<close> alone. A formant that
  sounds in a pass (outside sample mode) is the product of the pulsaret lookup and the window
  lookup, both at the clamped indices of the block, the first at a table phase in \<open>[0, 1)\<close>
  and the second at a pulsaret phase in \<open>[0, 1)\<close>; the casts of these lookups fit an
  \<open>int\<close>. The lookup functions themselves clamp every index of at most \<open>-1\<close> or at least
  \<open>N - 1\<close> that fits an \<open>int\<close>.
\<close>

theorem C3_morph_lookup_at_integer_index:
  assumes "0 \<le> phase" and "phase < 1" and "0 < n"
  shows "(0 \<le> k \<and> k \<le> 9 \<longrightarrow>
            readTableMorph tables (of_int k) phase = readTableLerp (tables ! nat k) kTableSize phase)
       \<and> (0 \<le> k \<and> k \<le> 4 \<longrightarrow>
            readWindowMorph tables (of_int k) phase = readTableLerp (tables ! nat k) kTableSize phase)
       \<and> l_pulsaretIdx (step_prepare sr cv n alg)
            = min 9 (max 0 (pulsaretIndex alg + cv_avg (cvPulsaret cv) n * 0.9))
       \<and> l_windowIdx (step_prepare sr cv n alg)
            = min 4 (max 0 (windowIndex alg + cv_avg (cvWindow cv) n * 0.4))
       \<and> (pulsaretIndex alg + cv_avg (cvPulsaret cv) n * 0.9 \<le> 0 \<longrightarrow>
            readTableMorph tables (l_pulsaretIdx (step_prepare sr cv n alg)) phase
              = readTableLerp (tables ! 0) kTableSize phase)
       \<and> (9 \<le> pulsaretIndex alg + cv_avg (cvPulsaret cv) n * 0.9 \<longrightarrow>
            readTableMorph tables (l_pulsaretIdx (step_prepare sr cv n alg)) phase
              = readTableLerp (tables ! 9) kTableSize phase)
       \<and> (pulsaretIndex alg + cv_avg (cvPulsaret cv) n * 0.9 = of_int k \<and> 0 \<le> k \<and> k \<le> 9 \<longrightarrow>
            readTableMorph tables (l_pulsaretIdx (step_prepare sr cv n alg)) phase
              = readTableLerp (tables ! nat k) kTableSize phase)
       \<and> (windowIndex alg + cv_avg (cvWindow cv) n * 0.4 \<le> 0 \<longrightarrow>
            readWindowMorph tables (l_windowIdx (step_prepare sr cv n alg)) phase
              = readTableLerp (tables ! 0) kTableSize phase)
       \<and> (4 \<le> windowIndex alg + cv_avg (cvWindow cv) n * 0.4 \<longrightarrow>
            readWindowMorph tables (l_windowIdx (step_prepare sr cv n alg)) phase
              = readTableLerp (tables ! 4) kTableSize phase)
       \<and> (windowIndex alg + cv_avg (cvWindow cv) n * 0.4 = of_int k \<and> 0 \<le> k \<and> k \<le> 4 \<longrightarrow>
            readWindowMorph tables (l_windowIdx (step_prepare sr cv n alg)) phase
              = readTableLerp (tables ! nat k) kTableSize phase)
       \<and> (masterPhase d = Some ph \<and> ph < l_formantDuty (step_prepare sr cv n alg) ! f
            \<and> \<not> (useSample a \<noteq> 0 \<and> 2 \<le> sampleLoadedFrames a) \<longrightarrow>
            formant_voice a (step_prepare sr cv n alg) d f acc =
              (fst acc
                 + readTableMorph (pulsaretTables (dram a)) (l_pulsaretIdx (step_prepare sr cv n alg))
                     (table_phase a (step_prepare sr cv n alg) d f
                        (ph * (l_invDuty (step_prepare sr cv n alg) ! f)))
                   * readWindowMorph (windowTables (dram a)) (l_windowIdx (step_prepare sr cv n alg))
                       (ph * (l_invDuty (step_prepare sr cv n alg) ! f))
                   * (maskSmooth d ! f) * (l_panL (step_prepare sr cv n alg) ! f),
               snd acc
                 + readTableMorph (pulsaretTables (dram a)) (l_pulsaretIdx (step_prepare sr cv n alg))
                     (table_phase a (step_prepare sr cv n alg) d f
                        (ph * (l_invDuty (step_prepare sr cv n alg) ! f)))
                   * readWindowMorph (windowTables (dram a)) (l_windowIdx (step_prepare sr cv n alg))
                       (ph * (l_invDuty (step_prepare sr cv n alg) ! f))
                   * (maskSmooth d ! f) * (l_panR (step_prepare sr cv n alg) ! f)))
       \<and> (f < nat (formantCount alg) \<and> 0 \<le> ph
            \<and> ph < l_formantDuty (step_prepare sr cv n alg) ! f \<longrightarrow>
            0 \<le> ph * (l_invDuty (step_prepare sr cv n alg) ! f)
          \<and> ph * (l_invDuty (step_prepare sr cv n alg) ! f) < 1)
       \<and> 0 \<le> table_phase a (step_prepare sr cv n alg) d f pp
       \<and> table_phase a (step_prepare sr cv n alg) d f pp < 1
       \<and> fits_int (phase * of_int kTableSize)
       \<and> fits_int (l_pulsaretIdx (step_prepare sr cv n alg))
       \<and> fits_int (l_windowIdx (step_prepare sr cv n alg))
       \<and> (fits_int index \<and> index \<le> - 1 \<longrightarrow>
            readTableMorph tables index phase = readTableLerp (tables ! 0) kTableSize phase
          \<and> readWindowMorph tables index phase = readTableLerp (tables ! 0) kTableSize phase)
       \<and> (fits_int index \<and> 9 \<le> index \<longrightarrow>
            readTableMorph tables index phase = readTableLerp (tables ! 9) kTableSize phase)
       \<and> (fits_int index \<and> 4 \<le> index \<longrightarrow>
            readWindowMorph tables index phase = readTableLerp (tables ! 4) kTableSize phase)"
proof -
  let ?L = "step_prepare sr cv n alg"
  let ?rp = "pulsaretIndex alg + cv_avg (cvPulsaret cv) n * 0.9"
  let ?rw = "windowIndex alg + cv_avg (cvWindow cv) n * 0.4"
  have pk: "readTableMorph tables (l_pulsaretIdx ?L) phase
              = readTableLerp (tables ! nat j) kTableSize phase"
    if "l_pulsaretIdx ?L = of_int j" "0 \<le> j" "j \<le> 9" for j
    using that readTableMorph_integer [of j tables phase] by simp
  have wk: "readWindowMorph tables (l_windowIdx ?L) phase
              = readTableLerp (tables ! nat j) kTableSize phase"
    if "l_windowIdx ?L = of_int j" "0 \<le> j" "j \<le> 4" for j
    using that readWindowMorph_integer [of j tables phase] by simp
  have p0: "?rp \<le> 0 \<longrightarrow> readTableMorph tables (l_pulsaretIdx ?L) phase
              = readTableLerp (tables ! 0) kTableSize phase"
  proof
    assume "?rp \<le> 0"
    then have "l_pulsaretIdx ?L = of_int 0" by (simp add: step_prepare_morph min_def max_def)
    from pk [OF this] show "readTableMorph tables (l_pulsaretIdx ?L) phase
              = readTableLerp (tables ! 0) kTableSize phase" by simp
  qed
  have p9: "9 \<le> ?rp \<longrightarrow> readTableMorph tables (l_pulsaretIdx ?L) phase
              = readTableLerp (tables ! 9) kTableSize phase"
  proof
    assume "9 \<le> ?rp"
    then have "l_pulsaretIdx ?L = of_int 9" by (simp add: step_prepare_morph min_def max_def)
    from pk [OF this] show "readTableMorph tables (l_pulsaretIdx ?L) phase
              = readTableLerp (tables ! 9) kTableSize phase" by simp
  qed
  have pi: "?rp = of_int k \<and> 0 \<le> k \<and> k \<le> 9 \<longrightarrow>
              readTableMorph tables (l_pulsaretIdx ?L) phase
                = readTableLerp (tables ! nat k) kTableSize phase"
  proof
    assume h: "?rp = of_int k \<and> 0 \<le> k \<and> k \<le> 9"
    then have "l_pulsaretIdx ?L = of_int k"
      unfolding step_prepare_morph by (simp add: min_def max_def)
    from pk [OF this] h show "readTableMorph tables (l_pulsaretIdx ?L) phase
                = readTableLerp (tables ! nat k) kTableSize phase" by simp
  qed
  have w0: "?rw \<le> 0 \<longrightarrow> readWindowMorph tables (l_windowIdx ?L) phase
              = readTableLerp (tables ! 0) kTableSize phase"
  proof
    assume "?rw \<le> 0"
    then have "l_windowIdx ?L = of_int 0" by (simp add: step_prepare_morph min_def max_def)
    from wk [OF this] show "readWindowMorph tables (l_windowIdx ?L) phase
              = readTableLerp (tables ! 0) kTableSize phase" by simp
  qed
  have w4: "4 \<le> ?rw \<longrightarrow> readWindowMorph tables (l_windowIdx ?L) phase
              = readTableLerp (tables ! 4) kTableSize phase"
  proof
    assume "4 \<le> ?rw"
    then have "l_windowIdx ?L = of_int 4" by (simp add: step_prepare_morph min_def max_def)
    from wk [OF this] show "readWindowMorph tables (l_windowIdx ?L) phase
              = readTableLerp (tables ! 4) kTableSize phase" by simp
  qed
  have wi: "?rw = of_int k \<and> 0 \<le> k \<and> k \<le> 4 \<longrightarrow>
              readWindowMorph tables (l_windowIdx ?L) phase
                = readTableLerp (tables ! nat k) kTableSize phase"
  proof
    assume h: "?rw = of_int k \<and> 0 \<le> k \<and> k \<le> 4"
    then have "l_windowIdx ?L = of_int k"
      unfolding step_prepare_morph by (simp add: min_def max_def)
    from wk [OF this] h show "readWindowMorph tables (l_windowIdx ?L) phase
                = readTableLerp (tables ! nat k) kTableSize phase" by simp
  qed
  have fv: "masterPhase d = Some ph \<and> ph < l_formantDuty ?L ! f
            \<and> \<not> (useSample a \<noteq> 0 \<and> 2 \<le> sampleLoadedFrames a) \<longrightarrow>
            formant_voice a ?L d f acc =
              (fst acc
                 + readTableMorph (pulsaretTables (dram a)) (l_pulsaretIdx ?L)
                     (table_phase a ?L d f (ph * (l_invDuty ?L ! f)))
                   * readWindowMorph (windowTables (dram a)) (l_windowIdx ?L) (ph * (l_invDuty ?L ! f))
                   * (maskSmooth d ! f) * (l_panL ?L ! f),
               snd acc
                 + readTableMorph (pulsaretTables (dram a)) (l_pulsaretIdx ?L)
                     (table_phase a ?L d f (ph * (l_invDuty ?L ! f)))
                   * readWindowMorph (windowTables (dram a)) (l_windowIdx ?L) (ph * (l_invDuty ?L ! f))
                   * (maskSmooth d ! f) * (l_panR ?L ! f))"
    using formant_voice_lookups [of d ph ?L f a acc] by blast
  have pr: "f < nat (formantCount alg) \<and> 0 \<le> ph \<and> ph < l_formantDuty ?L ! f \<longrightarrow>
            0 \<le> ph * (l_invDuty ?L ! f) \<and> ph * (l_invDuty ?L ! f) < 1"
    using pulsaret_phase_range [of f alg ph sr cv n] by blast
  have ft: "fits_int (phase * of_int kTableSize)"
    using assms(1,2) by (rule lerp_cast_fits)
  have fi: "fits_int (l_pulsaretIdx ?L)" "fits_int (l_windowIdx ?L)"
    by (simp_all add: step_prepare_morph fits_int_def min_def max_def)
  have ik: "0 \<le> k \<and> k \<le> 9 \<longrightarrow>
            readTableMorph tables (of_int k) phase = readTableLerp (tables ! nat k) kTableSize phase"
    "0 \<le> k \<and> k \<le> 4 \<longrightarrow>
            readWindowMorph tables (of_int k) phase = readTableLerp (tables ! nat k) kTableSize phase"
    using readTableMorph_integer [of k tables phase] readWindowMorph_integer [of k tables phase]
    by blast+
  have lo: "fits_int index \<and> index \<le> - 1 \<longrightarrow>
            readTableMorph tables index phase = readTableLerp (tables ! 0) kTableSize phase
          \<and> readWindowMorph tables index phase = readTableLerp (tables ! 0) kTableSize phase"
    using morph_low [of index tables phase] by blast
  have hi: "fits_int index \<and> 9 \<le> index \<longrightarrow>
            readTableMorph tables index phase = readTableLerp (tables ! 9) kTableSize phase"
    "fits_int index \<and> 4 \<le> index \<longrightarrow>
            readWindowMorph tables index phase = readTableLerp (tables ! 4) kTableSize phase"
    using morph_high [of index tables phase] by blast+
  note tr = table_phase_range [of a ?L d f pp]
  show ?thesis
    by (intro conjI) (fact ik step_prepare_morph p0 p9 pi w0 w4 wi fv pr ft fi lo hi
        conjunct1 [OF tr] conjunct2 [OF tr])+
qed

theorem C3_morph_lookup_at_integer_index_witness:
  "(0::real) \<le> 1 / 4 \<and> (1 / 4 :: real) < 1 \<and> (0::nat) < 4
   \<and> (0::int) \<le> 3 \<and> (3::int) \<le> 9 \<and> (3::int) \<le> 4
   \<and> 9 \<le> pulsaretIndex (construct 48000 host_defaults)
            + cv_avg (cvPulsaret (no_cv\<lparr>cvPulsaret := Some [20, 20, 20, 20],
                                        cvWindow := Some [- 20, - 20, - 20, - 20]\<rparr>)) 4 * 0.9
   \<and> windowIndex (construct 48000 host_defaults)
            + cv_avg (cvWindow (no_cv\<lparr>cvPulsaret := Some [20, 20, 20, 20],
                                       cvWindow := Some [- 20, - 20, - 20, - 20]\<rparr>)) 4 * 0.4 \<le> 0
   \<and> pulsaretIndex (construct 48000 host_defaults)
            + cv_avg (cvPulsaret (no_cv\<lparr>cvPulsaret := Some [- 20, - 20, - 20, - 20],
                                        cvWindow := Some [20, 20, 20, 20]\<rparr>)) 4 * 0.9 \<le> 0
   \<and> 4 \<le> windowIndex (construct 48000 host_defaults)
            + cv_avg (cvWindow (no_cv\<lparr>cvPulsaret := Some [- 20, - 20, - 20, - 20],
                                       cvWindow := Some [20, 20, 20, 20]\<rparr>)) 4 * 0.4
   \<and> fits_int (- 2) \<and> (- 2 :: real) \<le> - 1 \<and> fits_int 12 \<and> (9 :: real) \<le> 12
   \<and> readTableMorph generatePulsaretTables (of_int 3) (1 / 4)
        = readTableLerp (generatePulsaretTables ! nat 3) kTableSize (1 / 4)
   \<and> readWindowMorph generateWindowTables (of_int 3) (1 / 4)
        = readTableLerp (generateWindowTables ! nat 3) kTableSize (1 / 4)
   \<and> readTableMorph generatePulsaretTables
        (l_pulsaretIdx (step_prepare 48000
           (no_cv\<lparr>cvPulsaret := Some [20, 20, 20, 20], cvWindow := Some [- 20, - 20, - 20, - 20]\<rparr>)
           4 (construct 48000 host_defaults))) (1 / 4)
        = readTableLerp (generatePulsaretTables ! 9) kTableSize (1 / 4)
   \<and> readWindowMorph generateWindowTables
        (l_windowIdx (step_prepare 48000
           (no_cv\<lparr>cvPulsaret := Some [20, 20, 20, 20], cvWindow := Some [- 20, - 20, - 20, - 20]\<rparr>)
           4 (construct 48000 host_defaults))) (1 / 4)
        = readTableLerp (generateWindowTables ! 0) kTableSize (1 / 4)
   \<and> readTableMorph generatePulsaretTables
        (l_pulsaretIdx (step_prepare 48000
           (no_cv\<lparr>cvPulsaret := Some [- 20, - 20, - 20, - 20], cvWindow := Some [20, 20, 20, 20]\<rparr>)
           4 (construct 48000 host_defaults))) (1 / 4)
        = readTableLerp (generatePulsaretTables ! 0) kTableSize (1 / 4)
   \<and> readWindowMorph generateWindowTables
        (l_windowIdx (step_prepare 48000
           (no_cv\<lparr>cvPulsaret := Some [- 20, - 20, - 20, - 20], cvWindow := Some [20, 20, 20, 20]\<rparr>)
           4 (construct 48000 host_defaults))) (1 / 4)
        = readTableLerp (generateWindowTables ! 4) kTableSize (1 / 4)
   \<and> readTableMorph generatePulsaretTables (- 2) (1 / 4)
        = readTableLerp (generatePulsaretTables ! 0) kTableSize (1 / 4)
   \<and> readTableMorph generatePulsaretTables 12 (1 / 4)
        = readTableLerp (generatePulsaretTables ! 9) kTableSize (1 / 4)"
proof -
  let ?up = "no_cv\<lparr>cvPulsaret := Some [20, 20, 20, 20], cvWindow := Some [- 20, - 20, - 20, - 20]\<rparr>"
  let ?dn = "no_cv\<lparr>cvPulsaret := Some [- 20, - 20, - 20, - 20], cvWindow := Some [20, 20, 20, 20]\<rparr>"
  have h: "(0::real) \<le> 1 / 4" "(1 / 4 :: real) < 1" "(0::nat) < 4" by simp_all
  have k: "(0::int) \<le> 3 \<and> (3::int) \<le> 9" "(0::int) \<le> 3 \<and> (3::int) \<le> 4" by simp_all
  have r: "9 \<le> pulsaretIndex (construct 48000 host_defaults) + cv_avg (cvPulsaret ?up) 4 * 0.9"
    "windowIndex (construct 48000 host_defaults) + cv_avg (cvWindow ?up) 4 * 0.4 \<le> 0"
    "pulsaretIndex (construct 48000 host_defaults) + cv_avg (cvPulsaret ?dn) 4 * 0.9 \<le> 0"
    "4 \<le> windowIndex (construct 48000 host_defaults) + cv_avg (cvWindow ?dn) 4 * 0.4"
    by (simp_all add: construct_def cv_avg_def no_cv_def)
  have i: "fits_int (- 2) \<and> (- 2 :: real) \<le> - 1" "fits_int 12 \<and> (9 :: real) \<le> 12"
    by (simp_all add: fits_int_def)
  note A = C3_morph_lookup_at_integer_index
         [OF h, where k = 3 and tables = generatePulsaretTables and sr = 48000 and cv = ?up
            and alg = "construct 48000 host_defaults" and index = "- 2" and a = "construct 48000 host_defaults"
            and d = "dtc (construct 48000 host_defaults)" and f = 0 and ph = 0 and acc = "(0, 0)"
            and pp = 0]
  note B = C3_morph_lookup_at_integer_index
         [OF h, where k = 3 and tables = generateWindowTables and sr = 48000 and cv = ?up
            and alg = "construct 48000 host_defaults" and index = 0 and a = "construct 48000 host_defaults"
            and d = "dtc (construct 48000 host_defaults)" and f = 0 and ph = 0 and acc = "(0, 0)"
            and pp = 0]
  note C = C3_morph_lookup_at_integer_index
         [OF h, where k = 3 and tables = generatePulsaretTables and sr = 48000 and cv = ?dn
            and alg = "construct 48000 host_defaults" and index = 12 and a = "construct 48000 host_defaults"
            and d = "dtc (construct 48000 host_defaults)" and f = 0 and ph = 0 and acc = "(0, 0)"
            and pp = 0]
  note D = C3_morph_lookup_at_integer_index
         [OF h, where k = 3 and tables = generateWindowTables and sr = 48000 and cv = ?dn
            and alg = "construct 48000 host_defaults" and index = 0 and a = "construct 48000 host_defaults"
            and d = "dtc (construct 48000 host_defaults)" and f = 0 and ph = 0 and acc = "(0, 0)"
            and pp = 0]
  from A have "(0::int) \<le> 3 \<and> (3::int) \<le> 9 \<longrightarrow> readTableMorph generatePulsaretTables (of_int 3) (1 / 4)
        = readTableLerp (generatePulsaretTables ! nat 3) kTableSize (1 / 4)"
    by (elim conjE)
  with k(1) have a1: "readTableMorph generatePulsaretTables (of_int 3) (1 / 4)
        = readTableLerp (generatePulsaretTables ! nat 3) kTableSize (1 / 4)" by blast
  from B have "(0::int) \<le> 3 \<and> (3::int) \<le> 4 \<longrightarrow> readWindowMorph generateWindowTables (of_int 3) (1 / 4)
        = readTableLerp (generateWindowTables ! nat 3) kTableSize (1 / 4)"
    by (elim conjE)
  with k(2) have b1: "readWindowMorph generateWindowTables (of_int 3) (1 / 4)
        = readTableLerp (generateWindowTables ! nat 3) kTableSize (1 / 4)" by blast
  from A have "9 \<le> pulsaretIndex (construct 48000 host_defaults) + cv_avg (cvPulsaret ?up) 4 * 0.9
      \<longrightarrow> readTableMorph generatePulsaretTables
        (l_pulsaretIdx (step_prepare 48000 ?up 4 (construct 48000 host_defaults))) (1 / 4)
        = readTableLerp (generatePulsaretTables ! 9) kTableSize (1 / 4)"
    by (elim conjE)
  with r(1) have a2: "readTableMorph generatePulsaretTables
        (l_pulsaretIdx (step_prepare 48000 ?up 4 (construct 48000 host_defaults))) (1 / 4)
        = readTableLerp (generatePulsaretTables ! 9) kTableSize (1 / 4)" by blast
  from B have "windowIndex (construct 48000 host_defaults) + cv_avg (cvWindow ?up) 4 * 0.4 \<le> 0
      \<longrightarrow> readWindowMorph generateWindowTables
        (l_windowIdx (step_prepare 48000 ?up 4 (construct 48000 host_defaults))) (1 / 4)
        = readTableLerp (generateWindowTables ! 0) kTableSize (1 / 4)"
    by (elim conjE)
  with r(2) have b2: "readWindowMorph generateWindowTables
        (l_windowIdx (step_prepare 48000 ?up 4 (construct 48000 host_defaults))) (1 / 4)
        = readTableLerp (generateWindowTables ! 0) kTableSize (1 / 4)" by blast
  from C have "pulsaretIndex (construct 48000 host_defaults) + cv_avg (cvPulsaret ?dn) 4 * 0.9 \<le> 0
      \<longrightarrow> readTableMorph generatePulsaretTables
        (l_pulsaretIdx (step_prepare 48000 ?dn 4 (construct 48000 host_defaults))) (1 / 4)
        = readTableLerp (generatePulsaretTables ! 0) kTableSize (1 / 4)"
    by (elim conjE)
  with r(3) have c2: "readTableMorph generatePulsaretTables
        (l_pulsaretIdx (step_prepare 48000 ?dn 4 (construct 48000 host_defaults))) (1 / 4)
        = readTableLerp (generatePulsaretTables ! 0) kTableSize (1 / 4)" by blast
  from D have "4 \<le> windowIndex (construct 48000 host_defaults) + cv_avg (cvWindow ?dn) 4 * 0.4
      \<longrightarrow> readWindowMorph generateWindowTables
        (l_windowIdx (step_prepare 48000 ?dn 4 (construct 48000 host_defaults))) (1 / 4)
        = readTableLerp (generateWindowTables ! 4) kTableSize (1 / 4)"
    by (elim conjE)
  with r(4) have d2: "readWindowMorph generateWindowTables
        (l_windowIdx (step_prepare 48000 ?dn 4 (construct 48000 host_defaults))) (1 / 4)
        = readTableLerp (generateWindowTables ! 4) kTableSize (1 / 4)" by blast
  from A have "fits_int (- 2) \<and> (- 2 :: real) \<le> - 1 \<longrightarrow>
        readTableMorph generatePulsaretTables (- 2) (1 / 4)
          = readTableLerp (generatePulsaretTables ! 0) kTableSize (1 / 4)
        \<and> readWindowMorph generatePulsaretTables (- 2) (1 / 4)
          = readTableLerp (generatePulsaretTables ! 0) kTableSize (1 / 4)"
    by (elim conjE)
  with i(1) have a3: "readTableMorph generatePulsaretTables (- 2) (1 / 4)
        = readTableLerp (generatePulsaretTables ! 0) kTableSize (1 / 4)" by blast
  from C have "fits_int 12 \<and> (9 :: real) \<le> 12 \<longrightarrow> readTableMorph generatePulsaretTables 12 (1 / 4)
        = readTableLerp (generatePulsaretTables ! 9) kTableSize (1 / 4)"
    by (elim conjE)
  with i(2) have c3: "readTableMorph generatePulsaretTables 12 (1 / 4)
        = readTableLerp (generatePulsaretTables ! 9) kTableSize (1 / 4)" by blast
  show ?thesis
    by (intro conjI) (fact h conjunct1 [OF k(1)] conjunct2 [OF k(1)] conjunct2 [OF k(2)] r
        conjunct1 [OF i(1)] conjunct2 [OF i(1)] conjunct1 [OF i(2)] conjunct2 [OF i(2)]
        a1 b1 a2 b2 c2 d2 a3 c3)+
qed


section \<open>Sample playback\<close>

lemma sample_index_range:
  assumes "2 \<le> n"
  shows "0 \<le> sample_index n pos \<and> sample_index n pos + 1 \<le> n - 1"
  using assms by (simp add: sample_index_def Let_def)

lemma host_step_sample_ok:
  "sample_ok alg \<Longrightarrow>
     sample_ok (fst (host_step sr e alg)) \<and> (\<forall>ob \<in> set (snd (host_step sr e alg)). True)"
proof (cases e)
  case (ParameterChanged p x n ok)
  assume "sample_ok alg"
  then show ?thesis unfolding ParameterChanged
    by (cases p) (simp_all add: parameterChanged_def Let_def sample_ok_def)
next
  case (MidiMessage b0 b1 b2)
  assume "sample_ok alg"
  then show ?thesis unfolding MidiMessage
    by (simp add: midiMessage_def Let_def sample_ok_def)
next
  case (WavCallback frames)
  assume ok: "sample_ok alg"
  then have "nat (wavRequest_numFrames alg) \<le> nat kSampleBufferSize"
    by (simp add: sample_ok_def nat_mono)
  with ok show ?thesis unfolding WavCallback
    by (simp add: wavCallback_def loader_write_def Let_def sample_ok_def min_def)
next
  case (Step cv n)
  assume "sample_ok alg"
  then show ?thesis unfolding Step
    by (simp add: sample_ok_def step_def Let_def step_enter_def split: option.splits)
qed

lemma construct_sample_ok: "sample_ok (construct sr v0)"
  by (simp add: sample_ok_def construct_def kSampleBufferSize_def)


lemma take_eq_nth:
  assumes "take k b = take k c" and "i < k"
  shows "b ! i = c ! i"
  using assms by (metis nth_take)

lemma table_pulsaret_ignores_sample:
  "table_pulsaret (alg\<lparr>dram := (dram alg)\<lparr>sampleBuffer := b\<rparr>\<rparr>) L d f ph = table_pulsaret alg L d f ph"
  by (simp add: table_pulsaret_def table_phase_def)

lemma sample_pulsaret_reads_loaded_frames:
  assumes eq: "take (nat (sampleLoadedFrames alg)) b
                 = take (nat (sampleLoadedFrames alg)) (sampleBuffer (dram alg))"
    and two: "2 \<le> sampleLoadedFrames alg"
  shows "sample_pulsaret (alg\<lparr>dram := (dram alg)\<lparr>sampleBuffer := b\<rparr>\<rparr>) L ph = sample_pulsaret alg L ph"
proof -
  have rd: "b ! nat (sample_index (sampleLoadedFrames alg) pos)
              = sampleBuffer (dram alg) ! nat (sample_index (sampleLoadedFrames alg) pos)"
    "b ! nat (sample_index (sampleLoadedFrames alg) pos + 1)
              = sampleBuffer (dram alg) ! nat (sample_index (sampleLoadedFrames alg) pos + 1)" for pos
  proof -
    from two sample_index_range [of "sampleLoadedFrames alg" pos]
    have "nat (sample_index (sampleLoadedFrames alg) pos) < nat (sampleLoadedFrames alg)"
      and "nat (sample_index (sampleLoadedFrames alg) pos + 1) < nat (sampleLoadedFrames alg)"
      by linarith+
    with eq show "b ! nat (sample_index (sampleLoadedFrames alg) pos)
              = sampleBuffer (dram alg) ! nat (sample_index (sampleLoadedFrames alg) pos)"
      and "b ! nat (sample_index (sampleLoadedFrames alg) pos + 1)
              = sampleBuffer (dram alg) ! nat (sample_index (sampleLoadedFrames alg) pos + 1)"
      by (simp_all add: take_eq_nth)
  qed
  show ?thesis
    by (simp add: sample_pulsaret_def Let_def rd)
qed

lemma formant_voice_reads_loaded_frames:
  assumes eq: "take (frames_in_use alg) b = take (frames_in_use alg) (sampleBuffer (dram alg))"
  shows "formant_voice (alg\<lparr>dram := (dram alg)\<lparr>sampleBuffer := b\<rparr>\<rparr>) L d f acc
           = formant_voice alg L d f acc"
proof (cases "useSample alg \<noteq> 0 \<and> 2 \<le> sampleLoadedFrames alg")
  case False
  then have c: "(useSample alg \<noteq> 0 \<and> 2 \<le> sampleLoadedFrames alg) = False" by simp
  show ?thesis
    unfolding formant_voice_def Let_def
    by (simp add: c table_pulsaret_ignores_sample split: option.splits)
next
  case True
  then have c: "(useSample alg \<noteq> 0 \<and> 2 \<le> sampleLoadedFrames alg) = True" by simp
  from True eq have "take (nat (sampleLoadedFrames alg)) b
                 = take (nat (sampleLoadedFrames alg)) (sampleBuffer (dram alg))"
    by (simp add: frames_in_use_def)
  then have sp: "sample_pulsaret (alg\<lparr>dram := (dram alg)\<lparr>sampleBuffer := b\<rparr>\<rparr>) L ph
                   = sample_pulsaret alg L ph" for ph
    using True by (intro sample_pulsaret_reads_loaded_frames) simp_all
  show ?thesis
    unfolding formant_voice_def Let_def
    by (simp add: c sp split: option.splits)
qed

text \<open>
  C10: in every state the host can bring about, the frame count is at most the capacity
  of the sample buffer (48000); the sample supplies the pulsaret only when \<open>useSample\<close> is
  set and at least 2 frames are loaded, and then both indices read, \<open>sIdx\<close> and
  \<open>sIdx + 1\<close>, lie in \<open>[0, loaded - 1]\<close> for every pulsaret phase and every rate ratio;
  what a formant contributes depends on the loaded frames of the buffer only (on none of
  them outside sample mode).
\<close>

theorem C10_sample_reads_within_loaded_frames:
  assumes "alg = fst (run sr es (construct sr v0))"
  shows "sampleLoadedFrames alg \<le> kSampleBufferSize \<and> kSampleBufferSize = 48000
       \<and> length (sampleBuffer (dram alg)) = nat kSampleBufferSize
       \<and> (useSample alg \<noteq> 0 \<and> 2 \<le> sampleLoadedFrames alg \<longrightarrow>
            0 \<le> sample_index (sampleLoadedFrames alg)
                   (pulsaretPhase * of_int (sampleLoadedFrames alg - 1) * ratio)
          \<and> sample_index (sampleLoadedFrames alg)
                   (pulsaretPhase * of_int (sampleLoadedFrames alg - 1) * ratio) + 1
               \<le> sampleLoadedFrames alg - 1
          \<and> nat (sample_index (sampleLoadedFrames alg)
                   (pulsaretPhase * of_int (sampleLoadedFrames alg - 1) * ratio) + 1)
               < length (sampleBuffer (dram alg)))
       \<and> (take (frames_in_use alg) b = take (frames_in_use alg) (sampleBuffer (dram alg)) \<longrightarrow>
            formant_voice (alg\<lparr>dram := (dram alg)\<lparr>sampleBuffer := b\<rparr>\<rparr>) L d f acc
              = formant_voice alg L d f acc)"
proof -
  have "sample_ok (fst (run sr es (construct sr v0)))
        \<and> (\<forall>ob \<in> set (snd (run sr es (construct sr v0))). True)"
    using host_step_sample_ok construct_sample_ok
    by (rule run_invariant [where I = sample_ok and P = "\<lambda>ob. True"])
  then have ok: "sample_ok alg" using assms by simp
  then have a: "sampleLoadedFrames alg \<le> kSampleBufferSize"
    and l: "length (sampleBuffer (dram alg)) = nat kSampleBufferSize"
    by (simp_all add: sample_ok_def)
  have idx: "useSample alg \<noteq> 0 \<and> 2 \<le> sampleLoadedFrames alg \<longrightarrow>
            0 \<le> sample_index (sampleLoadedFrames alg)
                   (pulsaretPhase * of_int (sampleLoadedFrames alg - 1) * ratio)
          \<and> sample_index (sampleLoadedFrames alg)
                   (pulsaretPhase * of_int (sampleLoadedFrames alg - 1) * ratio) + 1
               \<le> sampleLoadedFrames alg - 1
          \<and> nat (sample_index (sampleLoadedFrames alg)
                   (pulsaretPhase * of_int (sampleLoadedFrames alg - 1) * ratio) + 1)
               < length (sampleBuffer (dram alg))"
  proof
    assume m: "useSample alg \<noteq> 0 \<and> 2 \<le> sampleLoadedFrames alg"
    from m sample_index_range [of "sampleLoadedFrames alg"
        "pulsaretPhase * of_int (sampleLoadedFrames alg - 1) * ratio"] a l
    show "0 \<le> sample_index (sampleLoadedFrames alg)
                   (pulsaretPhase * of_int (sampleLoadedFrames alg - 1) * ratio)
          \<and> sample_index (sampleLoadedFrames alg)
                   (pulsaretPhase * of_int (sampleLoadedFrames alg - 1) * ratio) + 1
               \<le> sampleLoadedFrames alg - 1
          \<and> nat (sample_index (sampleLoadedFrames alg)
                   (pulsaretPhase * of_int (sampleLoadedFrames alg - 1) * ratio) + 1)
               < length (sampleBuffer (dram alg))"
      by (simp add: kSampleBufferSize_def) linarith
  qed
  from a l idx formant_voice_reads_loaded_frames [of alg b L d f acc] show ?thesis
    by (simp add: kSampleBufferSize_def)
qed

theorem C10_sample_reads_within_loaded_frames_witness:
  "useSample (fst (run 48000 [ParameterChanged kParamUseSample 1 0 False,
                              ParameterChanged kParamFile 0 1000 True]
                     (construct 48000 host_defaults))) \<noteq> 0
   \<and> 2 \<le> sampleLoadedFrames (fst (run 48000 [ParameterChanged kParamUseSample 1 0 False,
                                               ParameterChanged kParamFile 0 1000 True]
                                      (construct 48000 host_defaults)))
   \<and> sample_index (sampleLoadedFrames (fst (run 48000 [ParameterChanged kParamUseSample 1 0 False,
                                                        ParameterChanged kParamFile 0 1000 True]
                                               (construct 48000 host_defaults))))
        (1 / 2 * of_int (sampleLoadedFrames (fst (run 48000 [ParameterChanged kParamUseSample 1 0 False,
                                                        ParameterChanged kParamFile 0 1000 True]
                                               (construct 48000 host_defaults))) - 1) * 4) + 1
       \<le> sampleLoadedFrames (fst (run 48000 [ParameterChanged kParamUseSample 1 0 False,
                                               ParameterChanged kParamFile 0 1000 True]
                                      (construct 48000 host_defaults))) - 1"
proof -
  let ?alg = "fst (run 48000 [ParameterChanged kParamUseSample 1 0 False,
                              ParameterChanged kParamFile 0 1000 True]
                     (construct 48000 host_defaults))"
  have h: "useSample ?alg \<noteq> 0 \<and> 2 \<le> sampleLoadedFrames ?alg"
    by (simp add: parameterChanged_def construct_def Let_def kSampleBufferSize_def)
  from C10_sample_reads_within_loaded_frames [OF refl, of 48000 _ host_defaults "1 / 2" 4] h
  show ?thesis by blast
qed



section \<open>Mask engine: evaluating a trace\<close>

lemma replicate_numeral_unroll: "replicate (numeral k) x = x # replicate (pred_numeral k) x"
  by (simp add: numeral_eq_Suc)

lemma control_loop_Cons:
  "control_loop alg L (c # cs) d =
     (fst (snd (tick_control alg L c d)), snd (snd (tick_control alg L c d)), fst (tick_control alg L c d))
       # control_loop alg L cs (fst (tick_control alg L c d))"
  by (simp add: case_prod_beta)

lemma mask_decisions_control:
  "mask_decisions (sample_loop alg L cvps d) =
     List.map_filter (\<lambda>x. fst (snd x)) (control_loop alg L cvps (control_of d))"
proof -
  have "mask_decisions obs =
     List.map_filter (\<lambda>x. fst (snd x))
       (map (\<lambda>ob. (o_newPulse ob, o_maskGain ob, control_of (o_dtc ob))) obs)" for obs
    by (induction obs) (simp_all add: mask_decisions_def map_filter_simps split: option.splits)
  then show ?thesis by (simp only: sample_loop_control)
qed

lemma no_cv_pitch: "map (\<lambda>i. map_option (\<lambda>xs. xs ! i) (cvPitch no_cv)) [0..<n] = replicate n None"
  by (simp add: no_cv_def map_replicate_const)


lemma sample_loop_all_ticks:
  assumes "\<And>c d. P (tick alg L c d)"
  shows "\<forall>ob \<in> set (sample_loop alg L cvps d). P ob"
  by (induction cvps arbitrary: d) (simp_all add: Let_def assms)

lemma tick_mask_target_length:
  "length (maskTarget (o_dtc (tick alg L c d))) = length (maskTarget d)"
  by (simp add: tick_parts tick_audio_fields tick_control_mask min_def)

lemma take_replicate_prefix:
  "take n (replicate (min n (length xs)) g @ drop n xs) = replicate (min n (length xs)) g"
  by (simp add: min_def)

lemma tick_decision_shared:
  assumes "0 < maskMode alg"
  shows "case o_maskGain (tick alg L c d) of
           None \<Rightarrow> \<not> o_newPulse (tick alg L c d)
         | Some g \<Rightarrow> o_newPulse (tick alg L c d)
             \<and> take (nat (formantCount alg)) (maskTarget (o_dtc (tick alg L c d)))
                 = replicate (min (nat (formantCount alg)) (length (maskTarget (o_dtc (tick alg L c d))))) g"
proof (cases "pulse_now L c d")
  case True
  with assms show ?thesis
    unfolding tick_mask_target_length
    by (simp add: tick_parts tick_audio_fields tick_control_mask tick_control_phase
        take_replicate_prefix nat_le_linear)
next
  case False
  then show ?thesis
    by (simp add: tick_parts tick_control_mask tick_control_phase)
qed

lemma tick_between_pulses:
  assumes "\<not> o_newPulse (tick alg L c d)"
  shows "maskTarget (o_dtc (tick alg L c d)) = maskTarget d
       \<and> prngState (o_dtc (tick alg L c d)) = prngState d
       \<and> burstCounter (o_dtc (tick alg L c d)) = burstCounter d
       \<and> o_maskGain (tick alg L c d) = None"
  using assms
  by (simp add: tick_parts tick_audio_fields tick_control_mask tick_control_phase)

lemma trace_control:
  "map (\<lambda>ob. (o_newPulse ob, maskTarget (o_dtc ob))) (sample_loop alg L cvps d)
     = map (\<lambda>x. (fst x, maskTarget (snd (snd x)))) (control_loop alg L cvps (control_of d))"
proof -
  have "map (\<lambda>ob. (o_newPulse ob, maskTarget (o_dtc ob))) obs
     = map (\<lambda>x. (fst x, maskTarget (snd (snd x))))
         (map (\<lambda>ob. (o_newPulse ob, o_maskGain ob, control_of (o_dtc ob))) obs)"
    for obs :: "sample_obs list"
    by (simp add: control_of_def)
  then show ?thesis by (simp only: sample_loop_control)
qed

lemma final_control:
  "control_of (final_dtc d (sample_loop alg L cvps d))
     = (if cvps = [] then control_of d
        else snd (snd (last (control_loop alg L cvps (control_of d)))))"
proof (cases "cvps = []")
  case True
  then show ?thesis by (simp add: final_dtc_def)
next
  case False
  then obtain c cs where "cvps = c # cs" by (cases cvps) simp_all
  then have ne: "sample_loop alg L cvps d \<noteq> []" by (simp add: Let_def)
  have "control_of (final_dtc d (sample_loop alg L cvps d))
          = control_of (o_dtc (last (sample_loop alg L cvps d)))"
    using ne by (simp add: final_dtc_def)
  also have "\<dots> = snd (snd (last (map (\<lambda>ob. (o_newPulse ob, o_maskGain ob, control_of (o_dtc ob)))
                        (sample_loop alg L cvps d))))"
    using ne by (simp add: last_map)
  also have "\<dots> = snd (snd (last (control_loop alg L cvps (control_of d))))"
    by (simp only: sample_loop_control)
  finally show ?thesis using False by simp
qed

lemma step_fst:
  "fst (step sr cv n alg)
     = (step_enter sr cv (n * 4) alg)
         \<lparr>dtc := final_dtc (dtc (step_enter sr cv (n * 4) alg)) (snd (step sr cv n alg))\<rparr>"
  by (simp add: step_def final_dtc_def Let_def)

lemma lcg_below_one:
  fixes s :: u32
  shows "real (unat (drop_bit 8 s)) / 16777216 < 1"
  using lcg_uniform_range [of s] by blast

lemma run_Cons:
  "run sr (e # es) alg
     = (fst (run sr es (fst (host_step sr e alg))),
        snd (host_step sr e alg) @ snd (run sr es (fst (host_step sr e alg))))"
  by (simp add: case_prod_beta Let_def)

lemma step_enter_control:
  "cvGlide cv = None \<Longrightarrow> control_of (dtc (step_enter sr cv n alg)) = control_of (dtc alg)"
  by (simp add: step_enter_def control_of_def Let_def)

section \<open>Mask engine: burst pattern\<close>

text \<open>
  C1, as stated: from the constructed state, with Burst 4 on and 4 off, the decisions over
  consecutive triggers are \<open>[1,1,1,1,0,0,0,0,...]\<close> from the first trigger on. Run:
  construct at 48 kHz, select Burst, note-on for MIDI note 117 (7040 Hz), one block of 56
  frames, in which the phase wraps 8 times. The counter is incremented before it is
  compared, so the first trigger already decides with counter 1: the decisions are
  \<open>[1,1,1,0,0,0,0,1]\<close>.
\<close>

theorem C1_burst_first_run_is_three_counterexample:
  "mask_decisions (snd (run 48000
      [ParameterChanged kParamMaskMode 2 0 False, MidiMessage 0x90 117 100, Step no_cv 14]
      (construct 48000 host_defaults))) = [1, 1, 1, 0, 0, 0, 0, 1]
   \<and> mask_decisions (snd (run 48000
      [ParameterChanged kParamMaskMode 2 0 False, MidiMessage 0x90 117 100, Step no_cv 14]
      (construct 48000 host_defaults))) \<noteq> map burst_pattern_spec [0..<8]"
proof -
  define a1 where "a1 = midiMessage 0x90 117 100
     (parameterChanged 48000 0 False kParamMaskMode
        ((construct 48000 host_defaults)\<lparr>pv := (pv (construct 48000 host_defaults))(kParamMaskMode := 2)\<rparr>))"
  define a2 where "a2 = step_enter 48000 no_cv 56 a1"
  define L where "L = step_prepare 48000 no_cv 56 a2"
  have d1: "dtc a1 = (dtc (construct 48000 host_defaults))
      \<lparr>currentNote := 117, velocity := 100, gate := True, envTarget := 1,
        targetFundamentalHz := 7040, fundamentalHz := 7040\<rparr>"
    by (simp add: a1_def midiMessage_def parameterChanged_def construct_def host_defaults_def Let_def)
  have a1f: "maskMode a1 = 2" "burstOn a1 = 4" "burstOff a1 = 4" "formantCount a1 = 1" "gateMode a1 = 0"
    by (simp_all add: a1_def midiMessage_def parameterChanged_def construct_def host_defaults_def Let_def)
  have a2f: "maskMode a2 = 2" "burstOn a2 = 4" "burstOff a2 = 4" "formantCount a2 = 1"
    and d2: "dtc a2 = dtc a1"
    by (simp_all add: a2_def step_enter_def a1f no_cv_def Let_def)
  have Lf: "l_invSr L = 1 / 48000"
    by (simp add: L_def step_prepare_invSr)
  have c0: "control_of (dtc a2) =
      \<lparr> masterPhase = Some 0, fundamentalHz = 7040, targetFundamentalHz = 7040, glideCoeff = 0,
        formantDuty = [], maskSmooth = [], maskTarget = [1, 1, 1], maskSmoothCoeff = 0,
        envValue = 0, envTarget = 0, attackCoeff = 0, releaseCoeff = 0,
        leakDC_xL = 0, leakDC_yL = 0, leakDC_xR = 0, leakDC_yR = 0, leakDC_coeff = 0,
        currentNote = 0, velocity = 0, gate = False, prevPulseActive = False,
        prngState = 48271, burstCounter = 0 \<rparr>"
    by (simp add: d2 d1 control_of_def construct_def)
  have "snd (run 48000
      [ParameterChanged kParamMaskMode 2 0 False, MidiMessage 0x90 117 100, Step no_cv 14]
      (construct 48000 host_defaults)) = sample_loop a2 L (replicate 56 None) (dtc a2)"
    by (simp add: step_obs Let_def case_prod_beta a1_def [symmetric] a2_def [symmetric] L_def [symmetric]
        no_cv_pitch del: upt.simps)
  then have "mask_decisions (snd (run 48000
      [ParameterChanged kParamMaskMode 2 0 False, MidiMessage 0x90 117 100, Step no_cv 14]
      (construct 48000 host_defaults))) =
      List.map_filter (\<lambda>x. fst (snd x)) (control_loop a2 L (replicate 56 None) (control_of (dtc a2)))"
    by (simp only: mask_decisions_control)
  also have "\<dots> = [1, 1, 1, 0, 0, 0, 0, 1]"
    unfolding c0
    by (simp add: replicate_numeral_unroll control_loop_Cons control_defs phase_increment_def a2f Lf
        fold_update_all map_filter_simps del: control_loop.simps(2))
  finally have r: "mask_decisions (snd (run 48000
      [ParameterChanged kParamMaskMode 2 0 False, MidiMessage 0x90 117 100, Step no_cv 14]
      (construct 48000 host_defaults))) = [1, 1, 1, 0, 0, 0, 0, 1]" .
  have "map burst_pattern_spec [0..<8] = [1, 1, 1, 1, 0, 0, 0, 0]"
    by (simp add: burst_pattern_spec_def upt_rec)
  with r show ?thesis by simp
qed

text \<open>
  C1, amended: with Burst 4 on and 4 off and burst counter 0, over any sequence of host
  events that leaves the burst settings alone, the trigger number \<open>k\<close> (counting from 1)
  decides 1 when \<open>k mod 8 < 4\<close> and 0 otherwise: the decisions over consecutive triggers
  are \<open>[1,1,1,0,0,0,0,1, 1,1,1,0,0,0,0,1, ...]\<close>, three sounding triggers, then four
  muted and four sounding in turn. The constructed state has burst counter 0 and mask
  targets 1, with which the pulse before the first trigger sounds.
\<close>

theorem C1_burst_pattern_over_triggers:
  assumes "maskMode alg = 2" and "burstOn alg = 4" and "burstOff alg = 4"
    and "burstCounter (dtc alg) = 0" and "list_all keeps_burst_settings es"
  shows "mask_decisions (snd (run sr es alg))
           = map (\<lambda>k. burst_pattern_spec (Suc k)) [0..<trigger_count (snd (run sr es alg))]
       \<and> map (\<lambda>k. burst_pattern_spec (Suc k)) [0..<16]
           = [1, 1, 1, 0, 0, 0, 0, 1,  1, 1, 1, 0, 0, 0, 0, 1]
       \<and> maskTarget (dtc (construct sr v0)) = [1, 1, 1]
       \<and> burstCounter (dtc (construct sr v0)) = 0"
proof -
  have b: "burst44 alg" using assms(1-4) by (simp add: burst44_def)
  from run_burst [OF assms(5) b, of sr] assms(4)
  have "mask_decisions (snd (run sr es alg))
           = map (\<lambda>k. burst_pattern_spec (Suc k)) [0..<trigger_count (snd (run sr es alg))]"
    by simp
  moreover have "map (\<lambda>k. burst_pattern_spec (Suc k)) [0..<16]
           = [1, 1, 1, 0, 0, 0, 0, 1,  1, 1, 1, 0, 0, 0, 0, 1]"
    by (simp add: burst_pattern_spec_def upt_rec)
  moreover have "maskTarget (dtc (construct sr v0)) = [1, 1, 1]"
    "burstCounter (dtc (construct sr v0)) = 0"
    by (simp_all add: construct_def)
  ultimately show ?thesis by blast
qed

theorem C1_burst_pattern_over_triggers_witness:
  "maskMode (fst (run 48000 [ParameterChanged kParamMaskMode 2 0 False]
                     (construct 48000 host_defaults))) = 2
   \<and> burstOn (fst (run 48000 [ParameterChanged kParamMaskMode 2 0 False]
                     (construct 48000 host_defaults))) = 4
   \<and> burstOff (fst (run 48000 [ParameterChanged kParamMaskMode 2 0 False]
                     (construct 48000 host_defaults))) = 4
   \<and> burstCounter (dtc (fst (run 48000 [ParameterChanged kParamMaskMode 2 0 False]
                     (construct 48000 host_defaults)))) = 0
   \<and> list_all keeps_burst_settings [MidiMessage 0x90 117 100, Step no_cv 14]
   \<and> mask_decisions (snd (run 48000 [MidiMessage 0x90 117 100, Step no_cv 14]
         (fst (run 48000 [ParameterChanged kParamMaskMode 2 0 False]
                 (construct 48000 host_defaults)))))
       = map (\<lambda>k. burst_pattern_spec (Suc k))
           [0..<trigger_count (snd (run 48000 [MidiMessage 0x90 117 100, Step no_cv 14]
              (fst (run 48000 [ParameterChanged kParamMaskMode 2 0 False]
                      (construct 48000 host_defaults)))))]"
proof -
  let ?alg = "fst (run 48000 [ParameterChanged kParamMaskMode 2 0 False]
                     (construct 48000 host_defaults))"
  have h: "maskMode ?alg = 2" "burstOn ?alg = 4" "burstOff ?alg = 4" "burstCounter (dtc ?alg) = 0"
    by (simp_all add: parameterChanged_def construct_def Let_def)
  have k: "list_all keeps_burst_settings [MidiMessage 0x90 117 100, Step no_cv 14]"
    by (simp add: keeps_burst_settings_def)
  from C1_burst_pattern_over_triggers [OF h k, of 48000] h k show ?thesis by blast
qed

section \<open>Mask engine: stochastic pattern\<close>

text \<open>
  C7: in Stochastic mode every new pulse advances the generator by
  \<open>state * 1664525 + 1013904223\<close> modulo \<open>2 ^ 32\<close>, derives \<open>(state >> 8) / 2 ^ 24\<close>, a value
  in \<open>[0, 1)\<close>, from the new state and decides 0 when that value is below the effective
  amount and 1 otherwise (\<open>stochastic_spec\<close>). Within a block the effective amount is the
  clamped Mask CV average times 0.1 when the CV is connected and the Mask Amount parameter
  otherwise; the decision becomes the mask target of the active formants, and a pass
  without a new pulse leaves generator and targets alone. Along any sequence of host events that leaves the stochastic settings alone,
  the decisions are those of \<open>stochastic_spec\<close> from the seed, one per trigger; so two runs
  with the same seed, the same amount and the same number of triggers decide identically.
  The constructed seed is 48271.
\<close>

theorem C7_stochastic_decisions_reproducible:
  assumes "maskMode alg = 1" and "list_all keeps_stochastic_settings es"
  shows "mask_decisions (snd (run sr es alg))
           = stochastic_spec (maskAmount alg) (prngState (dtc alg)) (trigger_count (snd (run sr es alg)))
       \<and> prngState (dtc (fst (run sr es alg)))
           = lcg_iter (trigger_count (snd (run sr es alg))) (prngState (dtc alg))
       \<and> mask_decisions (snd (step sr cv n alg))
           = stochastic_spec
               (if cvMask cv \<noteq> None then min 1 (max 0 (cv_avg (cvMask cv) (n * 4) * 0.1))
                else maskAmount alg)
               (prngState (dtc alg)) (trigger_count (snd (step sr cv n alg)))
       \<and> (maskMode alg2 = 1 \<and> list_all keeps_stochastic_settings es2
            \<and> prngState (dtc alg2) = prngState (dtc alg) \<and> maskAmount alg2 = maskAmount alg
            \<and> trigger_count (snd (run sr2 es2 alg2)) = trigger_count (snd (run sr es alg))
          \<longrightarrow> mask_decisions (snd (run sr2 es2 alg2)) = mask_decisions (snd (run sr es alg)))
       \<and> 0 \<le> real (unat (drop_bit 8 (s :: u32))) / 16777216
       \<and> real (unat (drop_bit 8 s)) / 16777216 < 1
       \<and> prngState (dtc (construct sr v0)) = 48271
       \<and> prngState (o_dtc (tick alg L c d))
           = (if o_newPulse (tick alg L c d) then prngState d * 1664525 + 1013904223
              else prngState d)
       \<and> o_maskGain (tick alg L c d)
           = (if o_newPulse (tick alg L c d)
              then Some (if real (unat (drop_bit 8 (prngState d * 1664525 + 1013904223))) / 16777216
                            < (if l_hasMaskCV L then l_maskCvAmount L else maskAmount alg)
                         then 0 else 1)
              else None)
       \<and> maskTarget (o_dtc (tick alg L c d))
           = (if o_newPulse (tick alg L c d)
              then replicate (min (nat (formantCount alg)) (length (maskTarget d)))
                     (if real (unat (drop_bit 8 (prngState d * 1664525 + 1013904223))) / 16777216
                           < (if l_hasMaskCV L then l_maskCvAmount L else maskAmount alg)
                      then 0 else 1)
                   @ drop (nat (formantCount alg)) (maskTarget d)
              else maskTarget d)"
proof -
  have m: "stochastic_mode (maskAmount alg) alg"
    using assms(1) by (simp add: stochastic_mode_def)
  note r = run_stochastic [OF assms(2) m, of sr]
  from r have dec: "mask_decisions (snd (run sr es alg))
           = stochastic_spec (maskAmount alg) (prngState (dtc alg)) (trigger_count (snd (run sr es alg)))"
    by blast
  from r have st: "prngState (dtc (fst (run sr es alg)))
           = lcg_iter (trigger_count (snd (run sr es alg))) (prngState (dtc alg))"
    by blast
  have det: "maskMode alg2 = 1 \<and> list_all keeps_stochastic_settings es2
            \<and> prngState (dtc alg2) = prngState (dtc alg) \<and> maskAmount alg2 = maskAmount alg
            \<and> trigger_count (snd (run sr2 es2 alg2)) = trigger_count (snd (run sr es alg))
          \<longrightarrow> mask_decisions (snd (run sr2 es2 alg2)) = mask_decisions (snd (run sr es alg))"
  proof
    assume h: "maskMode alg2 = 1 \<and> list_all keeps_stochastic_settings es2
            \<and> prngState (dtc alg2) = prngState (dtc alg) \<and> maskAmount alg2 = maskAmount alg
            \<and> trigger_count (snd (run sr2 es2 alg2)) = trigger_count (snd (run sr es alg))"
    then have m2: "stochastic_mode (maskAmount alg) alg2" by (simp add: stochastic_mode_def)
    from h have k2: "list_all keeps_stochastic_settings es2" by blast
    from run_stochastic [OF k2 m2, of sr2]
    have "mask_decisions (snd (run sr2 es2 alg2))
           = stochastic_spec (maskAmount alg) (prngState (dtc alg2)) (trigger_count (snd (run sr2 es2 alg2)))"
      by blast
    with h dec show "mask_decisions (snd (run sr2 es2 alg2)) = mask_decisions (snd (run sr es alg))"
      by simp
  qed
  have seed: "prngState (dtc (construct sr v0)) = 48271" by (simp add: construct_def)
  have pass: "prngState (o_dtc (tick alg L c d))
           = (if o_newPulse (tick alg L c d) then prngState d * 1664525 + 1013904223
              else prngState d)"
    "o_maskGain (tick alg L c d)
           = (if o_newPulse (tick alg L c d)
              then Some (if real (unat (drop_bit 8 (prngState d * 1664525 + 1013904223))) / 16777216
                            < (if l_hasMaskCV L then l_maskCvAmount L else maskAmount alg)
                         then 0 else 1)
              else None)"
    "maskTarget (o_dtc (tick alg L c d))
           = (if o_newPulse (tick alg L c d)
              then replicate (min (nat (formantCount alg)) (length (maskTarget d)))
                     (if real (unat (drop_bit 8 (prngState d * 1664525 + 1013904223))) / 16777216
                           < (if l_hasMaskCV L then l_maskCvAmount L else maskAmount alg)
                      then 0 else 1)
                   @ drop (nat (formantCount alg)) (maskTarget d)
              else maskTarget d)"
    using assms(1)
    by (simp_all add: tick_parts tick_audio_fields tick_control_mask tick_control_phase
        mask_decision_stochastic)
  from dec st step_stochastic(1) [OF assms(1), of sr cv n] det lcg_uniform_range [of s] seed pass
  show ?thesis by blast
qed

theorem C7_stochastic_decisions_reproducible_witness:
  "maskMode (fst (run 48000 [ParameterChanged kParamMaskMode 1 0 False]
                     (construct 48000 host_defaults))) = 1
   \<and> list_all keeps_stochastic_settings [MidiMessage 0x90 117 100, Step no_cv 14]
   \<and> mask_decisions (snd (run 48000 [MidiMessage 0x90 117 100, Step no_cv 14]
         (fst (run 48000 [ParameterChanged kParamMaskMode 1 0 False]
                 (construct 48000 host_defaults)))))
       = stochastic_spec (1 / 2) 48271
           (trigger_count (snd (run 48000 [MidiMessage 0x90 117 100, Step no_cv 14]
              (fst (run 48000 [ParameterChanged kParamMaskMode 1 0 False]
                      (construct 48000 host_defaults))))))"
proof -
  let ?alg = "fst (run 48000 [ParameterChanged kParamMaskMode 1 0 False]
                     (construct 48000 host_defaults))"
  have h: "maskMode ?alg = 1"
    by (simp add: parameterChanged_def construct_def Let_def)
  have k: "list_all keeps_stochastic_settings [MidiMessage 0x90 117 100, Step no_cv 14]"
    by (simp add: keeps_stochastic_settings_def no_cv_def)
  have v: "maskAmount ?alg = 1 / 2" "prngState (dtc ?alg) = 48271"
    by (simp_all add: parameterChanged_def construct_def Let_def)
  from C7_stochastic_decisions_reproducible [OF h k, of 48000] h k show ?thesis
    unfolding v by blast
qed

section \<open>Mask engine: one decision per trigger\<close>

text \<open>
  C9, amended: while the mask mode is Stochastic or Burst (\<open>maskMode > 0\<close>), a pass of the
  sample loop makes a mask decision exactly when it raises \<open>newPulse\<close>, and then the one
  decision value is the mask target of every active formant; a pass without \<open>newPulse\<close>
  leaves the mask targets and the generator and burst state as they were, in any mode.
\<close>

theorem C9_one_shared_decision_per_trigger:
  assumes "0 < maskMode alg"
  shows "(\<forall>ob \<in> set (snd (step sr cv n alg)).
            (case o_maskGain ob of
               None \<Rightarrow> \<not> o_newPulse ob
             | Some g \<Rightarrow> o_newPulse ob
                 \<and> take (nat (formantCount alg)) (maskTarget (o_dtc ob))
                     = replicate (min (nat (formantCount alg)) (length (maskTarget (o_dtc ob)))) g))
       \<and> (case o_maskGain (tick alg L c d) of
             None \<Rightarrow> \<not> o_newPulse (tick alg L c d)
           | Some g \<Rightarrow> o_newPulse (tick alg L c d)
               \<and> take (nat (formantCount alg)) (maskTarget (o_dtc (tick alg L c d)))
                   = replicate (min (nat (formantCount alg)) (length (maskTarget (o_dtc (tick alg L c d))))) g)
       \<and> (\<not> o_newPulse (tick a L c d) \<longrightarrow>
             maskTarget (o_dtc (tick a L c d)) = maskTarget d
           \<and> prngState (o_dtc (tick a L c d)) = prngState d
           \<and> burstCounter (o_dtc (tick a L c d)) = burstCounter d
           \<and> o_maskGain (tick a L c d) = None)"
proof -
  let ?a = "step_enter sr cv (n * 4) alg"
  have m: "0 < maskMode ?a" and f: "formantCount ?a = formantCount alg"
    using assms by (simp_all add: step_enter_fields)
  have "\<forall>ob \<in> set (snd (step sr cv n alg)).
            (case o_maskGain ob of
               None \<Rightarrow> \<not> o_newPulse ob
             | Some g \<Rightarrow> o_newPulse ob
                 \<and> take (nat (formantCount ?a)) (maskTarget (o_dtc ob))
                     = replicate (min (nat (formantCount ?a)) (length (maskTarget (o_dtc ob)))) g)"
    unfolding step_obs
    by (rule sample_loop_all_ticks) (rule tick_decision_shared [OF m])
  then have blk: "\<forall>ob \<in> set (snd (step sr cv n alg)).
            (case o_maskGain ob of
               None \<Rightarrow> \<not> o_newPulse ob
             | Some g \<Rightarrow> o_newPulse ob
                 \<and> take (nat (formantCount alg)) (maskTarget (o_dtc ob))
                     = replicate (min (nat (formantCount alg)) (length (maskTarget (o_dtc ob)))) g)"
    by (simp only: f)
  from blk tick_decision_shared [OF assms, of L c d] tick_between_pulses [of a L c d]
  show ?thesis by blast
qed


theorem C9_one_shared_decision_per_trigger_witness:
  "0 < maskMode (fst (run 48000 [ParameterChanged kParamMaskMode 2 0 False]
                         (construct 48000 host_defaults)))
   \<and> (case o_maskGain (tick (fst (run 48000 [ParameterChanged kParamMaskMode 2 0 False]
                                       (construct 48000 host_defaults)))
                              (step_prepare 48000 no_cv 4
                                 (fst (run 48000 [ParameterChanged kParamMaskMode 2 0 False]
                                         (construct 48000 host_defaults))))
                              None
                              ((dtc (construct 48000 host_defaults))
                                 \<lparr>masterPhase := Some (9 / 10), fundamentalHz := 7040,
                                   targetFundamentalHz := 7040\<rparr>)) of
         None \<Rightarrow> False
       | Some g \<Rightarrow> g = 1
           \<and> take (nat (formantCount (fst (run 48000 [ParameterChanged kParamMaskMode 2 0 False]
                                                (construct 48000 host_defaults)))))
                 (maskTarget (o_dtc (tick (fst (run 48000 [ParameterChanged kParamMaskMode 2 0 False]
                                                  (construct 48000 host_defaults)))
                              (step_prepare 48000 no_cv 4
                                 (fst (run 48000 [ParameterChanged kParamMaskMode 2 0 False]
                                         (construct 48000 host_defaults))))
                              None
                              ((dtc (construct 48000 host_defaults))
                                 \<lparr>masterPhase := Some (9 / 10), fundamentalHz := 7040,
                                   targetFundamentalHz := 7040\<rparr>))))
               = replicate (min (nat (formantCount (fst (run 48000 [ParameterChanged kParamMaskMode 2 0 False]
                                                (construct 48000 host_defaults)))))
                      (length (maskTarget (o_dtc (tick (fst (run 48000 [ParameterChanged kParamMaskMode 2 0 False]
                                                  (construct 48000 host_defaults)))
                              (step_prepare 48000 no_cv 4
                                 (fst (run 48000 [ParameterChanged kParamMaskMode 2 0 False]
                                         (construct 48000 host_defaults))))
                              None
                              ((dtc (construct 48000 host_defaults))
                                 \<lparr>masterPhase := Some (9 / 10), fundamentalHz := 7040,
                                   targetFundamentalHz := 7040\<rparr>)))))) g)"
proof -
  define alg where "alg = fst (run 48000 [ParameterChanged kParamMaskMode 2 0 False]
                                 (construct 48000 host_defaults))"
  define L where "L = step_prepare 48000 no_cv 4 alg"
  define d where "d = (dtc (construct 48000 host_defaults))
              \<lparr>masterPhase := Some (9 / 10), fundamentalHz := 7040, targetFundamentalHz := 7040\<rparr>"
  have h: "0 < maskMode alg"
    by (simp add: alg_def parameterChanged_def construct_def Let_def)
  have f: "maskMode alg = 2" "burstOn alg = 4" "burstOff alg = 4" "formantCount alg = 1"
    by (simp_all add: alg_def parameterChanged_def construct_def Let_def)
  have Lf: "l_invSr L = 1 / 48000" by (simp add: L_def step_prepare_invSr)
  have df: "masterPhase d = Some (9 / 10)" "fundamentalHz d = 7040" "targetFundamentalHz d = 7040"
    "burstCounter d = 0"
    by (simp_all add: d_def construct_def)
  have inc: "tick_inc L None d = Some (11 / 75)"
    by (simp add: tick_inc_def phase_increment_def fval_mult_def sample_freq_def glide_step_def
        Lf df Let_def)
  have pn: "pulse_now L None d"
    by (simp add: pulse_now_Some [OF df(1) inc])
  have g: "o_maskGain (tick alg L None d) = Some 1"
    by (simp add: tick_parts tick_control_mask mask_decision_burst44 [OF f(1-3)] pn df f)
  from C9_one_shared_decision_per_trigger [OF h, of 48000 no_cv 1 L None d]
  have "case o_maskGain (tick alg L None d) of
          None \<Rightarrow> \<not> o_newPulse (tick alg L None d)
        | Some g \<Rightarrow> o_newPulse (tick alg L None d)
            \<and> take (nat (formantCount alg)) (maskTarget (o_dtc (tick alg L None d)))
                = replicate (min (nat (formantCount alg))
                               (length (maskTarget (o_dtc (tick alg L None d))))) g"
    by blast
  with g h
  have "0 < maskMode alg
        \<and> (case o_maskGain (tick alg L None d) of
              None \<Rightarrow> False
            | Some g \<Rightarrow> g = 1
                \<and> take (nat (formantCount alg)) (maskTarget (o_dtc (tick alg L None d)))
                    = replicate (min (nat (formantCount alg))
                                   (length (maskTarget (o_dtc (tick alg L None d))))) g)"
    by simp
  then show ?thesis unfolding alg_def L_def d_def .
qed

text \<open>
  C9, as stated: after each trigger the mask targets of all active formants are equal. Run:
  construct at 48 kHz, select Stochastic with amount 100 %, note-on for MIDI note 117, one
  block of 8 frames (one trigger, which mutes formant 1: targets \<open>[0,1,1]\<close>), then set the
  formant count to 2 and the mask mode to Off, and one more block of 8 frames. Its sixth
  frame (index 13 of the trace) raises \<open>newPulse\<close>; in mode Off the masking block is
  skipped, and the two active formants keep the targets 0 and 1.
\<close>

theorem C9_off_mode_leaves_targets_unequal_counterexample:
  "formantCount (fst (run 48000
      [ParameterChanged kParamMaskMode 1 0 False, ParameterChanged kParamMaskAmount 100 0 False,
       MidiMessage 0x90 117 100, Step no_cv 2,
       ParameterChanged kParamFormantCount 2 0 False, ParameterChanged kParamMaskMode 0 0 False,
       Step no_cv 2]
      (construct 48000 host_defaults))) = 2
   \<and> map trigger_targets (snd (run 48000
      [ParameterChanged kParamMaskMode 1 0 False, ParameterChanged kParamMaskAmount 100 0 False,
       MidiMessage 0x90 117 100, Step no_cv 2,
       ParameterChanged kParamFormantCount 2 0 False, ParameterChanged kParamMaskMode 0 0 False,
       Step no_cv 2]
      (construct 48000 host_defaults)))
     = [(False, [1, 1, 1]), (False, [1, 1, 1]), (False, [1, 1, 1]), (False, [1, 1, 1]),
        (False, [1, 1, 1]), (False, [1, 1, 1]), (True, [0, 1, 1]), (False, [0, 1, 1]),
        (False, [0, 1, 1]), (False, [0, 1, 1]), (False, [0, 1, 1]), (False, [0, 1, 1]),
        (False, [0, 1, 1]), (True, [0, 1, 1]), (False, [0, 1, 1]), (False, [0, 1, 1])]
   \<and> trigger_targets (snd (run 48000
      [ParameterChanged kParamMaskMode 1 0 False, ParameterChanged kParamMaskAmount 100 0 False,
       MidiMessage 0x90 117 100, Step no_cv 2,
       ParameterChanged kParamFormantCount 2 0 False, ParameterChanged kParamMaskMode 0 0 False,
       Step no_cv 2]
      (construct 48000 host_defaults)) ! 13) = (True, [0, 1, 1])"
proof -
  define a1 where "a1 = fst (host_step 48000 (ParameterChanged kParamMaskMode 1 0 False)
                               (construct 48000 host_defaults))"
  define a2 where "a2 = fst (host_step 48000 (ParameterChanged kParamMaskAmount 100 0 False) a1)"
  define a3 where "a3 = fst (host_step 48000 (MidiMessage 0x90 117 100) a2)"
  define a4 where "a4 = fst (host_step 48000 (Step no_cv 2) a3)"
  define a5 where "a5 = fst (host_step 48000 (ParameterChanged kParamFormantCount 2 0 False) a4)"
  define a6 where "a6 = fst (host_step 48000 (ParameterChanged kParamMaskMode 0 0 False) a5)"
  define a7 where "a7 = fst (host_step 48000 (Step no_cv 2) a6)"
  define obs1 where "obs1 = snd (host_step 48000 (Step no_cv 2) a3)"
  define obs2 where "obs2 = snd (host_step 48000 (Step no_cv 2) a6)"
  define a3e where "a3e = step_enter 48000 no_cv 8 a3"
  define L1 where "L1 = step_prepare 48000 no_cv 8 a3e"
  define a6e where "a6e = step_enter 48000 no_cv 8 a6"
  define L2 where "L2 = step_prepare 48000 no_cv 8 a6e"
  have r: "run 48000
      [ParameterChanged kParamMaskMode 1 0 False, ParameterChanged kParamMaskAmount 100 0 False,
       MidiMessage 0x90 117 100, Step no_cv 2,
       ParameterChanged kParamFormantCount 2 0 False, ParameterChanged kParamMaskMode 0 0 False,
       Step no_cv 2]
      (construct 48000 host_defaults) = (a7, obs1 @ obs2)"
    unfolding run_Cons run.simps(1) a1_def [symmetric] a2_def [symmetric] a3_def [symmetric]
      a4_def [symmetric] a5_def [symmetric] a6_def [symmetric] a7_def [symmetric]
      obs1_def [symmetric] obs2_def [symmetric]
    by simp
  have o1: "obs1 = sample_loop a3e L1 (replicate 8 None) (dtc a3e)"
    by (simp add: obs1_def step_obs a3e_def L1_def no_cv_pitch)
  have o2: "obs2 = sample_loop a6e L2 (replicate 8 None) (dtc a6e)"
    by (simp add: obs2_def step_obs a6e_def L2_def no_cv_pitch)
  have a3f: "maskMode a3 = 1" "maskAmount a3 = 1" "formantCount a3 = 1"
    by (simp_all add: a3_def a2_def a1_def midiMessage_def parameterChanged_def construct_def
        host_defaults_def Let_def)
  have d3: "dtc a3 = (dtc (construct 48000 host_defaults))
      \<lparr>currentNote := 117, velocity := 100, gate := True, envTarget := 1,
        targetFundamentalHz := 7040, fundamentalHz := 7040\<rparr>"
    by (simp add: a3_def a2_def a1_def midiMessage_def parameterChanged_def construct_def
        host_defaults_def Let_def)
  have a3ef: "maskMode a3e = 1" "maskAmount a3e = 1" "formantCount a3e = 1"
    by (simp_all add: a3e_def step_enter_fields a3f)
  have L1f: "l_invSr L1 = 1 / 48000" "l_hasMaskCV L1 = False"
    by (simp_all add: L1_def step_prepare_invSr step_prepare_mask no_cv_def)
  have c0: "control_of (dtc a3e) =
      \<lparr> masterPhase = Some 0, fundamentalHz = 7040, targetFundamentalHz = 7040, glideCoeff = 0,
        formantDuty = [], maskSmooth = [], maskTarget = [1, 1, 1], maskSmoothCoeff = 0,
        envValue = 0, envTarget = 0, attackCoeff = 0, releaseCoeff = 0,
        leakDC_xL = 0, leakDC_yL = 0, leakDC_xR = 0, leakDC_yR = 0, leakDC_coeff = 0,
        currentNote = 0, velocity = 0, gate = False, prevPulseActive = False,
        prngState = 48271, burstCounter = 0 \<rparr>"
  proof -
    have "control_of (dtc a3e) = control_of (dtc a3)"
      by (simp add: a3e_def step_enter_control no_cv_def)
    then show ?thesis by (simp add: d3 control_of_def construct_def)
  qed
  have loop1: "control_loop a3e L1 (replicate 8 None) (control_of (dtc a3e)) =
     [(False, None, (control_of (dtc a3e))\<lparr>masterPhase := Some (11 / 75)\<rparr>),
      (False, None, (control_of (dtc a3e))\<lparr>masterPhase := Some (22 / 75)\<rparr>),
      (False, None, (control_of (dtc a3e))\<lparr>masterPhase := Some (33 / 75)\<rparr>),
      (False, None, (control_of (dtc a3e))\<lparr>masterPhase := Some (44 / 75)\<rparr>),
      (False, None, (control_of (dtc a3e))\<lparr>masterPhase := Some (55 / 75)\<rparr>),
      (False, None, (control_of (dtc a3e))\<lparr>masterPhase := Some (66 / 75)\<rparr>),
      (True, Some 0, (control_of (dtc a3e))\<lparr>masterPhase := Some (2 / 75), maskTarget := [0, 1, 1],
          prngState := 48271 * 1664525 + 1013904223\<rparr>),
      (False, None, (control_of (dtc a3e))\<lparr>masterPhase := Some (13 / 75), maskTarget := [0, 1, 1],
          prngState := 48271 * 1664525 + 1013904223\<rparr>)]"
    unfolding c0
    by (simp add: replicate_numeral_unroll control_loop_Cons control_defs phase_increment_def a3ef L1f
        fold_update_all lcg_below_one del: control_loop.simps(2))
  have v1: "map (\<lambda>ob. (o_newPulse ob, maskTarget (o_dtc ob))) obs1
     = [(False, [1, 1, 1]), (False, [1, 1, 1]), (False, [1, 1, 1]), (False, [1, 1, 1]),
        (False, [1, 1, 1]), (False, [1, 1, 1]), (True, [0, 1, 1]), (False, [0, 1, 1])]"
    unfolding o1 trace_control loop1 by (simp add: c0)
  have d4: "dtc a4 = final_dtc (dtc a3e) obs1"
    by (simp add: a4_def step_fst a3e_def obs1_def)
  have c4: "control_of (dtc a4) = (control_of (dtc a3e))\<lparr>masterPhase := Some (13 / 75), maskTarget := [0, 1, 1],
          prngState := 48271 * 1664525 + 1013904223\<rparr>"
    unfolding d4 o1 by (simp add: final_control loop1)
  have a6f: "maskMode a6 = 0" "formantCount a6 = 2"
    and d6: "dtc a6 = dtc a4"
    by (simp_all add: a6_def a5_def parameterChanged_def Let_def)
  have a6ef: "maskMode a6e = 0" "formantCount a6e = 2"
    by (simp_all add: a6e_def step_enter_fields a6f)
  have L2f: "l_invSr L2 = 1 / 48000"
    by (simp add: L2_def step_prepare_invSr)
  have c6: "control_of (dtc a6e) =
      \<lparr> masterPhase = Some (13 / 75), fundamentalHz = 7040, targetFundamentalHz = 7040, glideCoeff = 0,
        formantDuty = [], maskSmooth = [], maskTarget = [0, 1, 1], maskSmoothCoeff = 0,
        envValue = 0, envTarget = 0, attackCoeff = 0, releaseCoeff = 0,
        leakDC_xL = 0, leakDC_yL = 0, leakDC_xR = 0, leakDC_yR = 0, leakDC_coeff = 0,
        currentNote = 0, velocity = 0, gate = False, prevPulseActive = False,
        prngState = 48271 * 1664525 + 1013904223, burstCounter = 0 \<rparr>"
  proof -
    have "control_of (dtc a6e) = control_of (dtc a6)"
      by (simp add: a6e_def step_enter_control no_cv_def)
    also have "\<dots> = control_of (dtc a4)" by (simp only: d6)
    finally show ?thesis by (simp add: c4 c0)
  qed
  have v2: "map (\<lambda>ob. (o_newPulse ob, maskTarget (o_dtc ob))) obs2
     = [(False, [0, 1, 1]), (False, [0, 1, 1]), (False, [0, 1, 1]), (False, [0, 1, 1]),
        (False, [0, 1, 1]), (True, [0, 1, 1]), (False, [0, 1, 1]), (False, [0, 1, 1])]"
    unfolding o2 trace_control c6
    by (simp add: replicate_numeral_unroll control_loop_Cons control_defs phase_increment_def a6ef L2f
        del: control_loop.simps(2))
  have f7: "formantCount a7 = 2"
    by (simp add: a7_def step_fst step_enter_fields a6f)
  have all: "map trigger_targets (obs1 @ obs2)
     = [(False, [1, 1, 1]), (False, [1, 1, 1]), (False, [1, 1, 1]), (False, [1, 1, 1]),
        (False, [1, 1, 1]), (False, [1, 1, 1]), (True, [0, 1, 1]), (False, [0, 1, 1]),
        (False, [0, 1, 1]), (False, [0, 1, 1]), (False, [0, 1, 1]), (False, [0, 1, 1]),
        (False, [0, 1, 1]), (True, [0, 1, 1]), (False, [0, 1, 1]), (False, [0, 1, 1])]"
    using v1 v2 by (simp add: trigger_targets_def [abs_def])
  from arg_cong [OF all, of length] have len: "length (obs1 @ obs2) = 16"
    by simp
  have lt: "13 < length (obs1 @ obs2)"
    unfolding len by simp
  have "map trigger_targets (obs1 @ obs2) ! 13 = trigger_targets ((obs1 @ obs2) ! 13)"
    using lt by (rule nth_map)
  moreover have "map trigger_targets (obs1 @ obs2) ! 13 = (True, [0, 1, 1])"
    by (simp only: all) simp
  ultimately have at13: "trigger_targets ((obs1 @ obs2) ! 13) = (True, [0, 1, 1])"
    by (rule trans [OF sym])
  show ?thesis
    unfolding r fst_conv snd_conv using f7 all at13 by blast
qed

end
